theory Spec2Isabelle
  imports Complex_Main
begin

section \<open>JavaScript numbers\<close>

text \<open>
  The analyzer computes with JavaScript numbers. A number is modelled as a finite real
  or one of the three special values of IEEE arithmetic; the special values follow the
  language's rules (\<open>x / 0\<close> is an infinity or \<open>NaN\<close>, \<open>NaN\<close> is absorbing,
  \<open>Math.min\<close> and \<open>Math.max\<close> return \<open>NaN\<close> when an argument is \<open>NaN\<close>).
  Finite arithmetic is exact (no rounding to 53 bits, no overflow) and zero is unsigned.
  A field that holds \<open>undefined\<close> is read as \<open>NaN\<close>, the value every arithmetic
  position of the scoring functions converts it to.
\<close>

datatype jsnum = Num real | PInf | NInf | NaN

fun js_neg :: "jsnum \<Rightarrow> jsnum" where
  "js_neg (Num a) = Num (- a)"
| "js_neg PInf = NInf"
| "js_neg NInf = PInf"
| "js_neg NaN = NaN"

fun js_add :: "jsnum \<Rightarrow> jsnum \<Rightarrow> jsnum" where
  "js_add NaN _ = NaN"
| "js_add _ NaN = NaN"
| "js_add (Num a) (Num b) = Num (a + b)"
| "js_add PInf NInf = NaN"
| "js_add NInf PInf = NaN"
| "js_add PInf _ = PInf"
| "js_add _ PInf = PInf"
| "js_add NInf _ = NInf"
| "js_add _ NInf = NInf"

definition js_sub :: "jsnum \<Rightarrow> jsnum \<Rightarrow> jsnum" where
  "js_sub a b = js_add a (js_neg b)"

fun js_mul :: "jsnum \<Rightarrow> jsnum \<Rightarrow> jsnum" where
  "js_mul NaN _ = NaN"
| "js_mul _ NaN = NaN"
| "js_mul (Num a) (Num b) = Num (a * b)"
| "js_mul (Num a) PInf = (if 0 < a then PInf else if a < 0 then NInf else NaN)"
| "js_mul (Num a) NInf = (if 0 < a then NInf else if a < 0 then PInf else NaN)"
| "js_mul PInf (Num b) = (if 0 < b then PInf else if b < 0 then NInf else NaN)"
| "js_mul NInf (Num b) = (if 0 < b then NInf else if b < 0 then PInf else NaN)"
| "js_mul PInf PInf = PInf"
| "js_mul PInf NInf = NInf"
| "js_mul NInf PInf = NInf"
| "js_mul NInf NInf = PInf"

fun js_div :: "jsnum \<Rightarrow> jsnum \<Rightarrow> jsnum" where
  "js_div NaN _ = NaN"
| "js_div _ NaN = NaN"
| "js_div (Num a) (Num b) =
     (if b \<noteq> 0 then Num (a / b)
      else if 0 < a then PInf else if a < 0 then NInf else NaN)"
| "js_div (Num a) PInf = Num 0"
| "js_div (Num a) NInf = Num 0"
| "js_div PInf (Num b) = (if 0 \<le> b then PInf else NInf)"
| "js_div NInf (Num b) = (if 0 \<le> b then NInf else PInf)"
| "js_div PInf PInf = NaN"
| "js_div PInf NInf = NaN"
| "js_div NInf PInf = NaN"
| "js_div NInf NInf = NaN"

text \<open>The comparison \<open>a < b\<close>: false as soon as one side is \<open>NaN\<close>.\<close>

fun js_lt :: "jsnum \<Rightarrow> jsnum \<Rightarrow> bool" where
  "js_lt NaN _ = False"
| "js_lt _ NaN = False"
| "js_lt (Num a) (Num b) = (a < b)"
| "js_lt NInf NInf = False"
| "js_lt NInf _ = True"
| "js_lt _ NInf = False"
| "js_lt PInf _ = False"
| "js_lt _ PInf = True"

definition Math_min :: "jsnum \<Rightarrow> jsnum \<Rightarrow> jsnum" where
  "Math_min a b = (if a = NaN \<or> b = NaN then NaN else if js_lt b a then b else a)"

definition Math_max :: "jsnum \<Rightarrow> jsnum \<Rightarrow> jsnum" where
  "Math_max a b = (if a = NaN \<or> b = NaN then NaN else if js_lt a b then b else a)"

fun Math_abs :: "jsnum \<Rightarrow> jsnum" where
  "Math_abs (Num a) = Num \<bar>a\<bar>"
| "Math_abs PInf = PInf"
| "Math_abs NInf = PInf"
| "Math_abs NaN = NaN"

text \<open>\<open>Math.round\<close> rounds to the nearest integer, a tie towards \<open>+\<infinity>\<close>.\<close>

fun Math_round :: "jsnum \<Rightarrow> jsnum" where
  "Math_round (Num a) = Num (of_int \<lfloor>a + 1 / 2\<rfloor>)"
| "Math_round PInf = PInf"
| "Math_round NInf = NInf"
| "Math_round NaN = NaN"

fun Math_log10 :: "jsnum \<Rightarrow> jsnum" where
  "Math_log10 (Num a) = (if a < 0 then NaN else if a = 0 then NInf else Num (log 10 a))"
| "Math_log10 PInf = PInf"
| "Math_log10 NInf = NaN"
| "Math_log10 NaN = NaN"

text \<open>\<open>a || b\<close> on numbers: the falsy numbers are \<open>0\<close> and \<open>NaN\<close>.\<close>

definition js_or :: "jsnum \<Rightarrow> jsnum \<Rightarrow> jsnum" where
  "js_or a b = (if a = Num 0 \<or> a = NaN then b else a)"

section \<open>Snapshots\<close>

text \<open>
  The objects the three fetchers return, with the fields the analyzer reads
  (\<open>_fetchCoinGeckoData\<close>, \<open>_fetchEtherscanData\<close> and \<open>_fetchSolanaData\<close>,
  \<open>_fetchDexScreenerData\<close>).
\<close>

record market_data =
  current_price :: jsnum
  price_change_percentage_24h :: jsnum
  market_cap :: jsnum
  volume_24h :: jsnum
  avg_volume_7d :: jsnum
  avg_price_7d :: jsnum

record chain_data =
  top_1_pct :: jsnum
  top_10_pct :: jsnum
  top_100_pct :: jsnum
  top_10_holders :: jsnum
  retail_pct :: jsnum
  total_holders :: jsnum

record dex_data =
  liquidity :: jsnum
  top_5_pool_concentration :: jsnum

section \<open>Scoring engine\<close>

text \<open>
  \<open>_calculateGreedScore\<close>, \<open>_calculateDecentralization\<close>, \<open>_calculateVolatility\<close> and
  \<open>_calculateLiquidity\<close> read the same in \<open>src/api/analyze.js\<close> and in both files of
  \<open>src/unnamed/part_001\<close>.
\<close>

definition calculateGreedScore :: "market_data \<Rightarrow> chain_data \<Rightarrow> jsnum" where
  "calculateGreedScore m c =
     (let volumeSpike = Math_min (Num 100)
            (js_mul (js_sub (js_div (volume_24h m) (avg_volume_7d m)) (Num 1)) (Num 40));
          priceSurge = Math_min (Num 100)
            (js_mul (js_sub (js_div (current_price m) (avg_price_7d m)) (Num 1)) (Num 100));
          whaleDominance = Math_min (Num 100) (js_mul (top_10_holders c) (Num (3 / 2)))
      in Math_round
           (js_add (js_add (js_mul volumeSpike (Num (1 / 4))) (js_mul priceSurge (Num (3 / 10))))
                   (js_mul whaleDominance (Num (1 / 4)))))"

definition calculateDecentralization :: "chain_data \<Rightarrow> jsnum" where
  "calculateDecentralization c =
     (let weighted =
            js_add (js_add (js_mul (top_1_pct c) (Num (65 / 100))) (js_mul (top_10_pct c) (Num (1 / 4))))
                   (js_mul (top_100_pct c) (Num (1 / 10)))
      in Math_round (Math_max (Num 0) (js_sub (Num 100) weighted)))"

text \<open>\<open>_calculateRetailScore\<close> of \<open>src/unnamed/part_001\<close>: \<open>total_holders || 1\<close>.\<close>

definition calculateRetailScore :: "chain_data \<Rightarrow> jsnum" where
  "calculateRetailScore c =
     (let holderFactor =
            js_mul (Math_min (Num 10) (Math_log10 (js_or (total_holders c) (Num 1)))) (Num 2)
      in Math_round (Math_max (Num 0)
           (js_add (js_sub (js_mul (retail_pct c) (Num (3 / 2))) (js_mul (top_1_pct c) (Num (4 / 5))))
                   holderFactor)))"

text \<open>\<open>_calculateRetailScore\<close> of \<open>src/api/analyze.js\<close>: the logarithm of \<open>total_holders\<close> itself.\<close>

definition api_calculateRetailScore :: "chain_data \<Rightarrow> jsnum" where
  "api_calculateRetailScore c =
     (let holderFactor = js_mul (Math_min (Num 10) (Math_log10 (total_holders c))) (Num 2)
      in Math_round (Math_max (Num 0)
           (js_add (js_sub (js_mul (retail_pct c) (Num (3 / 2))) (js_mul (top_1_pct c) (Num (4 / 5))))
                   holderFactor)))"

definition calculateVolatility :: "market_data \<Rightarrow> jsnum" where
  "calculateVolatility m =
     (let priceChange = Math_abs (price_change_percentage_24h m);
          volumeRatio = js_div (volume_24h m) (market_cap m)
      in Math_round (Math_min (Num 100)
           (js_add (js_mul priceChange (Num (3 / 2))) (js_mul (js_sub (Num 1) volumeRatio) (Num 30)))))"

definition calculateLiquidity :: "market_data \<Rightarrow> dex_data \<Rightarrow> jsnum" where
  "calculateLiquidity m d =
     (let liquidityRatio = js_div (liquidity d) (market_cap m);
          multiplier = Num 175;
          multiplier = (if js_lt (market_cap m) (Num 100000000) then Num 200 else multiplier);
          multiplier = (if js_lt (Num 1000000000) (market_cap m) then Num 150 else multiplier)
      in Math_round (Math_min (Num 100) (js_mul liquidityRatio multiplier)))"

section \<open>Strings, \<open>undefined\<close> and \<open>null\<close>\<close>

text \<open>
  The arguments of \<open>analyze\<close> come from a JSON body: a string, or \<open>undefined\<close> or
  \<open>null\<close> when the field is missing.
\<close>

datatype jsval = Undefined | Null | Str string

fun truthy :: "jsval \<Rightarrow> bool" where
  "truthy (Str s) = (s \<noteq> [])"
| "truthy Undefined = False"
| "truthy Null = False"

text \<open>The string a template literal or \<open>RegExp.test\<close> converts a value to.\<close>

fun to_string :: "jsval \<Rightarrow> string" where
  "to_string (Str s) = s"
| "to_string Undefined = ''undefined''"
| "to_string Null = ''null''"

definition or_else :: "jsval \<Rightarrow> jsval \<Rightarrow> jsval" where
  "or_else a b = (if truthy a then a else b)"

text \<open>A default parameter value replaces \<open>undefined\<close> only.\<close>

definition default_param :: "jsval \<Rightarrow> jsval \<Rightarrow> jsval" where
  "default_param v d = (if v = Undefined then d else v)"

fun join :: "string \<Rightarrow> string list \<Rightarrow> string" where
  "join sep [] = []"
| "join sep [x] = x"
| "join sep (x # y # ys) = x @ sep @ join sep (y # ys)"

section \<open>Configuration\<close>

text \<open>
  \<open>ENCRYPT_CACHE\<close> is \<open>process.env.NODE_ENV === 'production'\<close>, read once when the
  module is loaded. \<open>sha256_hex\<close> stands for
  \<open>crypto.createHash('sha256').update(s).digest('hex')\<close> of the Node library.
\<close>

record config =
  ENCRYPT_CACHE :: bool
  sha256_hex :: "string \<Rightarrow> string"

definition CACHE_TTL :: int where
  "CACHE_TTL = 300000"

definition MAX_REQUESTS_PER_MINUTE :: nat where
  "MAX_REQUESTS_PER_MINUTE = 100"

section \<open>Validation\<close>

text \<open>\<open>VALIDATION_PATTERNS\<close>: each regular expression as a predicate on the string.\<close>

definition COIN_ID :: "string \<Rightarrow> bool" where
  "COIN_ID s = (s \<noteq> [] \<and> list_all (\<lambda>c. List.member ''abcdefghijklmnopqrstuvwxyz0123456789-'' c) s)"

definition CONTRACT_ADDRESS :: "string \<Rightarrow> bool" where
  "CONTRACT_ADDRESS s =
     (case s of
        c0 # c1 # rest \<Rightarrow>
          c0 = CHR ''0'' \<and> c1 = CHR ''x'' \<and> length rest = 40 \<and>
          list_all (\<lambda>c. List.member ''abcdefABCDEF0123456789'' c) rest
      | _ \<Rightarrow> False)"

definition SOLANA_ADDRESS :: "string \<Rightarrow> bool" where
  "SOLANA_ADDRESS s =
     (32 \<le> length s \<and> length s \<le> 44 \<and>
      list_all (\<lambda>c. List.member ''123456789ABCDEFGHJKLMNPQRSTUVWXYZabcdefghijkmnopqrstuvwxyz'' c) s)"

text \<open>\<open>_validateInput\<close> of \<open>src/unnamed/part_001\<close>: a check is skipped on a falsy value.\<close>

definition validateInput :: "jsval \<Rightarrow> jsval \<Rightarrow> jsval \<Rightarrow> string + unit" where
  "validateInput coinId contractAddress chain =
     (let errors = [];
          errors = (if truthy coinId \<and> \<not> COIN_ID (to_string coinId)
                    then errors @ [''Invalid coin ID format''] else errors);
          errors = (if truthy contractAddress \<and> chain = Str ''eth'' \<and>
                       \<not> CONTRACT_ADDRESS (to_string contractAddress)
                    then errors @ [''Invalid Ethereum contract address''] else errors);
          errors = (if truthy contractAddress \<and> chain = Str ''sol'' \<and>
                       \<not> SOLANA_ADDRESS (to_string contractAddress)
                    then errors @ [''Invalid Solana token address''] else errors)
      in if errors \<noteq> [] then Inl (''Validation failed: '' @ join '', '' errors) else Inr ())"

text \<open>\<open>_validateInput\<close> of \<open>src/api/analyze.js\<close>: every value is tested as it is.\<close>

definition api_validateInput :: "jsval \<Rightarrow> jsval \<Rightarrow> jsval \<Rightarrow> string + unit" where
  "api_validateInput coinId contractAddress chain =
     (let errors = [];
          errors = (if \<not> COIN_ID (to_string coinId)
                    then errors @ [''Invalid coin ID format''] else errors);
          errors = (if chain = Str ''eth'' \<and> \<not> CONTRACT_ADDRESS (to_string contractAddress)
                    then errors @ [''Invalid Ethereum contract address''] else errors);
          errors = (if chain = Str ''sol'' \<and> \<not> SOLANA_ADDRESS (to_string contractAddress)
                    then errors @ [''Invalid Solana token address''] else errors)
      in if errors \<noteq> [] then Inl (''Validation failed: '' @ join '', '' errors) else Inr ())"

section \<open>Rate limiter\<close>

text \<open>
  \<open>_checkRateLimit\<close>, the same in every file: \<open>now\<close> is the reading of \<open>Date.now()\<close>.
  The new timestamp is stored before the length is tested, so a denied call is recorded
  as well.
\<close>

definition checkRateLimit ::
  "int \<Rightarrow> jsval \<Rightarrow> (jsval \<rightharpoonup> int list) \<Rightarrow> (string + unit) \<times> (jsval \<rightharpoonup> int list)" where
  "checkRateLimit now clientId requestCounts =
     (let windowStart = now - 60000;
          stored = (case requestCounts clientId of None \<Rightarrow> [] | Some ts \<Rightarrow> ts);
          timestamps = filter (\<lambda>t. windowStart < t) stored;
          timestamps = timestamps @ [now];
          requestCounts = requestCounts(clientId \<mapsto> timestamps)
      in (if MAX_REQUESTS_PER_MINUTE < length timestamps
          then Inl ''Rate limit exceeded'' else Inr (),
          requestCounts))"

text \<open>The timestamps a client has on record, and a client calling at the given times.\<close>

definition stored :: "(jsval \<rightharpoonup> int list) \<Rightarrow> jsval \<Rightarrow> int list" where
  "stored requestCounts clientId =
     (case requestCounts clientId of None \<Rightarrow> [] | Some ts \<Rightarrow> ts)"

fun admit_all ::
  "jsval \<Rightarrow> (jsval \<rightharpoonup> int list) \<Rightarrow> int list \<Rightarrow> (string + unit) list \<times> (jsval \<rightharpoonup> int list)" where
  "admit_all clientId requestCounts [] = ([], requestCounts)"
| "admit_all clientId requestCounts (now # later) =
     (let (r, requestCounts) = checkRateLimit now clientId requestCounts;
          (rs, requestCounts) = admit_all clientId requestCounts later
      in (r # rs, requestCounts))"

definition verdict :: "nat \<Rightarrow> string + unit" where
  "verdict n = (if MAX_REQUESTS_PER_MINUTE < n then Inl ''Rate limit exceeded'' else Inr ())"

section \<open>The outside world of one invocation\<close>

text \<open>
  What one call of \<open>analyze\<close> reads from outside: the clock at the places where the
  source calls \<open>Date.now()\<close> or \<open>new Date()\<close>, and the outcome of every request an
  upstream helper may send. An outcome is \<open>Inl\<close> the message of the error thrown or
  \<open>Inr\<close> the value. The three fetchers run concurrently, so their outcomes carry the
  time at which the promise settles.

  The market reply holds the fields of the CoinGecko payload that the fetcher reads. The
  holder and the liquidity reply are the objects \<open>_fetchEtherscanData\<close> and
  \<open>_fetchDexScreenerData\<close> build from the holder and the pool list; the lists
  themselves are not modelled. Of the Helius reply only success or failure matters: the
  activity counters computed from it are read nowhere.
\<close>

type_synonym 'a promise = "nat \<times> (string + 'a)"

record platforms =
  ethereum :: jsval
  solana :: jsval

record coingecko_payload =
  current_price_usd :: jsnum
  payload_price_change_percentage_24h :: jsnum
  market_cap_usd :: jsnum
  total_volume_usd :: jsnum

record world =
  now_entry :: int
  now_admission :: int
  now_exit :: int
  now_stamp :: int
  search_reply :: "string \<Rightarrow> string + jsval list"
  detail_reply :: "string \<Rightarrow> string + platforms"
  contract_reply :: "string \<Rightarrow> string \<Rightarrow> string + jsval"
  coingecko_reply :: "string \<Rightarrow> coingecko_payload promise"
  etherscan_reply :: "string \<Rightarrow> chain_data promise"
  helius_reply :: "string \<Rightarrow> unit promise"
  dexscreener_reply :: "string \<Rightarrow> dex_data promise"

definition Promise_resolve :: "'a \<Rightarrow> 'a promise" where
  "Promise_resolve v = (0, Inr v)"

definition rejection :: "'a promise \<Rightarrow> (nat \<times> string) list" where
  "rejection p = (case snd p of Inl e \<Rightarrow> [(fst p, e)] | Inr _ \<Rightarrow> [])"

text \<open>
  The rejection that settles first; of two that settle together, the one earlier in the
  array. The empty list does not occur where \<open>earliest\<close> is used.
\<close>

fun earliest :: "(nat \<times> string) list \<Rightarrow> nat \<times> string" where
  "earliest [] = (0, [])"
| "earliest [x] = x"
| "earliest (x # y # ys) = (let z = earliest (y # ys) in if fst z < fst x then z else x)"

text \<open>\<open>Promise.all\<close> of three promises: all three values, or the first rejection.\<close>

definition Promise_all :: "'a promise \<Rightarrow> 'b promise \<Rightarrow> 'c promise \<Rightarrow> string + ('a \<times> 'b \<times> 'c)" where
  "Promise_all pa pb pc =
     (case (snd pa, snd pb, snd pc) of
        (Inr a, Inr b, Inr c) \<Rightarrow> Inr (a, b, c)
      | _ \<Rightarrow> Inl (snd (earliest (rejection pa @ rejection pb @ rejection pc))))"

section \<open>Upstream helpers\<close>

definition slugFromName :: "world \<Rightarrow> string \<Rightarrow> string + jsval" where
  "slugFromName w name =
     (case search_reply w name of
        Inl e \<Rightarrow> Inl e
      | Inr [] \<Rightarrow> Inl ''Coin not found on CoinGecko''
      | Inr (coin # _) \<Rightarrow> Inr coin)"

definition contractAndChainFromSlug :: "world \<Rightarrow> string \<Rightarrow> string + (jsval \<times> jsval)" where
  "contractAndChainFromSlug w slug =
     (case detail_reply w slug of
        Inl e \<Rightarrow> Inl e
      | Inr d \<Rightarrow>
          if truthy (ethereum d) then Inr (ethereum d, Str ''eth'')
          else if truthy (solana d) then Inr (solana d, Str ''sol'')
          else Inr (Null, Null))"

definition resolveCoinId :: "world \<Rightarrow> jsval \<Rightarrow> jsval \<Rightarrow> string + jsval" where
  "resolveCoinId w contractAddress chain =
     (let base = (if chain = Str ''eth'' then ''ethereum'' else ''solana'')
      in contract_reply w base (to_string contractAddress))"

definition market_of :: "coingecko_payload \<Rightarrow> market_data" where
  "market_of d =
     \<lparr>current_price = current_price_usd d,
      price_change_percentage_24h = payload_price_change_percentage_24h d,
      market_cap = market_cap_usd d,
      volume_24h = total_volume_usd d,
      avg_volume_7d = js_div (total_volume_usd d) (Num 7),
      avg_price_7d = current_price_usd d\<rparr>"

text \<open>The fetchers of \<open>src/unnamed/part_001\<close>: an error is thrown on as it is.\<close>

definition fetchCoinGeckoData :: "world \<Rightarrow> string \<Rightarrow> market_data promise" where
  "fetchCoinGeckoData w coinId =
     (case coingecko_reply w coinId of
        (t, Inl e) \<Rightarrow> (t, Inl e)
      | (t, Inr d) \<Rightarrow> (t, Inr (market_of d)))"

definition fetchEtherscanData :: "world \<Rightarrow> string \<Rightarrow> chain_data promise" where
  "fetchEtherscanData w contractAddress = etherscan_reply w contractAddress"

definition zero_holders :: chain_data where
  "zero_holders =
     \<lparr>top_1_pct = Num 0, top_10_pct = Num 0, top_100_pct = Num 0,
      top_10_holders = Num 0, retail_pct = Num 0, total_holders = Num 0\<rparr>"

definition zero_liquidity :: dex_data where
  "zero_liquidity = \<lparr>liquidity = Num 0, top_5_pool_concentration = Num 0\<rparr>"

definition fetchSolanaData :: "world \<Rightarrow> string \<Rightarrow> chain_data promise" where
  "fetchSolanaData w contractAddress =
     (case helius_reply w contractAddress of
        (t, Inl e) \<Rightarrow> (t, Inl e)
      | (t, Inr _) \<Rightarrow> (t, Inr zero_holders))"

definition fetchDexScreenerData :: "world \<Rightarrow> string \<Rightarrow> dex_data promise" where
  "fetchDexScreenerData w contractAddress = dexscreener_reply w contractAddress"

text \<open>
  The fetchers of \<open>src/api/analyze.js\<close>: each catches any error and throws its own
  message. Its Solana fetcher returns the activity counters only, so every holder field
  of the object is \<open>undefined\<close>.
\<close>

definition api_fetchCoinGeckoData :: "world \<Rightarrow> string \<Rightarrow> market_data promise" where
  "api_fetchCoinGeckoData w coinId =
     (case coingecko_reply w coinId of
        (t, Inl e) \<Rightarrow> (t, Inl ''Failed to fetch market data'')
      | (t, Inr d) \<Rightarrow> (t, Inr (market_of d)))"

definition api_fetchEtherscanData :: "world \<Rightarrow> string \<Rightarrow> chain_data promise" where
  "api_fetchEtherscanData w contractAddress =
     (case etherscan_reply w contractAddress of
        (t, Inl e) \<Rightarrow> (t, Inl ''Failed to fetch holder data'')
      | (t, Inr c) \<Rightarrow> (t, Inr c))"

definition undefined_holders :: chain_data where
  "undefined_holders =
     \<lparr>top_1_pct = NaN, top_10_pct = NaN, top_100_pct = NaN,
      top_10_holders = NaN, retail_pct = NaN, total_holders = NaN\<rparr>"

definition api_fetchSolanaData :: "world \<Rightarrow> string \<Rightarrow> chain_data promise" where
  "api_fetchSolanaData w contractAddress =
     (case helius_reply w contractAddress of
        (t, Inl e) \<Rightarrow> (t, Inl ''Failed to fetch Solana activity data'')
      | (t, Inr _) \<Rightarrow> (t, Inr undefined_holders))"

definition api_fetchDexScreenerData :: "world \<Rightarrow> string \<Rightarrow> dex_data promise" where
  "api_fetchDexScreenerData w contractAddress =
     (case dexscreener_reply w contractAddress of
        (t, Inl e) \<Rightarrow> (t, Inl ''Failed to fetch liquidity data'')
      | (t, Inr d) \<Rightarrow> (t, Inr d))"

section \<open>Results and analyzer state\<close>

record scores =
  greed :: jsnum
  decentralization :: jsnum
  retail :: jsnum
  volatility :: jsnum
  liquidity_score :: jsnum

text \<open>
  The \<open>basic\<close> object of \<open>src/api/analyze.js\<close>; the one of \<open>src/unnamed/part_001\<close>
  has a \<open>name\<close> as well.
\<close>

record api_basic =
  price :: jsnum
  price_change_24h :: jsnum
  basic_market_cap :: jsnum
  basic_volume_24h :: jsnum
  contract_address :: jsval

record basic = api_basic +
  name :: jsval

text \<open>
  The object \<open>analyze\<close> returns. \<open>error\<close> holds of the object built in the
  \<open>catch\<close> block, the one with \<open>error: true\<close>. \<open>timestamp\<close> is the instant
  \<open>new Date()\<close> reads, in milliseconds; \<open>fromCache\<close> is false where the object has
  no such field.
\<close>

datatype 'b result =
    Analysis (basic: 'b) (scores: scores) (processingTime: int) (timestamp: int) (fromCache: bool)
  | error: Failure (message: string) (processingTime: int) (timestamp: int)
  where "fromCache (Failure m pt ts) = False"

text \<open>
  \<open>{ ...cached, fromCache: true }\<close>. The cache holds objects built on the success path
  only, so the second equation is never used.
\<close>

fun with_fromCache :: "'b result \<Rightarrow> 'b result" where
  "with_fromCache (Analysis b sc pt ts fc) = Analysis b sc pt ts True"
| "with_fromCache (Failure m pt ts) = Failure m pt ts"

text \<open>
  The two maps of a \<open>CryptoRiskAnalyzer\<close>, and the timers it has handed to
  \<open>setTimeout\<close> that have not run yet: the time each is due and the key it deletes.
\<close>

record 'b analyzer =
  cache :: "string \<rightharpoonup> 'b result"
  requestCounts :: "jsval \<rightharpoonup> int list"
  timers :: "(int \<times> string) list"

definition new_analyzer :: "'b analyzer" where
  "new_analyzer = \<lparr>cache = Map.empty, requestCounts = Map.empty, timers = []\<rparr>"

text \<open>The steps of one invocation, in the order in which they are taken.\<close>

datatype event =
    Call_search string
  | Call_detail string
  | Call_contract string string
  | Validation
  | Admission jsval
  | Cache_lookup string
  | Call_market string
  | Call_etherscan string
  | Call_helius string
  | Call_dexscreener string
  | Scoring
  | Cache_store string

definition cacheKey_of :: "config \<Rightarrow> jsval \<Rightarrow> jsval \<Rightarrow> jsval \<Rightarrow> string" where
  "cacheKey_of cfg coinId contractAddress chain =
     sha256_hex cfg (to_string coinId @ '':'' @ to_string contractAddress @ '':'' @ to_string chain)"

section \<open>\<open>analyze\<close> of the second file in \<open>src/unnamed/part_001\<close>\<close>

text \<open>The three steps that fill in what the caller left out.\<close>

definition resolve ::
  "world \<Rightarrow> jsval \<Rightarrow> jsval \<Rightarrow> jsval \<Rightarrow> jsval \<Rightarrow> (string + jsval \<times> jsval \<times> jsval) \<times> event list" where
  "resolve w coinId contractAddress chain coinName =
     (case (if \<not> truthy coinId \<and> truthy coinName
            then (slugFromName w (to_string coinName), [Call_search (to_string coinName)])
            else (Inr coinId, [])) of
        (Inl e, tr1) \<Rightarrow> (Inl e, tr1)
      | (Inr coinId, tr1) \<Rightarrow>
          (case (if (\<not> truthy contractAddress \<or> \<not> truthy chain) \<and> truthy coinId
                 then (case contractAndChainFromSlug w (to_string coinId) of
                         Inl e \<Rightarrow> Inl e
                       | Inr info \<Rightarrow>
                           Inr (or_else contractAddress (fst info), or_else chain (snd info)),
                       [Call_detail (to_string coinId)])
                 else (Inr (contractAddress, chain), [])) of
             (Inl e, tr2) \<Rightarrow> (Inl e, tr1 @ tr2)
           | (Inr (contractAddress, chain), tr2) \<Rightarrow>
               (if \<not> truthy coinId \<and> truthy contractAddress \<and> truthy chain
                then (case resolveCoinId w contractAddress chain of
                        Inl e \<Rightarrow> Inl e
                      | Inr coinId \<Rightarrow> Inr (coinId, contractAddress, chain),
                      tr1 @ tr2 @ [Call_contract (to_string contractAddress) (to_string chain)])
                else (Inr (coinId, contractAddress, chain), tr1 @ tr2))))"

text \<open>The three promises and \<open>Promise.all\<close>, with the requests that were sent.\<close>

definition aggregate ::
  "world \<Rightarrow> jsval \<Rightarrow> jsval \<Rightarrow> jsval \<Rightarrow> (string + market_data \<times> chain_data \<times> dex_data) \<times> event list" where
  "aggregate w coinId contractAddress chain =
     (let marketP = fetchCoinGeckoData w (to_string coinId);
          (chainP, dexP, sent) =
            (if truthy contractAddress \<and> truthy chain
             then (if chain = Str ''eth'' then fetchEtherscanData w (to_string contractAddress)
                   else fetchSolanaData w (to_string contractAddress),
                   fetchDexScreenerData w (to_string contractAddress),
                   [if chain = Str ''eth'' then Call_etherscan (to_string contractAddress)
                    else Call_helius (to_string contractAddress),
                    Call_dexscreener (to_string contractAddress)])
             else (Promise_resolve zero_holders, Promise_resolve zero_liquidity, []))
      in (Promise_all marketP chainP dexP, Call_market (to_string coinId) # sent))"

text \<open>The object built from the three snapshots.\<close>

definition compose_result ::
  "world \<Rightarrow> int \<Rightarrow> jsval \<Rightarrow> jsval \<Rightarrow> jsval \<Rightarrow> market_data \<Rightarrow> chain_data \<Rightarrow> dex_data \<Rightarrow>
     basic result" where
  "compose_result w t0 coinName coinId contractAddress m c d =
     Analysis
       \<lparr>price = current_price m,
        price_change_24h = price_change_percentage_24h m,
        basic_market_cap = market_cap m,
        basic_volume_24h = volume_24h m,
        contract_address = contractAddress,
        name = or_else coinName coinId\<rparr>
       \<lparr>greed = calculateGreedScore m c,
        decentralization = calculateDecentralization c,
        retail = calculateRetailScore c,
        volatility = calculateVolatility m,
        liquidity_score = calculateLiquidity m d\<rparr>
       (now_exit w - t0) (now_stamp w) False"

text \<open>\<open>_validateInput\<close> as \<open>analyze\<close> calls it: a native coin has no contract to check.\<close>

definition validate_identity :: "jsval \<Rightarrow> jsval \<Rightarrow> jsval \<Rightarrow> string + unit" where
  "validate_identity coinId contractAddress chain =
     (if truthy contractAddress \<and> truthy chain
      then validateInput coinId contractAddress chain
      else validateInput coinId Null Null)"

text \<open>
  The body of the \<open>try\<close> block: \<open>Inl\<close> the message of the error thrown, or \<open>Inr\<close> the
  object returned, with the state the analyzer is left in and the steps taken.
\<close>

definition analyze_try ::
  "config \<Rightarrow> world \<Rightarrow> basic analyzer \<Rightarrow> int \<Rightarrow> jsval \<Rightarrow> jsval \<Rightarrow> jsval \<Rightarrow> jsval \<Rightarrow> jsval \<Rightarrow>
     (string + basic result) \<times> basic analyzer \<times> event list" where
  "analyze_try cfg w s t0 coinId contractAddress chain clientId coinName =
     (case resolve w coinId contractAddress chain coinName of
        (Inl e, tr) \<Rightarrow> (Inl e, s, tr)
      | (Inr (coinId, contractAddress, chain), tr) \<Rightarrow>
          (case validate_identity coinId contractAddress chain of
             Inl e \<Rightarrow> (Inl e, s, tr @ [Validation])
           | Inr _ \<Rightarrow>
               (case checkRateLimit (now_admission w) clientId (requestCounts s) of
                  (Inl e, counts) \<Rightarrow>
                    (Inl e, s\<lparr>requestCounts := counts\<rparr>, tr @ [Validation, Admission clientId])
                | (Inr _, counts) \<Rightarrow>
                    (let s = s\<lparr>requestCounts := counts\<rparr>;
                         cacheKey = cacheKey_of cfg coinId contractAddress chain;
                         tr = tr @ [Validation, Admission clientId, Cache_lookup cacheKey]
                     in case cache s cacheKey of
                          Some cached \<Rightarrow> (Inr (with_fromCache cached), s, tr)
                        | None \<Rightarrow>
                            (case aggregate w coinId contractAddress chain of
                               (Inl e, sent) \<Rightarrow> (Inl e, s, tr @ sent)
                             | (Inr (m, c, d), sent) \<Rightarrow>
                                 (let res = compose_result w t0 coinName coinId contractAddress m c d
                                  in if ENCRYPT_CACHE cfg
                                     then (Inr res,
                                           s\<lparr>cache := (cache s)(cacheKey \<mapsto> res),
                                             timers := timers s @ [(now_exit w + CACHE_TTL, cacheKey)]\<rparr>,
                                           tr @ sent @ [Scoring, Cache_store cacheKey])
                                     else (Inr res, s, tr @ sent @ [Scoring])))))))"

definition analyze ::
  "config \<Rightarrow> world \<Rightarrow> basic analyzer \<Rightarrow> jsval \<Rightarrow> jsval \<Rightarrow> jsval \<Rightarrow> jsval \<Rightarrow> jsval \<Rightarrow>
     basic result \<times> basic analyzer \<times> event list" where
  "analyze cfg w s coinId contractAddress chain clientId coinName =
     (let chain = default_param chain (Str ''eth'');
          clientId = default_param clientId (Str ''default'');
          coinName = default_param coinName (Str []);
          t0 = now_entry w
      in case analyze_try cfg w s t0 coinId contractAddress chain clientId coinName of
           (Inr res, s, tr) \<Rightarrow> (res, s, tr)
         | (Inl msg, s, tr) \<Rightarrow> (Failure msg (now_exit w - t0) (now_stamp w), s, tr))"

section \<open>\<open>analyze\<close> of \<open>src/api/analyze.js\<close>\<close>

definition api_compose_result ::
  "world \<Rightarrow> int \<Rightarrow> jsval \<Rightarrow> market_data \<Rightarrow> chain_data \<Rightarrow> dex_data \<Rightarrow> api_basic result" where
  "api_compose_result w startTime contractAddress marketData chainData dexData =
     Analysis
       \<lparr>price = current_price marketData,
        price_change_24h = price_change_percentage_24h marketData,
        basic_market_cap = market_cap marketData,
        basic_volume_24h = volume_24h marketData,
        contract_address = contractAddress\<rparr>
       \<lparr>greed = calculateGreedScore marketData chainData,
        decentralization = calculateDecentralization chainData,
        retail = api_calculateRetailScore chainData,
        volatility = calculateVolatility marketData,
        liquidity_score = calculateLiquidity marketData dexData\<rparr>
       (now_exit w - startTime) (now_stamp w) False"

text \<open>The three promises and \<open>Promise.all\<close>: every fetcher is called.\<close>

definition api_aggregate ::
  "world \<Rightarrow> jsval \<Rightarrow> jsval \<Rightarrow> jsval \<Rightarrow> (string + market_data \<times> chain_data \<times> dex_data) \<times> event list" where
  "api_aggregate w coinId contractAddress chain =
     (Promise_all
        (api_fetchCoinGeckoData w (to_string coinId))
        (if chain = Str ''eth''
         then api_fetchEtherscanData w (to_string contractAddress)
         else api_fetchSolanaData w (to_string contractAddress))
        (api_fetchDexScreenerData w (to_string contractAddress)),
      [Call_market (to_string coinId),
       if chain = Str ''eth'' then Call_etherscan (to_string contractAddress)
       else Call_helius (to_string contractAddress),
       Call_dexscreener (to_string contractAddress)])"

definition api_analyze_try ::
  "config \<Rightarrow> world \<Rightarrow> api_basic analyzer \<Rightarrow> int \<Rightarrow> jsval \<Rightarrow> jsval \<Rightarrow> jsval \<Rightarrow> jsval \<Rightarrow>
     (string + api_basic result) \<times> api_basic analyzer \<times> event list" where
  "api_analyze_try cfg w s startTime coinId contractAddress chain clientId =
     (case api_validateInput coinId contractAddress chain of
        Inl e \<Rightarrow> (Inl e, s, [Validation])
      | Inr _ \<Rightarrow>
          (case checkRateLimit (now_admission w) clientId (requestCounts s) of
             (Inl e, counts) \<Rightarrow>
               (Inl e, s\<lparr>requestCounts := counts\<rparr>, [Validation, Admission clientId])
           | (Inr _, counts) \<Rightarrow>
               (let s = s\<lparr>requestCounts := counts\<rparr>;
                    cacheKey = cacheKey_of cfg coinId contractAddress chain;
                    tr = [Validation, Admission clientId, Cache_lookup cacheKey]
                in case cache s cacheKey of
                     Some cached \<Rightarrow> (Inr (with_fromCache cached), s, tr)
                   | None \<Rightarrow>
                       (case api_aggregate w coinId contractAddress chain of
                          (Inl e, sent) \<Rightarrow> (Inl e, s, tr @ sent)
                        | (Inr (marketData, chainData, dexData), sent) \<Rightarrow>
                            (let result = api_compose_result w startTime contractAddress
                                            marketData chainData dexData
                             in if ENCRYPT_CACHE cfg
                                then (Inr result,
                                      s\<lparr>cache := (cache s)(cacheKey \<mapsto> result)\<rparr>,
                                      tr @ sent @ [Scoring, Cache_store cacheKey])
                                else (Inr result, s, tr @ sent @ [Scoring]))))))"

definition api_analyze ::
  "config \<Rightarrow> world \<Rightarrow> api_basic analyzer \<Rightarrow> jsval \<Rightarrow> jsval \<Rightarrow> jsval \<Rightarrow> jsval \<Rightarrow>
     api_basic result \<times> api_basic analyzer \<times> event list" where
  "api_analyze cfg w s coinId contractAddress chain clientId =
     (let chain = default_param chain (Str ''eth'');
          clientId = default_param clientId (Str ''default'');
          startTime = now_entry w
      in case api_analyze_try cfg w s startTime coinId contractAddress chain clientId of
           (Inr result, s, tr) \<Rightarrow> (result, s, tr)
         | (Inl msg, s, tr) \<Rightarrow> (Failure msg (now_exit w - startTime) (now_stamp w), s, tr))"



section \<open>\<open>analyze\<close> of the first file in \<open>src/unnamed/part_001\<close>\<close>

text \<open>
  \<open>src/unnamed/part_001\<close> holds two files, each with an analyzer of its own. The
  definitions \<open>validateInput\<close>, \<open>aggregate\<close>, \<open>analyze_try\<close> and \<open>analyze\<close> above
  are those of the second file (from line 295 on). The analyzer of the first file (lines
  1 to 293) differs from it in the messages of \<open>_validateInput\<close> and
  \<open>_checkRateLimit\<close> and in the test before the holder and the liquidity request:
  \<open>contractAddress\<close> alone decides, each of the two on its own. Resolution, scoring
  and the object built are the same. The fetchers send the same requests and throw the
  same errors; the holder percentages are computed from the holder list by another
  helper, and the list is not modelled.
\<close>

definition cg_validateInput :: "jsval \<Rightarrow> jsval \<Rightarrow> jsval \<Rightarrow> string + unit" where
  "cg_validateInput coinId contractAddress chain =
     (let errs = [];
          errs = (if truthy coinId \<and> \<not> COIN_ID (to_string coinId)
                  then errs @ [''Bad coinId''] else errs);
          errs = (if truthy contractAddress \<and> chain = Str ''eth'' \<and>
                     \<not> CONTRACT_ADDRESS (to_string contractAddress)
                  then errs @ [''Bad ETH address''] else errs);
          errs = (if truthy contractAddress \<and> chain = Str ''sol'' \<and>
                     \<not> SOLANA_ADDRESS (to_string contractAddress)
                  then errs @ [''Bad SOL address''] else errs)
      in if errs \<noteq> [] then Inl (''Validation failed: '' @ join '', '' errs) else Inr ())"

definition cg_validate_identity :: "jsval \<Rightarrow> jsval \<Rightarrow> jsval \<Rightarrow> string + unit" where
  "cg_validate_identity coinId contractAddress chain =
     (if truthy contractAddress \<and> truthy chain
      then cg_validateInput coinId contractAddress chain
      else cg_validateInput coinId Null Null)"

definition cg_checkRateLimit ::
  "int \<Rightarrow> jsval \<Rightarrow> (jsval \<rightharpoonup> int list) \<Rightarrow> (string + unit) \<times> (jsval \<rightharpoonup> int list)" where
  "cg_checkRateLimit now clientId counts =
     (let win = now - 60000;
          held = (case counts clientId of None \<Rightarrow> [] | Some ts \<Rightarrow> ts);
          arr = filter (\<lambda>t. win < t) held;
          arr = arr @ [now];
          counts = counts(clientId \<mapsto> arr)
      in (if MAX_REQUESTS_PER_MINUTE < length arr then Inl ''Rate limit'' else Inr (),
          counts))"

definition cg_aggregate ::
  "world \<Rightarrow> jsval \<Rightarrow> jsval \<Rightarrow> jsval \<Rightarrow> (string + market_data \<times> chain_data \<times> dex_data) \<times> event list" where
  "cg_aggregate w coinId contractAddress chain =
     (let marketP = fetchCoinGeckoData w (to_string coinId);
          (chainP, sentChain) =
            (if truthy contractAddress
             then (if chain = Str ''eth''
                   then (fetchEtherscanData w (to_string contractAddress),
                         [Call_etherscan (to_string contractAddress)])
                   else (fetchSolanaData w (to_string contractAddress),
                         [Call_helius (to_string contractAddress)]))
             else (Promise_resolve zero_holders, []));
          (dexP, sentDex) =
            (if truthy contractAddress
             then (fetchDexScreenerData w (to_string contractAddress),
                   [Call_dexscreener (to_string contractAddress)])
             else (Promise_resolve zero_liquidity, []))
      in (Promise_all marketP chainP dexP, Call_market (to_string coinId) # sentChain @ sentDex))"

definition cg_analyze_try ::
  "config \<Rightarrow> world \<Rightarrow> basic analyzer \<Rightarrow> int \<Rightarrow> jsval \<Rightarrow> jsval \<Rightarrow> jsval \<Rightarrow> jsval \<Rightarrow> jsval \<Rightarrow>
     (string + basic result) \<times> basic analyzer \<times> event list" where
  "cg_analyze_try cfg w s t0 coinId contractAddress chain clientId coinName =
     (case resolve w coinId contractAddress chain coinName of
        (Inl e, tr) \<Rightarrow> (Inl e, s, tr)
      | (Inr (coinId, contractAddress, chain), tr) \<Rightarrow>
          (case cg_validate_identity coinId contractAddress chain of
             Inl e \<Rightarrow> (Inl e, s, tr @ [Validation])
           | Inr _ \<Rightarrow>
               (case cg_checkRateLimit (now_admission w) clientId (requestCounts s) of
                  (Inl e, counts) \<Rightarrow>
                    (Inl e, s\<lparr>requestCounts := counts\<rparr>, tr @ [Validation, Admission clientId])
                | (Inr _, counts) \<Rightarrow>
                    (let s = s\<lparr>requestCounts := counts\<rparr>;
                         cacheKey = cacheKey_of cfg coinId contractAddress chain;
                         tr = tr @ [Validation, Admission clientId, Cache_lookup cacheKey]
                     in case cache s cacheKey of
                          Some cached \<Rightarrow> (Inr (with_fromCache cached), s, tr)
                        | None \<Rightarrow>
                            (case cg_aggregate w coinId contractAddress chain of
                               (Inl e, sent) \<Rightarrow> (Inl e, s, tr @ sent)
                             | (Inr (m, c, d), sent) \<Rightarrow>
                                 (let res = compose_result w t0 coinName coinId contractAddress m c d
                                  in if ENCRYPT_CACHE cfg
                                     then (Inr res,
                                           s\<lparr>cache := (cache s)(cacheKey \<mapsto> res),
                                             timers := timers s @ [(now_exit w + CACHE_TTL, cacheKey)]\<rparr>,
                                           tr @ sent @ [Scoring, Cache_store cacheKey])
                                     else (Inr res, s, tr @ sent @ [Scoring])))))))"

definition cg_analyze ::
  "config \<Rightarrow> world \<Rightarrow> basic analyzer \<Rightarrow> jsval \<Rightarrow> jsval \<Rightarrow> jsval \<Rightarrow> jsval \<Rightarrow> jsval \<Rightarrow>
     basic result \<times> basic analyzer \<times> event list" where
  "cg_analyze cfg w s coinId contractAddress chain clientId coinName =
     (let chain = default_param chain (Str ''eth'');
          clientId = default_param clientId (Str ''default'');
          coinName = default_param coinName (Str []);
          t0 = now_entry w
      in case cg_analyze_try cfg w s t0 coinId contractAddress chain clientId coinName of
           (Inr res, s, tr) \<Rightarrow> (res, s, tr)
         | (Inl msg, s, tr) \<Rightarrow> (Failure msg (now_exit w - t0) (now_stamp w), s, tr))"

section \<open>Timers and a sequence of invocations\<close>

text \<open>
  The event loop before an invocation looks the cache up at time \<open>now\<close>: every timer
  that is due has run and deleted its key.
\<close>

definition run_timers :: "int \<Rightarrow> 'b analyzer \<Rightarrow> 'b analyzer" where
  "run_timers now s =
     s\<lparr>cache := fold (\<lambda>(due, key) c. if due \<le> now then c(key := None) else c) (timers s) (cache s),
       timers := filter (\<lambda>(due, key). now < due) (timers s)\<rparr>"

record request =
  req_world :: world
  req_coinId :: jsval
  req_contractAddress :: jsval
  req_chain :: jsval
  req_clientId :: jsval
  req_coinName :: jsval

text \<open>Invocations served one after the other, none overlapping another.\<close>

fun serve :: "config \<Rightarrow> basic analyzer \<Rightarrow> request list \<Rightarrow> basic result list \<times> basic analyzer" where
  "serve cfg s [] = ([], s)"
| "serve cfg s (q # qs) =
     (let (r, s, tr) = analyze cfg (req_world q) (run_timers (now_admission (req_world q)) s)
                         (req_coinId q) (req_contractAddress q) (req_chain q) (req_clientId q)
                         (req_coinName q);
          (rs, s) = serve cfg s qs
      in (r # rs, s))"

fun api_serve ::
  "config \<Rightarrow> api_basic analyzer \<Rightarrow> request list \<Rightarrow> api_basic result list \<times> api_basic analyzer" where
  "api_serve cfg s [] = ([], s)"
| "api_serve cfg s (q # qs) =
     (let (r, s, tr) = api_analyze cfg (req_world q) s
                         (req_coinId q) (req_contractAddress q) (req_chain q) (req_clientId q);
          (rs, s) = api_serve cfg s qs
      in (r # rs, s))"

text \<open>The place of a step in the order of an invocation.\<close>

fun phase :: "event \<Rightarrow> nat" where
  "phase (Call_search _) = 0"
| "phase (Call_detail _) = 1"
| "phase (Call_contract _ _) = 2"
| "phase Validation = 3"
| "phase (Admission _) = 4"
| "phase (Cache_lookup _) = 5"
| "phase (Call_market _) = 6"
| "phase (Call_etherscan _) = 6"
| "phase (Call_helius _) = 6"
| "phase (Call_dexscreener _) = 6"
| "phase Scoring = 7"
| "phase (Cache_store _) = 8"

section \<open>Notions used in the statements\<close>

text \<open>The request a fetcher sent fails in the world \<open>w\<close>.\<close>

fun fails :: "world \<Rightarrow> event \<Rightarrow> bool" where
  "fails w (Call_market x) = isl (snd (coingecko_reply w x))"
| "fails w (Call_etherscan x) = isl (snd (etherscan_reply w x))"
| "fails w (Call_helius x) = isl (snd (helius_reply w x))"
| "fails w (Call_dexscreener x) = isl (snd (dexscreener_reply w x))"
| "fails w _ = False"

text \<open>The object the \<open>catch\<close> block builds from the message of the error.\<close>

definition caught :: "world \<Rightarrow> string \<Rightarrow> 'b result" where
  "caught w msg = Failure msg (now_exit w - now_entry w) (now_stamp w)"


text \<open>
  The order of the steps from the validation on, as the specification words it: the
  admission check follows a validation that passes, the cache lookup an admission that is
  granted; on a hit nothing follows; on a miss the requests of the fetchers follow, then
  the scoring if all of them succeed, then the cache store if results are stored.
\<close>

definition steps_from_validation ::
  "bool \<Rightarrow> jsval \<Rightarrow> bool \<Rightarrow> string \<Rightarrow> bool \<Rightarrow> event list \<Rightarrow> bool \<Rightarrow> bool \<Rightarrow> event list" where
  "steps_from_validation valid clientId admitted cacheKey hit sent fetched stores =
     Validation #
       (if \<not> valid then []
        else Admission clientId #
          (if \<not> admitted then []
           else Cache_lookup cacheKey #
             (if hit then []
              else sent @
                (if \<not> fetched then []
                 else Scoring # (if stores then [Cache_store cacheKey] else [])))))"

section \<open>Example inputs\<close>

text \<open>One call in each of the milliseconds 1 to 101.\<close>

definition burst_times :: "int list" where
  "burst_times = [1..101]"

text \<open>
  A token CoinGecko lists with no market capitalisation and no volume; holders of whom
  nobody owns a tenth of a percent; a market whose daily volume is ten times its
  capitalisation.
\<close>

definition unlisted_payload :: coingecko_payload where
  "unlisted_payload =
     \<lparr>current_price_usd = Num 1, payload_price_change_percentage_24h = Num 0,
      market_cap_usd = Num 0, total_volume_usd = Num 0\<rparr>"

definition some_pools :: dex_data where
  "some_pools = \<lparr>liquidity = Num 5000, top_5_pool_concentration = Num 1\<rparr>"

definition retail_holders :: chain_data where
  "retail_holders =
     \<lparr>top_1_pct = Num 0, top_10_pct = Num 0, top_100_pct = Num 0,
      top_10_holders = Num 0, retail_pct = Num 80, total_holders = Num 1\<rparr>"

definition churning_payload :: coingecko_payload where
  "churning_payload =
     \<lparr>current_price_usd = Num 1, payload_price_change_percentage_24h = Num 0,
      market_cap_usd = Num 1, total_volume_usd = Num 10\<rparr>"

text \<open>
  The Uniswap token. Every upstream request succeeds in \<open>upstream_ok\<close>: the invocation
  starts at \<open>t_in\<close> and builds its result at \<open>t_out\<close>, and the market reports the given
  price. In \<open>liquidity_down\<close> the liquidity provider alone fails.
\<close>

definition uni_addr :: string where
  "uni_addr = ''0x1f9840a85d5af5bf1d1762f925bdaddc4201f984''"

definition uni_payload :: "real \<Rightarrow> coingecko_payload" where
  "uni_payload p =
     \<lparr>current_price_usd = Num p, payload_price_change_percentage_24h = Num 5,
      market_cap_usd = Num 5000000000, total_volume_usd = Num 200000000\<rparr>"

definition uni_holders :: chain_data where
  "uni_holders =
     \<lparr>top_1_pct = Num 20, top_10_pct = Num 40, top_100_pct = Num 60,
      top_10_holders = Num 15, retail_pct = Num 30, total_holders = Num 50000\<rparr>"

definition uni_pools :: dex_data where
  "uni_pools = \<lparr>liquidity = Num 10000000, top_5_pool_concentration = Num 1\<rparr>"

definition upstream_ok :: "int \<Rightarrow> int \<Rightarrow> real \<Rightarrow> world" where
  "upstream_ok t_in t_out p =
     \<lparr>now_entry = t_in, now_admission = t_in, now_exit = t_out, now_stamp = t_out,
      search_reply = (\<lambda>name. Inr [Str ''uniswap'']),
      detail_reply = (\<lambda>slug. Inr \<lparr>ethereum = Str uni_addr, solana = Undefined\<rparr>),
      contract_reply = (\<lambda>base address. Inr (Str ''uniswap'')),
      coingecko_reply = (\<lambda>coinId. (300, Inr (uni_payload p))),
      etherscan_reply = (\<lambda>address. (200, Inr uni_holders)),
      helius_reply = (\<lambda>address. (200, Inr ())),
      dexscreener_reply = (\<lambda>address. (100, Inr uni_pools))\<rparr>"

definition liquidity_down :: "int \<Rightarrow> int \<Rightarrow> real \<Rightarrow> world" where
  "liquidity_down t_in t_out p =
     (upstream_ok t_in t_out p)\<lparr>dexscreener_reply := (\<lambda>address. (100, Inl ''DexScreener API error: 503''))\<rparr>"

text \<open>
  The two settings of \<open>NODE_ENV\<close>. Any function can stand for the digest in an example;
  the identity maps different keys to different digests, as SHA-256 is relied on to do.
\<close>

definition production :: config where
  "production = \<lparr>ENCRYPT_CACHE = True, sha256_hex = (\<lambda>s. s)\<rparr>"

definition development :: config where
  "development = \<lparr>ENCRYPT_CACHE = False, sha256_hex = (\<lambda>s. s)\<rparr>"

text \<open>A client asks for the token by slug, contract address and chain.\<close>

definition uni_call :: "config \<Rightarrow> world \<Rightarrow> basic analyzer \<Rightarrow> basic result \<times> basic analyzer \<times> event list" where
  "uni_call cfg w s =
     analyze cfg w s (Str ''uniswap'') (Str uni_addr) (Str ''eth'') (Str ''alice'') Undefined"

definition api_uni_call ::
  "config \<Rightarrow> world \<Rightarrow> api_basic analyzer \<Rightarrow> api_basic result \<times> api_basic analyzer \<times> event list" where
  "api_uni_call cfg w s =
     api_analyze cfg w s (Str ''uniswap'') (Str uni_addr) (Str ''eth'') (Str ''alice'')"

definition uni_key :: "config \<Rightarrow> string" where
  "uni_key cfg = cacheKey_of cfg (Str ''uniswap'') (Str uni_addr) (Str ''eth'')"

text \<open>The result the analyzers build for the token from the replies of \<open>upstream_ok\<close>.\<close>

definition uni_result :: "int \<Rightarrow> int \<Rightarrow> real \<Rightarrow> basic result" where
  "uni_result a b p =
     compose_result (upstream_ok a b p) a (Str []) (Str ''uniswap'') (Str uni_addr)
       (market_of (uni_payload p)) uni_holders uni_pools"

definition api_uni_result :: "int \<Rightarrow> int \<Rightarrow> real \<Rightarrow> api_basic result" where
  "api_uni_result a b p =
     api_compose_result (upstream_ok a b p) a (Str uni_addr)
       (market_of (uni_payload p)) uni_holders uni_pools"

text \<open>
  The page of the repository sends the name alone; the handler of
  \<open>src/unnamed/part_001\<close> fills the other fields with the empty string.
\<close>

definition name_call :: "config \<Rightarrow> world \<Rightarrow> basic analyzer \<Rightarrow> basic result \<times> basic analyzer \<times> event list" where
  "name_call cfg w s = analyze cfg w s (Str []) (Str []) (Str []) (Str ''default'') (Str ''uniswap'')"

text \<open>A native coin: the market provider knows no contract of it on either platform.\<close>

definition native_ok :: "int \<Rightarrow> int \<Rightarrow> real \<Rightarrow> world" where
  "native_ok t_in t_out p =
     (upstream_ok t_in t_out p)\<lparr>detail_reply := (\<lambda>slug. Inr \<lparr>ethereum = Undefined, solana = Undefined\<rparr>)\<rparr>"


text \<open>The same request twice, the second a second or ten minutes after the first.\<close>

definition uni_request :: "world \<Rightarrow> request" where
  "uni_request w =
     \<lparr>req_world = w, req_coinId = Str ''uniswap'', req_contractAddress = Str uni_addr,
      req_chain = Str ''eth'', req_clientId = Str ''alice'', req_coinName = Undefined\<rparr>"

text \<open>
  The client asks for the token at time 0 and the result is built at 500. It asks again at
  1000, or not before 600000, ten minutes later; the price has moved by then. Between two
  invocations of the analyzer of \<open>src/unnamed/part_001\<close> the timers that are due run.
\<close>

definition first_call :: "config \<Rightarrow> basic result \<times> basic analyzer \<times> event list" where
  "first_call cfg = uni_call cfg (upstream_ok 0 500 10) new_analyzer"

definition second_call :: "config \<Rightarrow> basic result \<times> basic analyzer \<times> event list" where
  "second_call cfg =
     uni_call cfg (upstream_ok 1000 1002 12) (run_timers 1000 (fst (snd (first_call cfg))))"

definition late_call :: "config \<Rightarrow> basic result \<times> basic analyzer \<times> event list" where
  "late_call cfg =
     uni_call cfg (upstream_ok 600000 600500 12) (run_timers 600000 (fst (snd (first_call cfg))))"

definition api_first_call :: "config \<Rightarrow> api_basic result \<times> api_basic analyzer \<times> event list" where
  "api_first_call cfg = api_uni_call cfg (upstream_ok 0 500 10) new_analyzer"

definition api_second_call :: "config \<Rightarrow> api_basic result \<times> api_basic analyzer \<times> event list" where
  "api_second_call cfg = api_uni_call cfg (upstream_ok 1000 1002 12) (fst (snd (api_first_call cfg)))"

definition api_late_call :: "config \<Rightarrow> api_basic result \<times> api_basic analyzer \<times> event list" where
  "api_late_call cfg = api_uni_call cfg (upstream_ok 600000 600500 12) (fst (snd (api_first_call cfg)))"

text \<open>An analyzer whose client \<open>default\<close> has sent 100 requests at time 0.\<close>

definition busy_analyzer :: "basic analyzer" where
  "busy_analyzer = new_analyzer\<lparr>requestCounts := [Str ''default'' \<mapsto> replicate 100 0]\<rparr>"


definition cg_chainless_call :: "config \<Rightarrow> world \<Rightarrow> basic analyzer \<Rightarrow> basic result \<times> basic analyzer \<times> event list" where
  "cg_chainless_call cfg w s = cg_analyze cfg w s (Str ''bitcoin'') (Str uni_addr) (Str []) (Str ''alice'') (Str [])"

definition cg_name_call :: "config \<Rightarrow> world \<Rightarrow> basic analyzer \<Rightarrow> basic result \<times> basic analyzer \<times> event list" where
  "cg_name_call cfg w s = cg_analyze cfg w s (Str []) (Str []) (Str []) (Str ''default'') (Str ''uniswap'')"


section \<open>The rate limiter\<close>

lemma checkRateLimit_eq:
  "checkRateLimit now c rc =
     (verdict (Suc (length (filter (\<lambda>t. now - 60000 < t) (stored rc c)))),
      rc(c \<mapsto> filter (\<lambda>t. now - 60000 < t) (stored rc c) @ [now]))"
  by (simp add: checkRateLimit_def verdict_def stored_def Let_def)

lemma stored_upd: "stored (rc(c \<mapsto> xs)) c = xs"
  by (simp add: stored_def)

lemma admit_all_window:
  assumes "\<forall>x\<in>set (stored rc c). \<forall>t\<in>set ts. t < x + 60000"
    and "sorted_wrt (\<lambda>x t. t < x + 60000) ts"
  shows "fst (admit_all c rc ts) = map (\<lambda>i. verdict (Suc (length (stored rc c) + i))) [0 ..< length ts]
       \<and> stored (snd (admit_all c rc ts)) c = stored rc c @ ts"
  using assms
proof (induction ts arbitrary: rc)
  case Nil
  then show ?case by simp
next
  case (Cons now later)
  let ?st = "stored rc c"
  have keep: "filter (\<lambda>t. now - 60000 < t) ?st = ?st"
    using Cons.prems(1) by (auto simp: filter_id_conv)
  let ?rc = "rc(c \<mapsto> ?st @ [now])"
  have step: "checkRateLimit now c rc = (verdict (Suc (length ?st)), ?rc)"
    by (simp add: checkRateLimit_eq keep)
  have st': "stored ?rc c = ?st @ [now]" by (rule stored_upd)
  have p1: "\<forall>x\<in>set (stored ?rc c). \<forall>t\<in>set later. t < x + 60000"
    using Cons.prems by (auto simp: st')
  have p2: "sorted_wrt (\<lambda>x t. t < x + 60000) later"
    using Cons.prems(2) by simp
  have ih: "fst (admit_all c ?rc later) = map (\<lambda>i. verdict (Suc (Suc (length ?st) + i))) [0 ..< length later]
       \<and> stored (snd (admit_all c ?rc later)) c = (?st @ [now]) @ later"
    using Cons.IH[of ?rc, OF p1 p2] unfolding st' by (simp del: upt_Suc fun_upd_apply)
  have unroll: "admit_all c rc (now # later) =
      (verdict (Suc (length ?st)) # fst (admit_all c ?rc later), snd (admit_all c ?rc later))"
    by (simp add: step split_beta)
  show ?case
    unfolding unroll using ih by (simp add: map_upt_Suc del: upt_Suc)
qed

lemma verdict_admit: "n \<le> 100 \<Longrightarrow> verdict n = Inr ()"
  by (simp add: verdict_def MAX_REQUESTS_PER_MINUTE_def)

lemma verdict_deny: "100 < n \<Longrightarrow> verdict n = Inl ''Rate limit exceeded''"
  by (simp add: verdict_def MAX_REQUESTS_PER_MINUTE_def)

lemma sorted_span:
  assumes "sorted ts" "last ts < hd ts + (60000::int)" "x \<in> set ts" "t \<in> set ts"
  shows "t < x + 60000"
proof -
  from assms(3) have ne: "ts \<noteq> []" by auto
  have "hd ts \<le> x"
    using assms(1,3) ne by (cases ts) auto
  moreover have "t \<le> last ts"
  proof -
    from assms(4) obtain i where i: "i < length ts" "ts ! i = t"
      by (auto simp: in_set_conv_nth)
    have "ts ! i \<le> ts ! (length ts - 1)"
      using assms(1) i(1) by (intro sorted_nth_mono) auto
    then show ?thesis using i(2) ne by (simp add: last_conv_nth)
  qed
  ultimately show ?thesis using assms(2) by linarith
qed

lemma burst_101:
  assumes len: "length ts = 101" and srt: "sorted ts" and span: "last ts < hd ts + 60000"
    and old: "\<forall>x\<in>set (stored rc c). x \<le> hd ts - 60000"
  shows "fst (admit_all c rc ts) = map (\<lambda>i. verdict (Suc i)) [0 ..< length ts]"
    and "stored (snd (admit_all c rc ts)) c = ts"
proof -
  from len obtain t1 rest where ts: "ts = t1 # rest" and lrest: "length rest = 100"
    by (cases ts) auto
  have drop_old: "filter (\<lambda>t. t1 - 60000 < t) (stored rc c) = []"
    using old by (auto simp: ts filter_empty_conv)
  let ?rc = "rc(c \<mapsto> [t1])"
  have step: "checkRateLimit t1 c rc = (verdict (Suc 0), ?rc)"
    by (simp add: checkRateLimit_eq drop_old)
  have st1: "stored ?rc c = [t1]" by (rule stored_upd)
  have pair: "\<And>x t. x \<in> set ts \<Longrightarrow> t \<in> set ts \<Longrightarrow> t < x + 60000"
    using sorted_span[OF srt span] by blast
  have p1: "\<forall>x\<in>set (stored ?rc c). \<forall>t\<in>set rest. t < x + 60000"
    unfolding st1 using pair by (simp add: ts)
  have p2: "sorted_wrt (\<lambda>x t. t < x + 60000) rest"
    unfolding sorted_wrt_iff_nth_less using pair by (simp add: ts)
  have tail: "fst (admit_all c ?rc rest) = map (\<lambda>i. verdict (Suc (Suc i))) [0 ..< length rest]
      \<and> stored (snd (admit_all c ?rc rest)) c = [t1] @ rest"
    using admit_all_window[of ?rc c rest, OF p1 p2] unfolding st1
    by (simp del: upt_Suc fun_upd_apply)
  have unroll: "admit_all c rc ts = (verdict (Suc 0) # fst (admit_all c ?rc rest), snd (admit_all c ?rc rest))"
    by (simp add: ts step split_beta)
  show "fst (admit_all c rc ts) = map (\<lambda>i. verdict (Suc i)) [0 ..< length ts]"
    unfolding unroll using tail by (simp add: ts map_upt_Suc del: upt_Suc)
  show "stored (snd (admit_all c rc ts)) c = ts"
    unfolding unroll using tail by (simp add: ts)
qed

text \<open>
  Claim C5, as the code has it. A client sends 101 calls within 60 seconds, and none of
  its earlier timestamps lies in the window of the first of them. The first 100 calls are
  admitted and the 101st is denied. The denied call is recorded like the others, so the
  101 timestamps stay on record: a further call is admitted once the window has moved
  past the timestamp of the second call, which leaves at most 99 of them inside.
\<close>

theorem rate_limit_burst:
  "length ts = 101 \<and> sorted ts \<and> last ts < hd ts + 60000 \<and>
   (\<forall>x\<in>set (stored rc c). x \<le> hd ts - 60000) \<longrightarrow>
     (\<forall>i<100. fst (admit_all c rc ts) ! i = Inr ()) \<and>
     fst (admit_all c rc ts) ! 100 = Inl ''Rate limit exceeded'' \<and>
     (\<forall>t. ts ! 1 \<le> t - 60000 \<longrightarrow>
        fst (checkRateLimit t c (snd (admit_all c rc ts))) = Inr ())"
proof (intro impI, elim conjE)
  assume len: "length ts = 101" and srt: "sorted ts" and span: "last ts < hd ts + 60000"
    and old: "\<forall>x\<in>set (stored rc c). x \<le> hd ts - 60000"
  note b = burst_101[OF len srt span old]
  have first: "\<forall>i<100. fst (admit_all c rc ts) ! i = Inr ()"
    by (simp add: b(1) len verdict_admit del: upt_Suc)
  have last: "fst (admit_all c rc ts) ! 100 = Inl ''Rate limit exceeded''"
    by (simp add: b(1) len verdict_deny del: upt_Suc)
  have again: "fst (checkRateLimit t c (snd (admit_all c rc ts))) = Inr ()"
    if slid: "ts ! 1 \<le> t - 60000" for t
  proof -
    from len obtain a b rest where ts: "ts = a # b # rest" and lrest: "length rest = 99"
      by (cases ts; cases "tl ts") auto
    have "a \<le> b" using srt by (simp add: ts)
    then have "filter (\<lambda>x. t - 60000 < x) ts = filter (\<lambda>x. t - 60000 < x) rest"
      using slid by (simp add: ts)
    then have "length (filter (\<lambda>x. t - 60000 < x) ts) \<le> 99"
      using length_filter_le[of "\<lambda>x. t - 60000 < x" rest] lrest by simp
    then show ?thesis
      by (simp add: checkRateLimit_eq b(2) verdict_admit)
  qed
  from first last again show "(\<forall>i<100. fst (admit_all c rc ts) ! i = Inr ()) \<and>
     fst (admit_all c rc ts) ! 100 = Inl ''Rate limit exceeded'' \<and>
     (\<forall>t. ts ! 1 \<le> t - 60000 \<longrightarrow>
        fst (checkRateLimit t c (snd (admit_all c rc ts))) = Inr ())" by blast
qed

lemma stored_empty: "stored Map.empty c = []"
  by (simp add: stored_def)

lemma burst_times_facts:
  "length burst_times = 101" "sorted burst_times" "hd burst_times = 1" "last burst_times = 101"
  "burst_times ! 0 = 1" "burst_times ! Suc 0 = 2"
  "filter (\<lambda>x. 1 < x) burst_times = [2..101]"
proof -
  show "length burst_times = 101" "sorted burst_times"
    by (simp_all add: burst_times_def del: upto_rec_numeral)
  show "hd burst_times = 1"
    by (simp add: burst_times_def upto_rec1[of 1 101] del: upto_rec_numeral)
  show "last burst_times = 101"
    by (simp add: burst_times_def upto_rec2[of 1 101] del: upto_rec_numeral)
  show "burst_times ! 0 = 1"
    by (simp add: burst_times_def del: upto_rec_numeral)
  show "burst_times ! Suc 0 = 2"
    using nth_upto[of 1 1 101] by (simp add: burst_times_def del: upto_rec_numeral)
  have "filter (\<lambda>x. 1 < x) ([2..101]::int list) = [2..101]"
    by (simp add: filter_id_conv del: upto_rec_numeral)
  then show "filter (\<lambda>x. 1 < x) burst_times = [2..101]"
    by (simp add: burst_times_def upto_rec1[of 1 101] del: upto_rec_numeral)
qed

text \<open>
  Calls at the times 1 to 101 by a client not seen before: the first is admitted, the
  101st is denied, and a call at 60002, whose window starts at the timestamp of the second
  call, is admitted.
\<close>

theorem rate_limit_burst_witness:
  "fst (admit_all (Str ''default'') Map.empty burst_times) ! 0 = Inr () \<and>
   fst (admit_all (Str ''default'') Map.empty burst_times) ! 100 = Inl ''Rate limit exceeded'' \<and>
   fst (checkRateLimit 60002 (Str ''default'') (snd (admit_all (Str ''default'') Map.empty burst_times)))
     = Inr ()"
proof -
  have h: "length burst_times = 101 \<and> sorted burst_times \<and>
      last burst_times < hd burst_times + 60000 \<and>
      (\<forall>x\<in>set (stored Map.empty (Str ''default'')). x \<le> hd burst_times - 60000)"
    by (simp add: burst_times_facts stored_empty)
  have n: "burst_times ! 1 \<le> 60002 - 60000"
    by (simp add: burst_times_facts)
  note r = rate_limit_burst[of burst_times Map.empty "Str ''default''", THEN mp, OF h]
  from r have "fst (admit_all (Str ''default'') Map.empty burst_times) ! 0 = Inr ()"
    by simp
  moreover
  have "fst (checkRateLimit 60002 (Str ''default'') (snd (admit_all (Str ''default'') Map.empty burst_times)))
     = Inr ()"
    by (rule r[THEN conjunct2, THEN conjunct2, THEN spec, THEN mp, OF n])
  ultimately show ?thesis using r by simp
qed

text \<open>
  Claim C5 as stated fails. After the same 101 calls the window of a call at 60001 has
  moved past the timestamp of the first call, yet 100 timestamps remain inside it (those
  of the calls 2 to 101, the denied one among them), and the call is denied.
\<close>

theorem rate_limit_slide_counterexample:
  "length burst_times = 101 \<and> sorted burst_times \<and>
   last burst_times < hd burst_times + 60000 \<and>
   hd burst_times \<le> 60001 - 60000 \<and>
   fst (checkRateLimit 60001 (Str ''default'') (snd (admit_all (Str ''default'') Map.empty burst_times)))
     = Inl ''Rate limit exceeded''"
proof -
  have span: "last burst_times < hd burst_times + 60000"
    by (simp add: burst_times_facts)
  have old: "\<forall>x\<in>set (stored Map.empty (Str ''default'')). x \<le> hd burst_times - 60000"
    by (simp add: stored_empty)
  have st: "stored (snd (admit_all (Str ''default'') Map.empty burst_times)) (Str ''default'') = burst_times"
    by (rule burst_101(2)[OF burst_times_facts(1,2) span old])
  have "fst (checkRateLimit 60001 (Str ''default'') (snd (admit_all (Str ''default'') Map.empty burst_times)))
     = Inl ''Rate limit exceeded''"
    by (simp add: checkRateLimit_eq st burst_times_facts verdict_deny del: upto_rec_numeral)
  then show ?thesis using span by (simp add: burst_times_facts)
qed

section \<open>The scoring engine\<close>

lemma market_of_unlisted:
  "market_of unlisted_payload =
     \<lparr>current_price = Num 1, price_change_percentage_24h = Num 0, market_cap = Num 0,
      volume_24h = Num 0, avg_volume_7d = Num 0, avg_price_7d = Num 1\<rparr>"
  by (simp add: market_of_def unlisted_payload_def)

lemma market_of_churning:
  "market_of churning_payload =
     \<lparr>current_price = Num 1, price_change_percentage_24h = Num 0, market_cap = Num 1,
      volume_24h = Num 10, avg_volume_7d = Num (10 / 7), avg_price_7d = Num 1\<rparr>"
  by (simp add: market_of_def churning_payload_def)

text \<open>
  Claim C1 does not hold of the code. The scoring functions bound their result on one side
  only and divide without a test of the denominator. With a market capitalisation and a
  volume of zero the volatility and the greed score are \<open>NaN\<close> (\<open>0 / 0\<close>) and the
  liquidity score of a token with pools is 100 and not 0; the retail score of holders who
  are all retail is 120; the volatility of a market that trades ten times its
  capitalisation in a day is -270.
\<close>

theorem scores_leave_range:
  "calculateVolatility (market_of unlisted_payload) = NaN \<and>
   calculateGreedScore (market_of unlisted_payload) zero_holders = NaN \<and>
   calculateLiquidity (market_of unlisted_payload) zero_liquidity = NaN \<and>
   calculateLiquidity (market_of unlisted_payload) some_pools = Num 100 \<and>
   calculateRetailScore retail_holders = Num 120 \<and>
   api_calculateRetailScore retail_holders = Num 120 \<and>
   calculateVolatility (market_of churning_payload) = Num (- 270)"
proof -
  have "calculateVolatility (market_of unlisted_payload) = NaN"
    by (simp add: market_of_unlisted calculateVolatility_def Math_min_def js_sub_def)
  moreover have "calculateGreedScore (market_of unlisted_payload) zero_holders = NaN"
    by (simp add: market_of_unlisted calculateGreedScore_def zero_holders_def Math_min_def js_sub_def)
  moreover have "calculateLiquidity (market_of unlisted_payload) zero_liquidity = NaN"
    by (simp add: market_of_unlisted calculateLiquidity_def zero_liquidity_def Math_min_def)
  moreover have "calculateLiquidity (market_of unlisted_payload) some_pools = Num 100"
    by (simp add: market_of_unlisted calculateLiquidity_def some_pools_def Math_min_def)
  moreover have "calculateRetailScore retail_holders = Num 120"
    by (simp add: calculateRetailScore_def retail_holders_def Math_min_def Math_max_def
        js_sub_def js_or_def)
  moreover have "api_calculateRetailScore retail_holders = Num 120"
    by (simp add: api_calculateRetailScore_def retail_holders_def Math_min_def Math_max_def
        js_sub_def)
  moreover have "calculateVolatility (market_of churning_payload) = Num (- 270)"
    by (simp add: market_of_churning calculateVolatility_def Math_min_def js_sub_def)
  ultimately show ?thesis by simp
qed

section \<open>The paths through \<open>analyze\<close>\<close>

text \<open>
  An invocation of \<open>analyze\<close> of \<open>src/unnamed/part_001\<close> ends in one of six ways: the
  identity is not resolved, it is not valid, the client is denied, the cache has the key,
  a fetcher fails, or a fresh result is built.
\<close>

lemma analyze_try_cases [case_names Unresolved Invalid Denied Hit Failed Fresh]:
  obtains
    (Unresolved) e tr where
      "resolve w coinId ca chain coinName = (Inl e, tr)"
      "analyze_try cfg w s t0 coinId ca chain clientId coinName = (Inl e, s, tr)"
  | (Invalid) i a c tr e where
      "resolve w coinId ca chain coinName = (Inr (i, a, c), tr)"
      "validate_identity i a c = Inl e"
      "analyze_try cfg w s t0 coinId ca chain clientId coinName = (Inl e, s, tr @ [Validation])"
  | (Denied) i a c tr e counts where
      "resolve w coinId ca chain coinName = (Inr (i, a, c), tr)"
      "validate_identity i a c = Inr ()"
      "checkRateLimit (now_admission w) clientId (requestCounts s) = (Inl e, counts)"
      "analyze_try cfg w s t0 coinId ca chain clientId coinName =
         (Inl e, s\<lparr>requestCounts := counts\<rparr>, tr @ [Validation, Admission clientId])"
  | (Hit) i a c tr counts cached where
      "resolve w coinId ca chain coinName = (Inr (i, a, c), tr)"
      "validate_identity i a c = Inr ()"
      "checkRateLimit (now_admission w) clientId (requestCounts s) = (Inr (), counts)"
      "cache s (cacheKey_of cfg i a c) = Some cached"
      "analyze_try cfg w s t0 coinId ca chain clientId coinName =
         (Inr (with_fromCache cached), s\<lparr>requestCounts := counts\<rparr>,
          tr @ [Validation, Admission clientId, Cache_lookup (cacheKey_of cfg i a c)])"
  | (Failed) i a c tr counts e sent where
      "resolve w coinId ca chain coinName = (Inr (i, a, c), tr)"
      "validate_identity i a c = Inr ()"
      "checkRateLimit (now_admission w) clientId (requestCounts s) = (Inr (), counts)"
      "cache s (cacheKey_of cfg i a c) = None"
      "aggregate w i a c = (Inl e, sent)"
      "analyze_try cfg w s t0 coinId ca chain clientId coinName =
         (Inl e, s\<lparr>requestCounts := counts\<rparr>,
          tr @ [Validation, Admission clientId, Cache_lookup (cacheKey_of cfg i a c)] @ sent)"
  | (Fresh) i a c tr counts m h d sent where
      "resolve w coinId ca chain coinName = (Inr (i, a, c), tr)"
      "validate_identity i a c = Inr ()"
      "checkRateLimit (now_admission w) clientId (requestCounts s) = (Inr (), counts)"
      "cache s (cacheKey_of cfg i a c) = None"
      "aggregate w i a c = (Inr (m, h, d), sent)"
      "analyze_try cfg w s t0 coinId ca chain clientId coinName =
         (Inr (compose_result w t0 coinName i a m h d),
          (if ENCRYPT_CACHE cfg
           then s\<lparr>requestCounts := counts,
                  cache := (cache s)(cacheKey_of cfg i a c \<mapsto> compose_result w t0 coinName i a m h d),
                  timers := timers s @ [(now_exit w + CACHE_TTL, cacheKey_of cfg i a c)]\<rparr>
           else s\<lparr>requestCounts := counts\<rparr>),
          tr @ [Validation, Admission clientId, Cache_lookup (cacheKey_of cfg i a c)] @ sent @
            (if ENCRYPT_CACHE cfg then [Scoring, Cache_store (cacheKey_of cfg i a c)] else [Scoring]))"
proof (cases "resolve w coinId ca chain coinName")
  case (Pair r tr)
  show ?thesis
  proof (cases r)
    case (Inl e)
    with Pair show ?thesis by (intro Unresolved[of e tr]) (simp_all add: analyze_try_def)
  next
    case (Inr ident)
    obtain i a c where ident: "ident = (i, a, c)" by (cases ident) auto
    note res = Pair[unfolded Inr ident]
    show ?thesis
    proof (cases "validate_identity i a c")
      case (Inl e)
      with res show ?thesis by (intro Invalid[of i a c tr e]) (simp_all add: analyze_try_def)
    next
      case vok: (Inr u)
      obtain v counts where rl: "checkRateLimit (now_admission w) clientId (requestCounts s) = (v, counts)"
        by (cases "checkRateLimit (now_admission w) clientId (requestCounts s)") auto
      show ?thesis
      proof (cases v)
        case (Inl e)
        with res vok rl show ?thesis
          by (intro Denied[of i a c tr e counts]) (simp_all add: analyze_try_def)
      next
        case aok: (Inr u')
        show ?thesis
        proof (cases "cache s (cacheKey_of cfg i a c)")
          case (Some cached)
          with res vok rl aok show ?thesis
            by (intro Hit[of i a c tr counts cached]) (simp_all add: analyze_try_def)
        next
          case None
          obtain g sent where ag: "aggregate w i a c = (g, sent)"
            by (cases "aggregate w i a c") auto
          show ?thesis
          proof (cases g)
            case (Inl e)
            with res vok rl aok None ag show ?thesis
              by (intro Failed[of i a c tr counts e sent]) (simp_all add: analyze_try_def)
          next
            case (Inr snaps)
            obtain m h d where snaps: "snaps = (m, h, d)" by (cases snaps) auto
            with Inr res vok rl aok None ag show ?thesis
              by (intro Fresh[of i a c tr counts m h d sent]) (simp_all add: analyze_try_def Let_def)
          qed
        qed
      qed
    qed
  qed
qed

text \<open>\<open>analyze\<close> of \<open>src/api/analyze.js\<close> resolves nothing, which leaves five ways.\<close>

lemma api_analyze_try_cases [case_names Invalid Denied Hit Failed Fresh]:
  obtains
    (Invalid) e where
      "api_validateInput coinId ca chain = Inl e"
      "api_analyze_try cfg w s t0 coinId ca chain clientId = (Inl e, s, [Validation])"
  | (Denied) e counts where
      "api_validateInput coinId ca chain = Inr ()"
      "checkRateLimit (now_admission w) clientId (requestCounts s) = (Inl e, counts)"
      "api_analyze_try cfg w s t0 coinId ca chain clientId =
         (Inl e, s\<lparr>requestCounts := counts\<rparr>, [Validation, Admission clientId])"
  | (Hit) counts cached where
      "api_validateInput coinId ca chain = Inr ()"
      "checkRateLimit (now_admission w) clientId (requestCounts s) = (Inr (), counts)"
      "cache s (cacheKey_of cfg coinId ca chain) = Some cached"
      "api_analyze_try cfg w s t0 coinId ca chain clientId =
         (Inr (with_fromCache cached), s\<lparr>requestCounts := counts\<rparr>,
          [Validation, Admission clientId, Cache_lookup (cacheKey_of cfg coinId ca chain)])"
  | (Failed) counts e sent where
      "api_validateInput coinId ca chain = Inr ()"
      "checkRateLimit (now_admission w) clientId (requestCounts s) = (Inr (), counts)"
      "cache s (cacheKey_of cfg coinId ca chain) = None"
      "api_aggregate w coinId ca chain = (Inl e, sent)"
      "api_analyze_try cfg w s t0 coinId ca chain clientId =
         (Inl e, s\<lparr>requestCounts := counts\<rparr>,
          [Validation, Admission clientId, Cache_lookup (cacheKey_of cfg coinId ca chain)] @ sent)"
  | (Fresh) counts m h d sent where
      "api_validateInput coinId ca chain = Inr ()"
      "checkRateLimit (now_admission w) clientId (requestCounts s) = (Inr (), counts)"
      "cache s (cacheKey_of cfg coinId ca chain) = None"
      "api_aggregate w coinId ca chain = (Inr (m, h, d), sent)"
      "api_analyze_try cfg w s t0 coinId ca chain clientId =
         (Inr (api_compose_result w t0 ca m h d),
          (if ENCRYPT_CACHE cfg
           then s\<lparr>requestCounts := counts,
                  cache := (cache s)(cacheKey_of cfg coinId ca chain \<mapsto> api_compose_result w t0 ca m h d)\<rparr>
           else s\<lparr>requestCounts := counts\<rparr>),
          [Validation, Admission clientId, Cache_lookup (cacheKey_of cfg coinId ca chain)] @ sent @
            (if ENCRYPT_CACHE cfg then [Scoring, Cache_store (cacheKey_of cfg coinId ca chain)]
             else [Scoring]))"
proof (cases "api_validateInput coinId ca chain")
  case (Inl e)
  then show ?thesis by (intro Invalid[of e]) (simp_all add: api_analyze_try_def)
next
  case vok: (Inr u)
  obtain v counts where rl: "checkRateLimit (now_admission w) clientId (requestCounts s) = (v, counts)"
    by (cases "checkRateLimit (now_admission w) clientId (requestCounts s)") auto
  show ?thesis
  proof (cases v)
    case (Inl e)
    with vok rl show ?thesis
      by (intro Denied[of e counts]) (simp_all add: api_analyze_try_def)
  next
    case aok: (Inr u')
    show ?thesis
    proof (cases "cache s (cacheKey_of cfg coinId ca chain)")
      case (Some cached)
      with vok rl aok show ?thesis
        by (intro Hit[of counts cached]) (simp_all add: api_analyze_try_def)
    next
      case None
      obtain g sent where ag: "api_aggregate w coinId ca chain = (g, sent)"
        by (cases "api_aggregate w coinId ca chain") auto
      show ?thesis
      proof (cases g)
        case (Inl e)
        with vok rl aok None ag show ?thesis
          by (intro Failed[of counts e sent]) (simp_all add: api_analyze_try_def)
      next
        case (Inr snaps)
        obtain m h d where snaps: "snaps = (m, h, d)" by (cases snaps) auto
        with Inr vok rl aok None ag show ?thesis
          by (intro Fresh[of counts m h d sent]) (simp_all add: api_analyze_try_def Let_def)
      qed
    qed
  qed
qed

lemma analyze_unfold:
  "analyze cfg w s coinId ca chain clientId coinName =
     (case analyze_try cfg w s (now_entry w) coinId ca (default_param chain (Str ''eth''))
             (default_param clientId (Str ''default'')) (default_param coinName (Str [])) of
        (Inr res, s', tr) \<Rightarrow> (res, s', tr)
      | (Inl msg, s', tr) \<Rightarrow> (Failure msg (now_exit w - now_entry w) (now_stamp w), s', tr))"
  by (simp add: analyze_def Let_def)

lemma api_analyze_unfold:
  "api_analyze cfg w s coinId ca chain clientId =
     (case api_analyze_try cfg w s (now_entry w) coinId ca (default_param chain (Str ''eth''))
             (default_param clientId (Str ''default'')) of
        (Inr res, s', tr) \<Rightarrow> (res, s', tr)
      | (Inl msg, s', tr) \<Rightarrow> (Failure msg (now_exit w - now_entry w) (now_stamp w), s', tr))"
  by (simp add: api_analyze_def Let_def)

section \<open>Aggregation\<close>

lemma fails_phase: "fails w e \<Longrightarrow> phase e = 6"
  by (cases e) auto

lemma resolve_phase: "e \<in> set (snd (resolve w coinId ca chain coinName)) \<Longrightarrow> phase e < 3"
  by (auto simp: resolve_def split: if_splits sum.splits prod.splits)

lemma resolve_no_fails: "resolve w coinId ca chain coinName = (r, tr) \<Longrightarrow> \<not> list_ex (fails w) tr"
  using resolve_phase[of _ w coinId ca chain coinName] fails_phase[of w]
  by (fastforce simp: list_ex_iff)

lemma Promise_all_Inr:
  "Promise_all pa pb pc = Inr v \<longleftrightarrow> (\<exists>a b c. snd pa = Inr a \<and> snd pb = Inr b \<and> snd pc = Inr c \<and> v = (a, b, c))"
  by (auto simp: Promise_all_def split: sum.splits)

lemma aggregate_ok:
  assumes "aggregate w i a c = (Inr v, sent)"
  shows "\<not> list_ex (fails w) sent"
  using assms
  by (auto simp: aggregate_def Let_def Promise_all_Inr fetchCoinGeckoData_def fetchEtherscanData_def
      fetchSolanaData_def fetchDexScreenerData_def Promise_resolve_def
      split: if_splits prod.splits sum.splits)

lemma aggregate_phase: "e \<in> set (snd (aggregate w i a c)) \<Longrightarrow> phase e = 6"
  by (auto simp: aggregate_def Let_def split: if_splits)

lemma api_aggregate_ok:
  assumes "api_aggregate w i a c = (Inr v, sent)"
  shows "\<not> list_ex (fails w) sent"
  using assms
  by (auto simp: api_aggregate_def Promise_all_Inr api_fetchCoinGeckoData_def api_fetchEtherscanData_def
      api_fetchSolanaData_def api_fetchDexScreenerData_def
      split: if_splits prod.splits sum.splits)

lemma api_aggregate_phase: "e \<in> set (snd (api_aggregate w i a c)) \<Longrightarrow> phase e = 6"
  by (auto simp: api_aggregate_def split: if_splits)


lemma fail_fast_part:
  assumes run: "analyze cfg w s coinId ca chain clientId coinName = (r, s', tr)"
    and bad: "list_ex (fails w) tr"
  shows "error r \<and> cache s' = cache s \<and> timers s' = timers s \<and> \<not> list_ex (\<lambda>e. 7 \<le> phase e) tr"
proof (cases rule: analyze_try_cases[of w coinId ca "default_param chain (Str ''eth'')"
      "default_param coinName (Str [])" cfg s "now_entry w" "default_param clientId (Str ''default'')"])
  case (Unresolved e tr0)
  with run have "tr = tr0" by (simp add: analyze_unfold)
  with bad resolve_no_fails[OF Unresolved(1)] show ?thesis by simp
next
  case (Invalid i a c tr0 e)
  with run have "tr = tr0 @ [Validation]" by (simp add: analyze_unfold)
  with bad resolve_no_fails[OF Invalid(1)] show ?thesis by simp
next
  case (Denied i a c tr0 e counts)
  with run have "tr = tr0 @ [Validation, Admission (default_param clientId (Str ''default''))]"
    by (simp add: analyze_unfold)
  with bad resolve_no_fails[OF Denied(1)] show ?thesis by simp
next
  case (Hit i a c tr0 counts cached)
  with run have "tr = tr0 @ [Validation, Admission (default_param clientId (Str ''default'')),
      Cache_lookup (cacheKey_of cfg i a c)]"
    by (simp add: analyze_unfold)
  with bad resolve_no_fails[OF Hit(1)] show ?thesis by simp
next
  case (Failed i a c tr0 counts e sent)
  from run Failed(6) have r: "r = Failure e (now_exit w - now_entry w) (now_stamp w)"
    and s': "s' = s\<lparr>requestCounts := counts\<rparr>"
    and tr: "tr = tr0 @ [Validation, Admission (default_param clientId (Str ''default'')),
      Cache_lookup (cacheKey_of cfg i a c)] @ sent"
    by (simp_all add: analyze_unfold)
  have "\<forall>e\<in>set tr0. phase e < 3"
    using resolve_phase[of _ w coinId ca "default_param chain (Str ''eth'')" "default_param coinName (Str [])"]
    by (simp add: Failed(1))
  moreover have "\<forall>e\<in>set sent. phase e = 6"
    using aggregate_phase[of _ w i a c] by (simp add: Failed(5))
  ultimately have "\<not> list_ex (\<lambda>e. 7 \<le> phase e) tr"
    by (auto simp: tr list_ex_iff)
  then show ?thesis by (simp add: r s')
next
  case (Fresh i a c tr0 counts m h d sent)
  from run Fresh(6) have "list_ex (fails w) tr \<longleftrightarrow> list_ex (fails w) tr0 \<or> list_ex (fails w) sent"
    by (auto simp: analyze_unfold list_ex_iff split: if_splits)
  with bad resolve_no_fails[OF Fresh(1)] aggregate_ok[OF Fresh(5)] show ?thesis by simp
qed

lemma api_fail_fast_part:
  assumes run: "api_analyze cfg w s coinId ca chain clientId = (r, s', tr)"
    and bad: "list_ex (fails w) tr"
  shows "error r \<and> cache s' = cache s \<and> timers s' = timers s \<and> \<not> list_ex (\<lambda>e. 7 \<le> phase e) tr"
proof (cases rule: api_analyze_try_cases[of coinId ca "default_param chain (Str ''eth'')"
      cfg w s "now_entry w" "default_param clientId (Str ''default'')"])
  case (Invalid e)
  with run have "tr = [Validation]" by (simp add: api_analyze_unfold)
  with bad show ?thesis by simp
next
  case (Denied e counts)
  with run have "tr = [Validation, Admission (default_param clientId (Str ''default''))]"
    by (simp add: api_analyze_unfold)
  with bad show ?thesis by simp
next
  case (Hit counts cached)
  with run have "tr = [Validation, Admission (default_param clientId (Str ''default'')),
      Cache_lookup (cacheKey_of cfg coinId ca (default_param chain (Str ''eth'')))]"
    by (simp add: api_analyze_unfold)
  with bad show ?thesis by simp
next
  case (Failed counts e sent)
  from run Failed(5) have r: "r = Failure e (now_exit w - now_entry w) (now_stamp w)"
    and s': "s' = s\<lparr>requestCounts := counts\<rparr>"
    and tr: "tr = [Validation, Admission (default_param clientId (Str ''default'')),
      Cache_lookup (cacheKey_of cfg coinId ca (default_param chain (Str ''eth'')))] @ sent"
    by (simp_all add: api_analyze_unfold)
  have "\<forall>e\<in>set sent. phase e = 6"
    using api_aggregate_phase[of _ w coinId ca "default_param chain (Str ''eth'')"] by (simp add: Failed(4))
  then have "\<not> list_ex (\<lambda>e. 7 \<le> phase e) tr"
    by (auto simp: tr list_ex_iff)
  then show ?thesis by (simp add: r s')
next
  case (Fresh counts m h d sent)
  from run Fresh(5) have "list_ex (fails w) tr \<longleftrightarrow> list_ex (fails w) sent"
    by (auto simp: api_analyze_unfold list_ex_iff split: if_splits)
  with bad api_aggregate_ok[OF Fresh(4)] show ?thesis by simp
qed

text \<open>
  Claim C6. If the request of a fetcher that an invocation has sent fails, whichever the
  fetcher, the invocation returns the error object; the cache and the timers are as they
  were, and the invocation has neither scored nor stored. This holds of \<open>analyze\<close> in
  \<open>src/unnamed/part_001\<close> and in \<open>src/api/analyze.js\<close>.
\<close>

theorem fail_fast:
  "(analyze cfg w s coinId ca chain clientId coinName = (r, s', tr) \<and> list_ex (fails w) tr \<longrightarrow>
      error r \<and> cache s' = cache s \<and> timers s' = timers s \<and> \<not> list_ex (\<lambda>e. 7 \<le> phase e) tr) \<and>
   (api_analyze cfg w t coinId ca chain clientId = (q, t', tq) \<and> list_ex (fails w) tq \<longrightarrow>
      error q \<and> cache t' = cache t \<and> timers t' = timers t \<and> \<not> list_ex (\<lambda>e. 7 \<le> phase e) tq)"
  using fail_fast_part[of cfg w s coinId ca chain clientId coinName r s' tr]
    api_fail_fast_part[of cfg w t coinId ca chain clientId q t' tq]
  by blast

section \<open>The example invocations\<close>

lemma resolve_complete:
  "truthy coinId \<Longrightarrow> truthy ca \<Longrightarrow> truthy chain \<Longrightarrow>
     resolve w coinId ca chain coinName = (Inr (coinId, ca, chain), [])"
  by (simp add: resolve_def)

lemma uni_addr_ok: "CONTRACT_ADDRESS uni_addr"
  by (simp add: CONTRACT_ADDRESS_def uni_addr_def)

lemma uni_slug_ok: "COIN_ID ''uniswap''"
  by (simp add: COIN_ID_def)

lemma uni_truthy: "uni_addr \<noteq> []"
  by (simp add: uni_addr_def)

lemma uni_valid: "validate_identity (Str ''uniswap'') (Str uni_addr) (Str ''eth'') = Inr ()"
  by (simp add: validate_identity_def validateInput_def uni_addr_ok uni_slug_ok uni_truthy)

lemma api_uni_valid: "api_validateInput (Str ''uniswap'') (Str uni_addr) (Str ''eth'') = Inr ()"
  by (simp add: api_validateInput_def uni_addr_ok uni_slug_ok)

lemma uni_aggregate_ok:
  "aggregate (upstream_ok a b p) (Str ''uniswap'') (Str uni_addr) (Str ''eth'') =
     (Inr (market_of (uni_payload p), uni_holders, uni_pools),
      [Call_market ''uniswap'', Call_etherscan uni_addr, Call_dexscreener uni_addr])"
  by (simp add: aggregate_def uni_truthy fetchCoinGeckoData_def fetchEtherscanData_def
      fetchDexScreenerData_def upstream_ok_def Promise_all_def)

lemma uni_aggregate_down:
  "aggregate (liquidity_down a b p) (Str ''uniswap'') (Str uni_addr) (Str ''eth'') =
     (Inl ''DexScreener API error: 503'',
      [Call_market ''uniswap'', Call_etherscan uni_addr, Call_dexscreener uni_addr])"
  by (simp add: aggregate_def uni_truthy fetchCoinGeckoData_def fetchEtherscanData_def
      fetchDexScreenerData_def upstream_ok_def liquidity_down_def Promise_all_def rejection_def)

lemma api_uni_aggregate_ok:
  "api_aggregate (upstream_ok a b p) (Str ''uniswap'') (Str uni_addr) (Str ''eth'') =
     (Inr (market_of (uni_payload p), uni_holders, uni_pools),
      [Call_market ''uniswap'', Call_etherscan uni_addr, Call_dexscreener uni_addr])"
  by (simp add: api_aggregate_def api_fetchCoinGeckoData_def api_fetchEtherscanData_def
      api_fetchDexScreenerData_def upstream_ok_def Promise_all_def)

lemma api_uni_aggregate_down:
  "api_aggregate (liquidity_down a b p) (Str ''uniswap'') (Str uni_addr) (Str ''eth'') =
     (Inl ''Failed to fetch liquidity data'',
      [Call_market ''uniswap'', Call_etherscan uni_addr, Call_dexscreener uni_addr])"
  by (simp add: api_aggregate_def api_fetchCoinGeckoData_def api_fetchEtherscanData_def
      api_fetchDexScreenerData_def upstream_ok_def liquidity_down_def Promise_all_def rejection_def)

lemma admit_first: "rc c = None \<Longrightarrow> checkRateLimit t c rc = (Inr (), rc(c \<mapsto> [t]))"
  by (simp add: checkRateLimit_def MAX_REQUESTS_PER_MINUTE_def)

lemma clocks:
  "now_entry (upstream_ok a b p) = a" "now_admission (upstream_ok a b p) = a"
  "now_exit (upstream_ok a b p) = b" "now_stamp (upstream_ok a b p) = b"
  "now_entry (liquidity_down a b p) = a" "now_admission (liquidity_down a b p) = a"
  "now_exit (liquidity_down a b p) = b" "now_stamp (liquidity_down a b p) = b"
  "now_entry (native_ok a b p) = a" "now_admission (native_ok a b p) = a"
  "now_exit (native_ok a b p) = b" "now_stamp (native_ok a b p) = b"
  by (simp_all add: upstream_ok_def liquidity_down_def native_ok_def)

lemma uni_call_down:
  "uni_call cfg (liquidity_down a b p) new_analyzer =
     (Failure ''DexScreener API error: 503'' (b - a) b,
      new_analyzer\<lparr>requestCounts := [Str ''alice'' \<mapsto> [a]]\<rparr>,
      [Validation, Admission (Str ''alice''), Cache_lookup (uni_key cfg),
       Call_market ''uniswap'', Call_etherscan uni_addr, Call_dexscreener uni_addr])"
  by (simp add: uni_call_def analyze_unfold analyze_try_def default_param_def resolve_complete
      uni_truthy uni_valid admit_first new_analyzer_def uni_aggregate_down uni_key_def clocks)

lemma api_uni_call_down:
  "api_uni_call cfg (liquidity_down a b p) new_analyzer =
     (Failure ''Failed to fetch liquidity data'' (b - a) b,
      new_analyzer\<lparr>requestCounts := [Str ''alice'' \<mapsto> [a]]\<rparr>,
      [Validation, Admission (Str ''alice''), Cache_lookup (uni_key cfg),
       Call_market ''uniswap'', Call_etherscan uni_addr, Call_dexscreener uni_addr])"
  by (simp add: api_uni_call_def api_analyze_unfold api_analyze_try_def default_param_def
      api_uni_valid admit_first new_analyzer_def api_uni_aggregate_down uni_key_def clocks)

lemma uni_call_fresh:
  assumes "cache s (uni_key cfg) = None"
    and "checkRateLimit a (Str ''alice'') (requestCounts s) = (Inr (), counts)"
  shows "uni_call cfg (upstream_ok a b p) s =
     (uni_result a b p,
      (if ENCRYPT_CACHE cfg
       then s\<lparr>requestCounts := counts, cache := (cache s)(uni_key cfg \<mapsto> uni_result a b p),
              timers := timers s @ [(b + CACHE_TTL, uni_key cfg)]\<rparr>
       else s\<lparr>requestCounts := counts\<rparr>),
      [Validation, Admission (Str ''alice''), Cache_lookup (uni_key cfg),
       Call_market ''uniswap'', Call_etherscan uni_addr, Call_dexscreener uni_addr] @
      (if ENCRYPT_CACHE cfg then [Scoring, Cache_store (uni_key cfg)] else [Scoring]))"
  using assms
  by (simp add: uni_call_def analyze_unfold analyze_try_def default_param_def resolve_complete
      uni_truthy uni_valid uni_aggregate_ok uni_key_def uni_result_def clocks Let_def)

lemma uni_call_hit:
  assumes "cache s (uni_key cfg) = Some cached"
    and "checkRateLimit a (Str ''alice'') (requestCounts s) = (Inr (), counts)"
  shows "uni_call cfg (upstream_ok a b p) s =
     (with_fromCache cached, s\<lparr>requestCounts := counts\<rparr>,
      [Validation, Admission (Str ''alice''), Cache_lookup (uni_key cfg)])"
  using assms
  by (simp add: uni_call_def analyze_unfold analyze_try_def default_param_def resolve_complete
      uni_truthy uni_valid uni_key_def clocks)

lemma api_uni_call_fresh:
  assumes "cache s (uni_key cfg) = None"
    and "checkRateLimit a (Str ''alice'') (requestCounts s) = (Inr (), counts)"
  shows "api_uni_call cfg (upstream_ok a b p) s =
     (api_uni_result a b p,
      (if ENCRYPT_CACHE cfg
       then s\<lparr>requestCounts := counts, cache := (cache s)(uni_key cfg \<mapsto> api_uni_result a b p)\<rparr>
       else s\<lparr>requestCounts := counts\<rparr>),
      [Validation, Admission (Str ''alice''), Cache_lookup (uni_key cfg),
       Call_market ''uniswap'', Call_etherscan uni_addr, Call_dexscreener uni_addr] @
      (if ENCRYPT_CACHE cfg then [Scoring, Cache_store (uni_key cfg)] else [Scoring]))"
  using assms
  by (simp add: api_uni_call_def api_analyze_unfold api_analyze_try_def default_param_def
      api_uni_valid api_uni_aggregate_ok uni_key_def api_uni_result_def clocks Let_def)

lemma api_uni_call_hit:
  assumes "cache s (uni_key cfg) = Some cached"
    and "checkRateLimit a (Str ''alice'') (requestCounts s) = (Inr (), counts)"
  shows "api_uni_call cfg (upstream_ok a b p) s =
     (with_fromCache cached, s\<lparr>requestCounts := counts\<rparr>,
      [Validation, Admission (Str ''alice''), Cache_lookup (uni_key cfg)])"
  using assms
  by (simp add: api_uni_call_def api_analyze_unfold api_analyze_try_def default_param_def
      api_uni_valid uni_key_def clocks)

lemma admit_again:
  "checkRateLimit 1000 (Str ''alice'') [Str ''alice'' \<mapsto> [0]] = (Inr (), [Str ''alice'' \<mapsto> [0, 1000]])"
  "checkRateLimit 600000 (Str ''alice'') [Str ''alice'' \<mapsto> [0]] = (Inr (), [Str ''alice'' \<mapsto> [600000]])"
  by (simp_all add: checkRateLimit_def MAX_REQUESTS_PER_MINUTE_def)

lemma uni_result_fields:
  "processingTime (uni_result a b p) = b - a" "timestamp (uni_result a b p) = b"
  "\<not> fromCache (uni_result a b p)" "\<not> error (uni_result a b p)"
  "price (basic (uni_result a b p)) = Num p"
  "with_fromCache (uni_result a b p) \<noteq> uni_result a b p"
  "processingTime (with_fromCache (uni_result a b p)) = b - a"
  "timestamp (with_fromCache (uni_result a b p)) = b"
  "fromCache (with_fromCache (uni_result a b p))"
  "basic (with_fromCache (uni_result a b p)) = basic (uni_result a b p)"
  "scores (with_fromCache (uni_result a b p)) = scores (uni_result a b p)"
  by (simp_all add: uni_result_def compose_result_def clocks market_of_def uni_payload_def)

lemma api_uni_result_fields:
  "processingTime (api_uni_result a b p) = b - a" "timestamp (api_uni_result a b p) = b"
  "\<not> fromCache (api_uni_result a b p)" "\<not> error (api_uni_result a b p)"
  "price (basic (api_uni_result a b p)) = Num p"
  "processingTime (with_fromCache (api_uni_result a b p)) = b - a"
  "timestamp (with_fromCache (api_uni_result a b p)) = b"
  "fromCache (with_fromCache (api_uni_result a b p))"
  "basic (with_fromCache (api_uni_result a b p)) = basic (api_uni_result a b p)"
  "scores (with_fromCache (api_uni_result a b p)) = scores (api_uni_result a b p)"
  by (simp_all add: api_uni_result_def api_compose_result_def clocks market_of_def uni_payload_def)

text \<open>
  The liquidity provider answers 503 while the market and the holder provider succeed:
  both analyzers return the error object and their caches stay empty.
\<close>

theorem fail_fast_witness:
  "error (fst (uni_call production (liquidity_down 0 500 10) new_analyzer)) \<and>
   cache (fst (snd (uni_call production (liquidity_down 0 500 10) new_analyzer))) = Map.empty \<and>
   error (fst (api_uni_call production (liquidity_down 0 500 10) new_analyzer)) \<and>
   cache (fst (snd (api_uni_call production (liquidity_down 0 500 10) new_analyzer))) = Map.empty"
proof -
  let ?w = "liquidity_down 0 500 10"
  let ?x = "uni_call production ?w new_analyzer"
  let ?y = "api_uni_call production ?w new_analyzer"
  have down: "fails ?w (Call_dexscreener uni_addr)"
    by (simp add: liquidity_down_def)
  have x: "analyze production ?w new_analyzer (Str ''uniswap'') (Str uni_addr) (Str ''eth'')
      (Str ''alice'') Undefined = (fst ?x, fst (snd ?x), snd (snd ?x))"
    by (simp add: uni_call_def)
  have y: "api_analyze production ?w new_analyzer (Str ''uniswap'') (Str uni_addr) (Str ''eth'')
      (Str ''alice'') = (fst ?y, fst (snd ?y), snd (snd ?y))"
    by (simp add: api_uni_call_def)
  have bx: "list_ex (fails ?w) (snd (snd ?x))"
    using down by (simp add: uni_call_down)
  have "list_ex (fails ?w) (snd (snd ?y))"
    using down by (simp add: api_uni_call_down)
  with x y bx
    fail_fast[of production ?w new_analyzer "Str ''uniswap''" "Str uni_addr" "Str ''eth''"
      "Str ''alice''" Undefined "fst ?x" "fst (snd ?x)" "snd (snd ?x)"
      new_analyzer "fst ?y" "fst (snd ?y)" "snd (snd ?y)"]
  show ?thesis by (simp add: new_analyzer_def)
qed

section \<open>The \<open>catch\<close> block\<close>

lemma analyze_failure_paths:
  fixes w coinId ca chain clientId coinName cfg s
  defines "chain' \<equiv> default_param chain (Str ''eth'')"
    and "client' \<equiv> default_param clientId (Str ''default'')"
    and "name' \<equiv> default_param coinName (Str [])"
  shows "fst (resolve w coinId ca chain' name') = Inl e \<Longrightarrow>
           fst (analyze cfg w s coinId ca chain clientId coinName) = caught w e"
    and "fst (resolve w coinId ca chain' name') = Inr (i, a, c) \<Longrightarrow> validate_identity i a c = Inl e \<Longrightarrow>
           fst (analyze cfg w s coinId ca chain clientId coinName) = caught w e"
    and "fst (resolve w coinId ca chain' name') = Inr (i, a, c) \<Longrightarrow> validate_identity i a c = Inr () \<Longrightarrow>
           fst (checkRateLimit (now_admission w) client' (requestCounts s)) = Inl e \<Longrightarrow>
           fst (analyze cfg w s coinId ca chain clientId coinName) = caught w e"
    and "fst (resolve w coinId ca chain' name') = Inr (i, a, c) \<Longrightarrow> validate_identity i a c = Inr () \<Longrightarrow>
           fst (checkRateLimit (now_admission w) client' (requestCounts s)) = Inr () \<Longrightarrow>
           cache s (cacheKey_of cfg i a c) = None \<Longrightarrow> fst (aggregate w i a c) = Inl e \<Longrightarrow>
           fst (analyze cfg w s coinId ca chain clientId coinName) = caught w e"
  unfolding chain'_def client'_def name'_def
  by (auto simp: analyze_unfold analyze_try_def caught_def Let_def
      split: prod.splits sum.splits option.splits)

lemma api_analyze_failure_paths:
  fixes w coinId ca chain clientId cfg s
  defines "chain' \<equiv> default_param chain (Str ''eth'')"
    and "client' \<equiv> default_param clientId (Str ''default'')"
  shows "api_validateInput coinId ca chain' = Inl e \<Longrightarrow>
           fst (api_analyze cfg w s coinId ca chain clientId) = caught w e"
    and "api_validateInput coinId ca chain' = Inr () \<Longrightarrow>
           fst (checkRateLimit (now_admission w) client' (requestCounts s)) = Inl e \<Longrightarrow>
           fst (api_analyze cfg w s coinId ca chain clientId) = caught w e"
    and "api_validateInput coinId ca chain' = Inr () \<Longrightarrow>
           fst (checkRateLimit (now_admission w) client' (requestCounts s)) = Inr () \<Longrightarrow>
           cache s (cacheKey_of cfg coinId ca chain') = None \<Longrightarrow>
           fst (api_aggregate w coinId ca chain') = Inl e \<Longrightarrow>
           fst (api_analyze cfg w s coinId ca chain clientId) = caught w e"
  unfolding chain'_def client'_def
  by (auto simp: api_analyze_unfold api_analyze_try_def caught_def Let_def
      split: prod.splits sum.splits option.splits)

text \<open>
  Claim C2. \<open>analyze\<close> returns an object on every input and in every world; no error
  leaves it, since the whole body stands in the \<open>try\<close> block. Each way in which the body
  fails ends in the object of the \<open>catch\<close> block with the message of the error, the time
  from entry to exit and the timestamp: a step of the resolution fails, the identity is
  not valid, the client is denied, or a fetcher fails. The field the claim calls
  \<open>processingTimeMs\<close> is \<open>processingTime\<close> in the source. The first four statements are
  about \<open>src/unnamed/part_001\<close>, the other three about \<open>src/api/analyze.js\<close>, which
  resolves nothing.
\<close>

theorem analyze_never_raises:
  "(fst (resolve w coinId ca (default_param chain (Str ''eth'')) (default_param coinName (Str []))) = Inl e \<longrightarrow>
      fst (analyze cfg w s coinId ca chain clientId coinName) = caught w e) \<and>
   (fst (resolve w coinId ca (default_param chain (Str ''eth'')) (default_param coinName (Str []))) = Inr (i, a, c) \<and>
    validate_identity i a c = Inl e \<longrightarrow>
      fst (analyze cfg w s coinId ca chain clientId coinName) = caught w e) \<and>
   (fst (resolve w coinId ca (default_param chain (Str ''eth'')) (default_param coinName (Str []))) = Inr (i, a, c) \<and>
    validate_identity i a c = Inr () \<and>
    fst (checkRateLimit (now_admission w) (default_param clientId (Str ''default'')) (requestCounts s)) = Inl e \<longrightarrow>
      fst (analyze cfg w s coinId ca chain clientId coinName) = caught w e) \<and>
   (fst (resolve w coinId ca (default_param chain (Str ''eth'')) (default_param coinName (Str []))) = Inr (i, a, c) \<and>
    validate_identity i a c = Inr () \<and>
    fst (checkRateLimit (now_admission w) (default_param clientId (Str ''default'')) (requestCounts s)) = Inr () \<and>
    cache s (cacheKey_of cfg i a c) = None \<and> fst (aggregate w i a c) = Inl e \<longrightarrow>
      fst (analyze cfg w s coinId ca chain clientId coinName) = caught w e) \<and>
   (api_validateInput coinId ca (default_param chain (Str ''eth'')) = Inl e \<longrightarrow>
      fst (api_analyze cfg w t coinId ca chain clientId) = caught w e) \<and>
   (api_validateInput coinId ca (default_param chain (Str ''eth'')) = Inr () \<and>
    fst (checkRateLimit (now_admission w) (default_param clientId (Str ''default'')) (requestCounts t)) = Inl e \<longrightarrow>
      fst (api_analyze cfg w t coinId ca chain clientId) = caught w e) \<and>
   (api_validateInput coinId ca (default_param chain (Str ''eth'')) = Inr () \<and>
    fst (checkRateLimit (now_admission w) (default_param clientId (Str ''default'')) (requestCounts t)) = Inr () \<and>
    cache t (cacheKey_of cfg coinId ca (default_param chain (Str ''eth''))) = None \<and>
    fst (api_aggregate w coinId ca (default_param chain (Str ''eth''))) = Inl e \<longrightarrow>
      fst (api_analyze cfg w t coinId ca chain clientId) = caught w e)"
proof (intro conjI impI; (elim conjE)?)
  show "fst (analyze cfg w s coinId ca chain clientId coinName) = caught w e"
    if "fst (resolve w coinId ca (default_param chain (Str ''eth'')) (default_param coinName (Str []))) = Inl e"
    using that by (rule analyze_failure_paths(1))
  show "fst (analyze cfg w s coinId ca chain clientId coinName) = caught w e"
    if "fst (resolve w coinId ca (default_param chain (Str ''eth'')) (default_param coinName (Str []))) = Inr (i, a, c)"
      and "validate_identity i a c = Inl e"
    using that by (rule analyze_failure_paths(2))
  show "fst (analyze cfg w s coinId ca chain clientId coinName) = caught w e"
    if "fst (resolve w coinId ca (default_param chain (Str ''eth'')) (default_param coinName (Str []))) = Inr (i, a, c)"
      and "validate_identity i a c = Inr ()"
      and "fst (checkRateLimit (now_admission w) (default_param clientId (Str ''default'')) (requestCounts s)) = Inl e"
    using that by (rule analyze_failure_paths(3))
  show "fst (analyze cfg w s coinId ca chain clientId coinName) = caught w e"
    if "fst (resolve w coinId ca (default_param chain (Str ''eth'')) (default_param coinName (Str []))) = Inr (i, a, c)"
      and "validate_identity i a c = Inr ()"
      and "fst (checkRateLimit (now_admission w) (default_param clientId (Str ''default'')) (requestCounts s)) = Inr ()"
      and "cache s (cacheKey_of cfg i a c) = None" and "fst (aggregate w i a c) = Inl e"
    using that by (rule analyze_failure_paths(4))
  show "fst (api_analyze cfg w t coinId ca chain clientId) = caught w e"
    if "api_validateInput coinId ca (default_param chain (Str ''eth'')) = Inl e"
    using that by (rule api_analyze_failure_paths(1))
  show "fst (api_analyze cfg w t coinId ca chain clientId) = caught w e"
    if "api_validateInput coinId ca (default_param chain (Str ''eth'')) = Inr ()"
      and "fst (checkRateLimit (now_admission w) (default_param clientId (Str ''default'')) (requestCounts t)) = Inl e"
    using that by (rule api_analyze_failure_paths(2))
  show "fst (api_analyze cfg w t coinId ca chain clientId) = caught w e"
    if "api_validateInput coinId ca (default_param chain (Str ''eth'')) = Inr ()"
      and "fst (checkRateLimit (now_admission w) (default_param clientId (Str ''default'')) (requestCounts t)) = Inr ()"
      and "cache t (cacheKey_of cfg coinId ca (default_param chain (Str ''eth''))) = None"
      and "fst (api_aggregate w coinId ca (default_param chain (Str ''eth''))) = Inl e"
    using that by (rule api_analyze_failure_paths(3))
qed

text \<open>
  The liquidity provider answers 503: the fourth and the seventh way. The first analyzer
  hands the message of the fetcher on, the second one that of its own.
\<close>

theorem analyze_never_raises_witness:
  "fst (uni_call production (liquidity_down 0 500 10) new_analyzer) =
     Failure ''DexScreener API error: 503'' 500 500 \<and>
   fst (api_uni_call production (liquidity_down 0 500 10) new_analyzer) =
     Failure ''Failed to fetch liquidity data'' 500 500"
proof -
  let ?w = "liquidity_down 0 500 10"
  have r: "fst (resolve ?w (Str ''uniswap'') (Str uni_addr) (default_param (Str ''eth'') (Str ''eth''))
      (default_param Undefined (Str []))) = Inr (Str ''uniswap'', Str uni_addr, Str ''eth'')"
    by (simp add: default_param_def resolve_complete uni_truthy)
  have a: "fst (checkRateLimit (now_admission ?w) (default_param (Str ''alice'') (Str ''default''))
      (requestCounts (new_analyzer :: basic analyzer))) = Inr ()"
    by (simp add: default_param_def new_analyzer_def admit_first)
  have a': "fst (checkRateLimit (now_admission ?w) (default_param (Str ''alice'') (Str ''default''))
      (requestCounts (new_analyzer :: api_basic analyzer))) = Inr ()"
    by (simp add: default_param_def new_analyzer_def admit_first)
  have m: "cache (new_analyzer :: basic analyzer) (cacheKey_of production (Str ''uniswap'') (Str uni_addr) (Str ''eth'')) = None"
    "cache (new_analyzer :: api_basic analyzer) (cacheKey_of production (Str ''uniswap'') (Str uni_addr)
       (default_param (Str ''eth'') (Str ''eth''))) = None"
    by (simp_all add: new_analyzer_def)
  have v: "api_validateInput (Str ''uniswap'') (Str uni_addr) (default_param (Str ''eth'') (Str ''eth'')) = Inr ()"
    by (simp add: default_param_def api_uni_valid)
  have g: "fst (aggregate ?w (Str ''uniswap'') (Str uni_addr) (Str ''eth'')) = Inl ''DexScreener API error: 503''"
    "fst (api_aggregate ?w (Str ''uniswap'') (Str uni_addr) (default_param (Str ''eth'') (Str ''eth'')))
       = Inl ''Failed to fetch liquidity data''"
    by (simp_all add: uni_aggregate_down api_uni_aggregate_down default_param_def)
  note t = analyze_never_raises[of ?w "Str ''uniswap''" "Str uni_addr" "Str ''eth''" Undefined
      "''DexScreener API error: 503''" production new_analyzer "Str ''alice''"
      "Str ''uniswap''" "Str uni_addr" "Str ''eth''" new_analyzer]
  note t' = analyze_never_raises[of ?w "Str ''uniswap''" "Str uni_addr" "Str ''eth''" Undefined
      "''Failed to fetch liquidity data''" production new_analyzer "Str ''alice''"
      "Str ''uniswap''" "Str uni_addr" "Str ''eth''" new_analyzer]
  have "fst (uni_call production ?w new_analyzer) = caught ?w ''DexScreener API error: 503''"
    using t r uni_valid a m(1) g(1) unfolding uni_call_def by blast
  moreover have "fst (api_uni_call production ?w new_analyzer) = caught ?w ''Failed to fetch liquidity data''"
    using t' v a' m(2) g(2) unfolding api_uni_call_def by blast
  ultimately show ?thesis by (simp add: caught_def clocks)
qed

section \<open>The result cache\<close>

lemma fold_timers_empty:
  "fold (\<lambda>(due, key) c. if due \<le> now then c(key := None) else c) ts Map.empty = Map.empty"
  by (induction ts) (auto split: prod.splits)

lemma run_timers_empty: "cache s = Map.empty \<Longrightarrow> cache (run_timers now s) = Map.empty"
  by (simp add: run_timers_def fold_timers_empty)

lemma fold_timers_keeps:
  "\<forall>(due, key)\<in>set ts. key = k \<longrightarrow> now < due \<Longrightarrow>
     fold (\<lambda>(due, key) c. if due \<le> (now::int) then c(key := None) else c) ts c k = c k"
  by (induction ts arbitrary: c) (auto split: prod.splits)

lemma run_timers_keeps:
  "\<forall>(due, key)\<in>set (timers s). key = k \<longrightarrow> now < due \<Longrightarrow> cache (run_timers now s) k = cache s k"
  by (simp add: run_timers_def fold_timers_keeps)

lemma with_fromCache_idem: "with_fromCache (with_fromCache r) = with_fromCache r"
  by (cases r) auto

lemma with_fromCache_fields:
  "\<not> error r \<Longrightarrow> basic (with_fromCache r) = basic r \<and> scores (with_fromCache r) = scores r
     \<and> fromCache (with_fromCache r)"
  by (cases r) auto

lemma error_with_fromCache: "error (with_fromCache r) = error r"
  by (cases r) auto

lemma analyze_cache_change:
  assumes "analyze cfg w s coinId ca chain clientId coinName = (r, s', tr)" "cache s' \<noteq> cache s"
  shows "ENCRYPT_CACHE cfg"
  using assms
  by (cases rule: analyze_try_cases[of w coinId ca "default_param chain (Str ''eth'')"
      "default_param coinName (Str [])" cfg s "now_entry w" "default_param clientId (Str ''default'')"])
    (auto simp: analyze_unfold split: if_splits)

lemma api_analyze_cache_change:
  assumes "api_analyze cfg w s coinId ca chain clientId = (r, s', tr)" "cache s' \<noteq> cache s"
  shows "ENCRYPT_CACHE cfg"
  using assms
  by (cases rule: api_analyze_try_cases[of coinId ca "default_param chain (Str ''eth'')"
      cfg w s "now_entry w" "default_param clientId (Str ''default'')"])
    (auto simp: api_analyze_unfold split: if_splits)

lemma analyze_empty_cache:
  assumes "analyze cfg w s coinId ca chain clientId coinName = (r, s', tr)" "cache s = Map.empty"
  shows "\<not> fromCache r"
  using assms
  by (cases rule: analyze_try_cases[of w coinId ca "default_param chain (Str ''eth'')"
      "default_param coinName (Str [])" cfg s "now_entry w" "default_param clientId (Str ''default'')"])
    (auto simp: analyze_unfold compose_result_def split: if_splits)

lemma api_analyze_empty_cache:
  assumes "api_analyze cfg w s coinId ca chain clientId = (r, s', tr)" "cache s = Map.empty"
  shows "\<not> fromCache r"
  using assms
  by (cases rule: api_analyze_try_cases[of coinId ca "default_param chain (Str ''eth'')"
      cfg w s "now_entry w" "default_param clientId (Str ''default'')"])
    (auto simp: api_analyze_unfold api_compose_result_def split: if_splits)

lemma serve_development:
  assumes "\<not> ENCRYPT_CACHE cfg" "cache s = Map.empty"
  shows "cache (snd (serve cfg s qs)) = Map.empty \<and> list_all (\<lambda>r. \<not> fromCache r) (fst (serve cfg s qs))"
  using assms(2)
proof (induction qs arbitrary: s)
  case Nil
  then show ?case by simp
next
  case (Cons q qs)
  let ?s0 = "run_timers (now_admission (req_world q)) s"
  obtain r s1 tr where step: "analyze cfg (req_world q) ?s0 (req_coinId q) (req_contractAddress q)
      (req_chain q) (req_clientId q) (req_coinName q) = (r, s1, tr)"
    by (metis prod_cases3)
  have e0: "cache ?s0 = Map.empty" using Cons.prems by (rule run_timers_empty)
  have "cache s1 = cache ?s0"
    using analyze_cache_change[OF step] assms(1) by blast
  with e0 have e1: "cache s1 = Map.empty" by simp
  have nc: "\<not> fromCache r" using analyze_empty_cache[OF step e0] .
  from Cons.IH[OF e1] nc show ?case
    by (simp add: step split_beta)
qed

lemma api_serve_development:
  assumes "\<not> ENCRYPT_CACHE cfg" "cache s = Map.empty"
  shows "cache (snd (api_serve cfg s qs)) = Map.empty \<and> list_all (\<lambda>r. \<not> fromCache r) (fst (api_serve cfg s qs))"
  using assms(2)
proof (induction qs arbitrary: s)
  case Nil
  then show ?case by simp
next
  case (Cons q qs)
  obtain r s1 tr where step: "api_analyze cfg (req_world q) s (req_coinId q) (req_contractAddress q)
      (req_chain q) (req_clientId q) = (r, s1, tr)"
    by (metis prod_cases3)
  have "cache s1 = cache s"
    using api_analyze_cache_change[OF step] assms(1) by blast
  with Cons.prems have e1: "cache s1 = Map.empty" by simp
  have nc: "\<not> fromCache r" using api_analyze_empty_cache[OF step Cons.prems] .
  from Cons.IH[OF e1] nc show ?case
    by (simp add: step split_beta)
qed

text \<open>
  Claim C10. An invocation changes the cache only if \<open>ENCRYPT_CACHE\<close> is set. Where it
  is not set, the cache of an analyzer that serves one request after the other stays empty
  from its construction on, and no result it returns has \<open>fromCache\<close>. This holds of both
  analyzers.
\<close>

theorem cache_needs_production:
  "(analyze cfg w s coinId ca chain clientId coinName = (r, s', tr) \<and> cache s' \<noteq> cache s \<longrightarrow>
      ENCRYPT_CACHE cfg) \<and>
   (api_analyze cfg w t coinId ca chain clientId = (q, t', tq) \<and> cache t' \<noteq> cache t \<longrightarrow>
      ENCRYPT_CACHE cfg) \<and>
   (\<not> ENCRYPT_CACHE cfg \<longrightarrow>
      cache (snd (serve cfg new_analyzer qs)) = Map.empty \<and>
      list_all (\<lambda>r. \<not> fromCache r) (fst (serve cfg new_analyzer qs)) \<and>
      cache (snd (api_serve cfg new_analyzer qs)) = Map.empty \<and>
      list_all (\<lambda>r. \<not> fromCache r) (fst (api_serve cfg new_analyzer qs)))"
proof -
  have e: "cache (new_analyzer :: basic analyzer) = Map.empty"
    "cache (new_analyzer :: api_basic analyzer) = Map.empty"
    by (simp_all add: new_analyzer_def)
  show ?thesis
    using analyze_cache_change[of cfg w s coinId ca chain clientId coinName r s' tr]
      api_analyze_cache_change[of cfg w t coinId ca chain clientId q t' tq]
      serve_development[of cfg new_analyzer qs, OF _ e(1)]
      api_serve_development[of cfg new_analyzer qs, OF _ e(2)]
    by blast
qed


text \<open>Two requests for the same token outside production: nothing is kept.\<close>

theorem cache_needs_production_witness:
  "\<not> ENCRYPT_CACHE development \<and>
   cache (snd (serve development new_analyzer
     [uni_request (upstream_ok 0 500 10), uni_request (upstream_ok 1000 1500 12)])) = Map.empty \<and>
   list_all (\<lambda>r. \<not> fromCache r) (fst (serve development new_analyzer
     [uni_request (upstream_ok 0 500 10), uni_request (upstream_ok 1000 1500 12)])) \<and>
   cache (snd (api_serve development new_analyzer
     [uni_request (upstream_ok 0 500 10), uni_request (upstream_ok 1000 1500 12)])) = Map.empty"
proof -
  have dev: "\<not> ENCRYPT_CACHE development" by (simp add: development_def)
  from cache_needs_production[THEN conjunct2, THEN conjunct2, THEN mp, OF dev] dev
  show ?thesis by blast
qed

lemma first_call_leaves_entry:
  assumes run: "analyze cfg w s coinId ca chain clientId coinName = (r, s', tr)"
    and ok: "\<not> error r" and prod: "ENCRYPT_CACHE cfg"
    and ident: "fst (resolve w coinId ca (default_param chain (Str ''eth''))
        (default_param coinName (Str []))) = Inr (i, a, c)"
  shows "\<exists>cached. cache s' (cacheKey_of cfg i a c) = Some cached \<and>
           with_fromCache cached = with_fromCache r \<and>
           (timers s' = timers s \<or>
            timers s' = timers s @ [(now_exit w + CACHE_TTL, cacheKey_of cfg i a c)])"
  using run ok prod ident
  by (cases rule: analyze_try_cases[of w coinId ca "default_param chain (Str ''eth'')"
      "default_param coinName (Str [])" cfg s "now_entry w" "default_param clientId (Str ''default'')"])
    (auto simp: analyze_unfold with_fromCache_idem)

lemma hit_returns:
  assumes run: "analyze cfg w s coinId ca chain clientId coinName = (r, s', tr)"
    and ok: "\<not> error r"
    and ident: "fst (resolve w coinId ca (default_param chain (Str ''eth''))
        (default_param coinName (Str []))) = Inr (i, a, c)"
    and hit: "cache s (cacheKey_of cfg i a c) = Some cached"
  shows "r = with_fromCache cached"
  using run ok ident hit
  by (cases rule: analyze_try_cases[of w coinId ca "default_param chain (Str ''eth'')"
      "default_param coinName (Str [])" cfg s "now_entry w" "default_param clientId (Str ''default'')"])
    (auto simp: analyze_unfold)

lemma api_first_call_leaves_entry:
  assumes run: "api_analyze cfg w s coinId ca chain clientId = (r, s', tr)"
    and ok: "\<not> error r" and prod: "ENCRYPT_CACHE cfg"
  shows "\<exists>cached. cache s' (cacheKey_of cfg coinId ca (default_param chain (Str ''eth''))) = Some cached \<and>
           with_fromCache cached = with_fromCache r"
  using run ok prod
  by (cases rule: api_analyze_try_cases[of coinId ca "default_param chain (Str ''eth'')"
      cfg w s "now_entry w" "default_param clientId (Str ''default'')"])
    (auto simp: api_analyze_unfold with_fromCache_idem)

lemma api_hit_returns:
  assumes run: "api_analyze cfg w s coinId ca chain clientId = (r, s', tr)"
    and ok: "\<not> error r"
    and hit: "cache s (cacheKey_of cfg coinId ca (default_param chain (Str ''eth''))) = Some cached"
  shows "r = with_fromCache cached"
  using run ok hit
  by (cases rule: api_analyze_try_cases[of coinId ca "default_param chain (Str ''eth'')"
      cfg w s "now_entry w" "default_param clientId (Str ''default'')"])
    (auto simp: api_analyze_unfold)

lemma cached_repeat:
  assumes prod: "ENCRYPT_CACHE cfg"
    and first: "analyze cfg w1 s coinId1 ca1 chain1 client1 name1 = (r1, s1, tr1)" "\<not> error r1"
    and id1: "fst (resolve w1 coinId1 ca1 (default_param chain1 (Str ''eth''))
        (default_param name1 (Str []))) = Inr (i, a, c)"
    and id2: "fst (resolve w2 coinId2 ca2 (default_param chain2 (Str ''eth''))
        (default_param name2 (Str []))) = Inr (i, a, c)"
    and ttl: "now_admission w2 < now_exit w1 + CACHE_TTL"
    and pending: "\<forall>(due, key)\<in>set (timers s). key = cacheKey_of cfg i a c \<longrightarrow> now_admission w2 < due"
    and second: "analyze cfg w2 (run_timers (now_admission w2) s1) coinId2 ca2 chain2 client2 name2
        = (r2, s2, tr2)" "\<not> error r2"
  shows "r2 = with_fromCache r1"
proof -
  from first_call_leaves_entry[OF first prod id1] obtain cached where
    entry: "cache s1 (cacheKey_of cfg i a c) = Some cached"
    and same: "with_fromCache cached = with_fromCache r1"
    and tm: "timers s1 = timers s \<or>
            timers s1 = timers s @ [(now_exit w1 + CACHE_TTL, cacheKey_of cfg i a c)]"
    by blast
  have "\<forall>(due, key)\<in>set (timers s1). key = cacheKey_of cfg i a c \<longrightarrow> now_admission w2 < due"
    using tm pending ttl by auto
  then have "cache (run_timers (now_admission w2) s1) (cacheKey_of cfg i a c) = Some cached"
    using entry by (simp add: run_timers_keeps)
  from hit_returns[OF second id2 this] same show ?thesis by simp
qed

lemma api_cached_repeat:
  assumes prod: "ENCRYPT_CACHE cfg"
    and first: "api_analyze cfg w1 t coinId ca chain1 client1 = (q1, t1, tq1)" "\<not> error q1"
    and chain: "default_param chain2 (Str ''eth'') = default_param chain1 (Str ''eth'')"
    and second: "api_analyze cfg w2 t1 coinId ca chain2 client2 = (q2, t2, tq2)" "\<not> error q2"
  shows "q2 = with_fromCache q1"
proof -
  from api_first_call_leaves_entry[OF first prod] obtain cached where
    entry: "cache t1 (cacheKey_of cfg coinId ca (default_param chain1 (Str ''eth''))) = Some cached"
    and same: "with_fromCache cached = with_fromCache q1"
    by blast
  from api_hit_returns[OF second, of cached] entry chain same show ?thesis by simp
qed

text \<open>
  Claim C4, as the code has it: only where \<open>ENCRYPT_CACHE\<close> is set. Two invocations
  succeed and resolve to the same triple; the second looks the cache up before the entry
  of the first is due for deletion, and no timer that was pending on the key before falls
  due earlier. Then the second returns the object of the first with \<open>fromCache\<close> set: the
  same \<open>basic\<close> and the same \<open>scores\<close>. The analyzer of \<open>src/api/analyze.js\<close> sets
  no timer, so there the second of any two successful invocations with the same arguments
  returns the object of the first.
\<close>

theorem cached_within_ttl:
  "(ENCRYPT_CACHE cfg \<and>
    analyze cfg w1 s coinId1 ca1 chain1 client1 name1 = (r1, s1, tr1) \<and> \<not> error r1 \<and>
    fst (resolve w1 coinId1 ca1 (default_param chain1 (Str ''eth'')) (default_param name1 (Str [])))
      = Inr (i, a, c) \<and>
    fst (resolve w2 coinId2 ca2 (default_param chain2 (Str ''eth'')) (default_param name2 (Str [])))
      = Inr (i, a, c) \<and>
    now_admission w2 < now_exit w1 + CACHE_TTL \<and>
    (\<forall>(due, key)\<in>set (timers s). key = cacheKey_of cfg i a c \<longrightarrow> now_admission w2 < due) \<and>
    analyze cfg w2 (run_timers (now_admission w2) s1) coinId2 ca2 chain2 client2 name2 = (r2, s2, tr2) \<and>
    \<not> error r2 \<longrightarrow>
      r2 = with_fromCache r1 \<and> basic r2 = basic r1 \<and> scores r2 = scores r1 \<and> fromCache r2) \<and>
   (ENCRYPT_CACHE cfg \<and>
    api_analyze cfg w1 t coinId ca chain client1 = (q1, t1, tq1) \<and> \<not> error q1 \<and>
    default_param chain' (Str ''eth'') = default_param chain (Str ''eth'') \<and>
    api_analyze cfg w2 t1 coinId ca chain' client2 = (q2, t2, tq2) \<and> \<not> error q2 \<longrightarrow>
      q2 = with_fromCache q1 \<and> basic q2 = basic q1 \<and> scores q2 = scores q1 \<and> fromCache q2)"
proof (rule conjI; rule impI; elim conjE)
  assume a: "ENCRYPT_CACHE cfg" "analyze cfg w1 s coinId1 ca1 chain1 client1 name1 = (r1, s1, tr1)"
    "\<not> error r1"
    "fst (resolve w1 coinId1 ca1 (default_param chain1 (Str ''eth'')) (default_param name1 (Str [])))
      = Inr (i, a, c)"
    "fst (resolve w2 coinId2 ca2 (default_param chain2 (Str ''eth'')) (default_param name2 (Str [])))
      = Inr (i, a, c)"
    "now_admission w2 < now_exit w1 + CACHE_TTL"
    "\<forall>(due, key)\<in>set (timers s). key = cacheKey_of cfg i a c \<longrightarrow> now_admission w2 < due"
    "analyze cfg w2 (run_timers (now_admission w2) s1) coinId2 ca2 chain2 client2 name2 = (r2, s2, tr2)"
    "\<not> error r2"
  have "r2 = with_fromCache r1"
    by (rule cached_repeat[OF a])
  with with_fromCache_fields[OF a(3)]
  show "r2 = with_fromCache r1 \<and> basic r2 = basic r1 \<and> scores r2 = scores r1 \<and> fromCache r2"
    by simp
next
  assume b: "ENCRYPT_CACHE cfg" "api_analyze cfg w1 t coinId ca chain client1 = (q1, t1, tq1)"
    "\<not> error q1" "default_param chain' (Str ''eth'') = default_param chain (Str ''eth'')"
    "api_analyze cfg w2 t1 coinId ca chain' client2 = (q2, t2, tq2)" "\<not> error q2"
  have "q2 = with_fromCache q1"
    by (rule api_cached_repeat[OF b])
  with with_fromCache_fields[OF b(3)]
  show "q2 = with_fromCache q1 \<and> basic q2 = basic q1 \<and> scores q2 = scores q1 \<and> fromCache q2"
    by simp
qed

section \<open>The same request again\<close>

lemma key_same: "uni_key production = uni_key development"
  by (simp add: uni_key_def cacheKey_of_def production_def development_def)

lemma flags: "ENCRYPT_CACHE production" "\<not> ENCRYPT_CACHE development"
  by (simp_all add: production_def development_def)

lemma first_call_eval:
  "fst (first_call cfg) = uni_result 0 500 10"
  "fst (snd (first_call production)) =
     \<lparr>cache = [uni_key production \<mapsto> uni_result 0 500 10],
      requestCounts = [Str ''alice'' \<mapsto> [0]],
      timers = [(500 + CACHE_TTL, uni_key production)]\<rparr>"
  "fst (snd (first_call development)) =
     \<lparr>cache = Map.empty, requestCounts = [Str ''alice'' \<mapsto> [0]], timers = []\<rparr>"
proof -
  have c: "cache (new_analyzer :: basic analyzer) (uni_key cfg) = None" for cfg
    by (simp add: new_analyzer_def)
  have a: "checkRateLimit 0 (Str ''alice'') (requestCounts (new_analyzer :: basic analyzer))
      = (Inr (), [Str ''alice'' \<mapsto> [0]])"
    by (simp add: new_analyzer_def admit_first)
  note e = uni_call_fresh[OF c a, of _ 500 10]
  show "fst (first_call cfg) = uni_result 0 500 10"
    by (simp add: first_call_def e)
  show "fst (snd (first_call production)) =
     \<lparr>cache = [uni_key production \<mapsto> uni_result 0 500 10],
      requestCounts = [Str ''alice'' \<mapsto> [0]],
      timers = [(500 + CACHE_TTL, uni_key production)]\<rparr>"
    unfolding first_call_def e by (simp add: flags new_analyzer_def)
  show "fst (snd (first_call development)) =
     \<lparr>cache = Map.empty, requestCounts = [Str ''alice'' \<mapsto> [0]], timers = []\<rparr>"
    unfolding first_call_def e by (simp add: flags new_analyzer_def)
qed

lemma api_first_call_eval:
  "fst (api_first_call cfg) = api_uni_result 0 500 10"
  "fst (snd (api_first_call production)) =
     \<lparr>cache = [uni_key production \<mapsto> api_uni_result 0 500 10],
      requestCounts = [Str ''alice'' \<mapsto> [0]], timers = []\<rparr>"
  "fst (snd (api_first_call development)) =
     \<lparr>cache = Map.empty, requestCounts = [Str ''alice'' \<mapsto> [0]], timers = []\<rparr>"
proof -
  have c: "cache (new_analyzer :: api_basic analyzer) (uni_key cfg) = None" for cfg
    by (simp add: new_analyzer_def)
  have a: "checkRateLimit 0 (Str ''alice'') (requestCounts (new_analyzer :: api_basic analyzer))
      = (Inr (), [Str ''alice'' \<mapsto> [0]])"
    by (simp add: new_analyzer_def admit_first)
  note e = api_uni_call_fresh[OF c a, of _ 500 10]
  show "fst (api_first_call cfg) = api_uni_result 0 500 10"
    by (simp add: api_first_call_def e)
  show "fst (snd (api_first_call production)) =
     \<lparr>cache = [uni_key production \<mapsto> api_uni_result 0 500 10],
      requestCounts = [Str ''alice'' \<mapsto> [0]], timers = []\<rparr>"
    unfolding api_first_call_def e by (simp add: flags new_analyzer_def)
  show "fst (snd (api_first_call development)) =
     \<lparr>cache = Map.empty, requestCounts = [Str ''alice'' \<mapsto> [0]], timers = []\<rparr>"
    unfolding api_first_call_def e by (simp add: flags new_analyzer_def)
qed

lemma second_call_eval:
  "fst (second_call production) = with_fromCache (uni_result 0 500 10)"
  "fst (second_call development) = uni_result 1000 1002 12"
  "fst (late_call production) = uni_result 600000 600500 12"
proof -
  have "uni_call production (upstream_ok 1000 1002 12) (run_timers 1000 (fst (snd (first_call production))))
      = (with_fromCache (uni_result 0 500 10),
         (run_timers 1000 (fst (snd (first_call production))))\<lparr>requestCounts := [Str ''alice'' \<mapsto> [0, 1000]]\<rparr>,
         [Validation, Admission (Str ''alice''), Cache_lookup (uni_key production)])"
    by (rule uni_call_hit) (simp_all add: first_call_eval run_timers_def CACHE_TTL_def admit_again)
  then show "fst (second_call production) = with_fromCache (uni_result 0 500 10)"
    by (simp add: second_call_def)
  have "fst (uni_call development (upstream_ok 1000 1002 12) (run_timers 1000 (fst (snd (first_call development)))))
      = uni_result 1000 1002 12"
    by (subst uni_call_fresh[where counts = "[Str ''alice'' \<mapsto> [0, 1000]]"])
      (simp_all add: first_call_eval run_timers_def admit_again)
  then show "fst (second_call development) = uni_result 1000 1002 12"
    by (simp add: second_call_def)
  have "fst (uni_call production (upstream_ok 600000 600500 12) (run_timers 600000 (fst (snd (first_call production)))))
      = uni_result 600000 600500 12"
    by (subst uni_call_fresh[where counts = "[Str ''alice'' \<mapsto> [600000]]"])
      (simp_all add: first_call_eval run_timers_def CACHE_TTL_def admit_again)
  then show "fst (late_call production) = uni_result 600000 600500 12"
    by (simp add: late_call_def)
qed

lemma api_second_call_eval:
  "fst (api_second_call production) = with_fromCache (api_uni_result 0 500 10)"
  "fst (api_second_call development) = api_uni_result 1000 1002 12"
  "fst (api_late_call production) = with_fromCache (api_uni_result 0 500 10)"
proof -
  have "fst (api_uni_call production (upstream_ok 1000 1002 12) (fst (snd (api_first_call production))))
      = with_fromCache (api_uni_result 0 500 10)"
    by (subst api_uni_call_hit[where counts = "[Str ''alice'' \<mapsto> [0, 1000]]"
          and cached = "api_uni_result 0 500 10"])
      (simp_all add: api_first_call_eval admit_again)
  then show "fst (api_second_call production) = with_fromCache (api_uni_result 0 500 10)"
    by (simp add: api_second_call_def)
  have "fst (api_uni_call development (upstream_ok 1000 1002 12) (fst (snd (api_first_call development))))
      = api_uni_result 1000 1002 12"
    by (subst api_uni_call_fresh[where counts = "[Str ''alice'' \<mapsto> [0, 1000]]"])
      (simp_all add: api_first_call_eval admit_again)
  then show "fst (api_second_call development) = api_uni_result 1000 1002 12"
    by (simp add: api_second_call_def)
  have "fst (api_uni_call production (upstream_ok 600000 600500 12) (fst (snd (api_first_call production))))
      = with_fromCache (api_uni_result 0 500 10)"
    by (subst api_uni_call_hit[where counts = "[Str ''alice'' \<mapsto> [600000]]"
          and cached = "api_uni_result 0 500 10"])
      (simp_all add: api_first_call_eval admit_again)
  then show "fst (api_late_call production) = with_fromCache (api_uni_result 0 500 10)"
    by (simp add: api_late_call_def)
qed

text \<open>
  In production the second request, a second after the first, is answered from the cache
  by both analyzers.
\<close>

theorem cached_within_ttl_witness:
  "fst (second_call production) = with_fromCache (fst (first_call production)) \<and>
   basic (fst (second_call production)) = basic (fst (first_call production)) \<and>
   scores (fst (second_call production)) = scores (fst (first_call production)) \<and>
   fromCache (fst (second_call production)) \<and>
   fst (api_second_call production) = with_fromCache (fst (api_first_call production)) \<and>
   fromCache (fst (api_second_call production))"
proof -
  let ?w1 = "upstream_ok 0 500 10" and ?w2 = "upstream_ok 1000 1002 12"
  let ?x = "first_call production" and ?y = "second_call production"
  let ?p = "api_first_call production" and ?q = "api_second_call production"
  have id: "fst (resolve w (Str ''uniswap'') (Str uni_addr) (default_param (Str ''eth'') (Str ''eth''))
      (default_param Undefined (Str []))) = Inr (Str ''uniswap'', Str uni_addr, Str ''eth'')" for w
    by (simp add: default_param_def resolve_complete uni_truthy)
  have x: "analyze production ?w1 new_analyzer (Str ''uniswap'') (Str uni_addr) (Str ''eth'')
      (Str ''alice'') Undefined = (fst ?x, fst (snd ?x), snd (snd ?x))"
    by (simp add: first_call_def uni_call_def)
  have y: "analyze production ?w2 (run_timers (now_admission ?w2) (fst (snd ?x))) (Str ''uniswap'')
      (Str uni_addr) (Str ''eth'') (Str ''alice'') Undefined = (fst ?y, fst (snd ?y), snd (snd ?y))"
    by (simp add: second_call_def uni_call_def clocks)
  have p: "api_analyze production ?w1 new_analyzer (Str ''uniswap'') (Str uni_addr) (Str ''eth'')
      (Str ''alice'') = (fst ?p, fst (snd ?p), snd (snd ?p))"
    by (simp add: api_first_call_def api_uni_call_def)
  have q: "api_analyze production ?w2 (fst (snd ?p)) (Str ''uniswap'') (Str uni_addr) (Str ''eth'')
      (Str ''alice'') = (fst ?q, fst (snd ?q), snd (snd ?q))"
    by (simp add: api_second_call_def api_uni_call_def)
  have ok: "\<not> error (fst ?x)" "\<not> error (fst ?y)" "\<not> error (fst ?p)" "\<not> error (fst ?q)"
    by (simp_all add: first_call_eval second_call_eval api_first_call_eval api_second_call_eval
        uni_result_fields api_uni_result_fields error_with_fromCache)
  have ttl: "now_admission ?w2 < now_exit ?w1 + CACHE_TTL"
    by (simp add: clocks CACHE_TTL_def)
  have none: "\<forall>(due, key)\<in>set (timers (new_analyzer :: basic analyzer)).
      key = cacheKey_of production (Str ''uniswap'') (Str uni_addr) (Str ''eth'') \<longrightarrow>
      now_admission ?w2 < due"
    by (simp add: new_analyzer_def)
  note t = cached_within_ttl[where cfg = production and ?w1.0 = ?w1 and ?w2.0 = ?w2
      and s = new_analyzer and t = new_analyzer
      and ?coinId1.0 = "Str ''uniswap''" and ?ca1.0 = "Str uni_addr" and ?chain1.0 = "Str ''eth''"
      and ?client1.0 = "Str ''alice''" and ?name1.0 = Undefined
      and ?coinId2.0 = "Str ''uniswap''" and ?ca2.0 = "Str uni_addr" and ?chain2.0 = "Str ''eth''"
      and ?client2.0 = "Str ''alice''" and ?name2.0 = Undefined
      and i = "Str ''uniswap''" and a = "Str uni_addr" and c = "Str ''eth''"
      and coinId = "Str ''uniswap''" and ca = "Str uni_addr" and chain = "Str ''eth''"
      and chain' = "Str ''eth''"
      and ?r1.0 = "fst ?x" and ?s1.0 = "fst (snd ?x)" and ?tr1.0 = "snd (snd ?x)"
      and ?r2.0 = "fst ?y" and ?s2.0 = "fst (snd ?y)" and ?tr2.0 = "snd (snd ?y)"
      and ?q1.0 = "fst ?p" and ?t1.0 = "fst (snd ?p)" and ?tq1.0 = "snd (snd ?p)"
      and ?q2.0 = "fst ?q" and ?t2.0 = "fst (snd ?q)" and ?tq2.0 = "snd (snd ?q)"]
  have "fst ?y = with_fromCache (fst ?x) \<and> basic (fst ?y) = basic (fst ?x) \<and>
      scores (fst ?y) = scores (fst ?x) \<and> fromCache (fst ?y)"
    using t[THEN conjunct1] flags(1) x ok(1,2) id ttl none y by blast
  moreover have "fst ?q = with_fromCache (fst ?p) \<and> basic (fst ?q) = basic (fst ?p) \<and>
      scores (fst ?q) = scores (fst ?p) \<and> fromCache (fst ?q)"
    using t[THEN conjunct2] flags(1) p ok(3,4) q by blast
  ultimately show ?thesis by blast
qed

text \<open>
  Claim C4 as stated fails. Outside production nothing is cached: the second request, a
  second after the first and well within the five minutes, succeeds like the first, is
  not flagged \<open>fromCache\<close> and reports the price of its own fetch. Both analyzers behave
  so.
\<close>

theorem repeat_uncached_counterexample:
  "\<not> error (fst (first_call development)) \<and> \<not> error (fst (second_call development)) \<and>
   now_admission (upstream_ok 1000 1002 12) < now_exit (upstream_ok 0 500 10) + CACHE_TTL \<and>
   fromCache (fst (second_call development)) = False \<and>
   basic (fst (second_call development)) \<noteq> basic (fst (first_call development)) \<and>
   fromCache (fst (api_second_call development)) = False \<and>
   basic (fst (api_second_call development)) \<noteq> basic (fst (api_first_call development))"
proof -
  have "price (basic (fst (second_call development))) \<noteq> price (basic (fst (first_call development)))"
    by (simp add: first_call_eval second_call_eval uni_result_fields)
  then have "basic (fst (second_call development)) \<noteq> basic (fst (first_call development))"
    by metis
  moreover
  have "price (basic (fst (api_second_call development))) \<noteq> price (basic (fst (api_first_call development)))"
    by (simp add: api_first_call_eval api_second_call_eval api_uni_result_fields)
  then have "basic (fst (api_second_call development)) \<noteq> basic (fst (api_first_call development))"
    by metis
  ultimately show ?thesis
    by (simp add: first_call_eval second_call_eval api_second_call_eval uni_result_fields
        api_uni_result_fields clocks CACHE_TTL_def)
qed

text \<open>
  Claim C3 does not hold of \<open>src/api/analyze.js\<close>. Its analyzer declares
  \<open>CACHE_TTL\<close> and never uses it: an entry is neither deleted nor checked for its age.
  In production a request ten minutes after the first is answered with the object of the
  first, built at 500 and with the price of then. The analyzer of
  \<open>src/unnamed/part_001\<close> has deleted the entry by its timer and fetches again.
\<close>

theorem stale_entry_served:
  "500 + CACHE_TTL < now_admission (upstream_ok 600000 600500 12) \<and>
   fst (api_late_call production) = with_fromCache (fst (api_first_call production)) \<and>
   fromCache (fst (api_late_call production)) \<and>
   timestamp (fst (api_late_call production)) = 500 \<and>
   price (basic (fst (api_late_call production))) = Num 10 \<and>
   fst (late_call production) = uni_result 600000 600500 12 \<and>
   fromCache (fst (late_call production)) = False"
  by (simp add: api_first_call_eval api_second_call_eval second_call_eval api_uni_result_fields
      uni_result_fields clocks CACHE_TTL_def)

text \<open>
  Claim C9 does not hold on a cache hit. The success and the error path compute
  \<open>Date.now()\<close> minus the time of entry; the cache hit returns the stored object as it
  is, with \<open>processingTime\<close> and \<open>timestamp\<close> of the invocation that built it. The
  second request is answered from the cache with a \<open>processingTime\<close> of 500, the time the
  first invocation took with its three fetches, whatever its own clock reads.
\<close>

theorem stale_processing_time:
  "fromCache (fst (second_call production)) \<and>
   processingTime (fst (second_call production)) = 500 \<and>
   processingTime (fst (first_call production)) = 500 \<and>
   timestamp (fst (second_call production)) = 500 \<and>
   now_exit (upstream_ok 1000 1002 12) - now_entry (upstream_ok 1000 1002 12) = 2 \<and>
   fromCache (fst (api_second_call production)) \<and>
   processingTime (fst (api_second_call production)) = 500 \<and>
   timestamp (fst (api_second_call production)) = 500"
  by (simp add: first_call_eval second_call_eval api_second_call_eval uni_result_fields
      api_uni_result_fields clocks)

section \<open>The steps of an invocation\<close>

text \<open>The analyzer of the first file in \<open>src/unnamed/part_001\<close> has the same six ways.\<close>

lemma cg_analyze_try_cases [case_names Unresolved Invalid Denied Hit Failed Fresh]:
  obtains
    (Unresolved) e tr where
      "resolve w coinId ca chain coinName = (Inl e, tr)"
      "cg_analyze_try cfg w s t0 coinId ca chain clientId coinName = (Inl e, s, tr)"
  | (Invalid) i a c tr e where
      "resolve w coinId ca chain coinName = (Inr (i, a, c), tr)"
      "cg_validate_identity i a c = Inl e"
      "cg_analyze_try cfg w s t0 coinId ca chain clientId coinName = (Inl e, s, tr @ [Validation])"
  | (Denied) i a c tr e counts where
      "resolve w coinId ca chain coinName = (Inr (i, a, c), tr)"
      "cg_validate_identity i a c = Inr ()"
      "cg_checkRateLimit (now_admission w) clientId (requestCounts s) = (Inl e, counts)"
      "cg_analyze_try cfg w s t0 coinId ca chain clientId coinName =
         (Inl e, s\<lparr>requestCounts := counts\<rparr>, tr @ [Validation, Admission clientId])"
  | (Hit) i a c tr counts cached where
      "resolve w coinId ca chain coinName = (Inr (i, a, c), tr)"
      "cg_validate_identity i a c = Inr ()"
      "cg_checkRateLimit (now_admission w) clientId (requestCounts s) = (Inr (), counts)"
      "cache s (cacheKey_of cfg i a c) = Some cached"
      "cg_analyze_try cfg w s t0 coinId ca chain clientId coinName =
         (Inr (with_fromCache cached), s\<lparr>requestCounts := counts\<rparr>,
          tr @ [Validation, Admission clientId, Cache_lookup (cacheKey_of cfg i a c)])"
  | (Failed) i a c tr counts e sent where
      "resolve w coinId ca chain coinName = (Inr (i, a, c), tr)"
      "cg_validate_identity i a c = Inr ()"
      "cg_checkRateLimit (now_admission w) clientId (requestCounts s) = (Inr (), counts)"
      "cache s (cacheKey_of cfg i a c) = None"
      "cg_aggregate w i a c = (Inl e, sent)"
      "cg_analyze_try cfg w s t0 coinId ca chain clientId coinName =
         (Inl e, s\<lparr>requestCounts := counts\<rparr>,
          tr @ [Validation, Admission clientId, Cache_lookup (cacheKey_of cfg i a c)] @ sent)"
  | (Fresh) i a c tr counts m h d sent where
      "resolve w coinId ca chain coinName = (Inr (i, a, c), tr)"
      "cg_validate_identity i a c = Inr ()"
      "cg_checkRateLimit (now_admission w) clientId (requestCounts s) = (Inr (), counts)"
      "cache s (cacheKey_of cfg i a c) = None"
      "cg_aggregate w i a c = (Inr (m, h, d), sent)"
      "cg_analyze_try cfg w s t0 coinId ca chain clientId coinName =
         (Inr (compose_result w t0 coinName i a m h d),
          (if ENCRYPT_CACHE cfg
           then s\<lparr>requestCounts := counts,
                  cache := (cache s)(cacheKey_of cfg i a c \<mapsto> compose_result w t0 coinName i a m h d),
                  timers := timers s @ [(now_exit w + CACHE_TTL, cacheKey_of cfg i a c)]\<rparr>
           else s\<lparr>requestCounts := counts\<rparr>),
          tr @ [Validation, Admission clientId, Cache_lookup (cacheKey_of cfg i a c)] @ sent @
            (if ENCRYPT_CACHE cfg then [Scoring, Cache_store (cacheKey_of cfg i a c)] else [Scoring]))"
proof (cases "resolve w coinId ca chain coinName")
  case (Pair r tr)
  show ?thesis
  proof (cases r)
    case (Inl e)
    with Pair show ?thesis by (intro Unresolved[of e tr]) (simp_all add: cg_analyze_try_def)
  next
    case (Inr ident)
    obtain i a c where ident: "ident = (i, a, c)" by (cases ident) auto
    note res = Pair[unfolded Inr ident]
    show ?thesis
    proof (cases "cg_validate_identity i a c")
      case (Inl e)
      with res show ?thesis by (intro Invalid[of i a c tr e]) (simp_all add: cg_analyze_try_def)
    next
      case vok: (Inr u)
      obtain v counts where rl: "cg_checkRateLimit (now_admission w) clientId (requestCounts s) = (v, counts)"
        by (cases "cg_checkRateLimit (now_admission w) clientId (requestCounts s)") auto
      show ?thesis
      proof (cases v)
        case (Inl e)
        with res vok rl show ?thesis
          by (intro Denied[of i a c tr e counts]) (simp_all add: cg_analyze_try_def)
      next
        case aok: (Inr u')
        show ?thesis
        proof (cases "cache s (cacheKey_of cfg i a c)")
          case (Some cached)
          with res vok rl aok show ?thesis
            by (intro Hit[of i a c tr counts cached]) (simp_all add: cg_analyze_try_def)
        next
          case None
          obtain g sent where ag: "cg_aggregate w i a c = (g, sent)"
            by (cases "cg_aggregate w i a c") auto
          show ?thesis
          proof (cases g)
            case (Inl e)
            with res vok rl aok None ag show ?thesis
              by (intro Failed[of i a c tr counts e sent]) (simp_all add: cg_analyze_try_def)
          next
            case (Inr snaps)
            obtain m h d where snaps: "snaps = (m, h, d)" by (cases snaps) auto
            with Inr res vok rl aok None ag show ?thesis
              by (intro Fresh[of i a c tr counts m h d sent]) (simp_all add: cg_analyze_try_def Let_def)
          qed
        qed
      qed
    qed
  qed
qed

lemma cg_analyze_unfold:
  "cg_analyze cfg w s coinId ca chain clientId coinName =
     (case cg_analyze_try cfg w s (now_entry w) coinId ca (default_param chain (Str ''eth''))
             (default_param clientId (Str ''default'')) (default_param coinName (Str [])) of
        (Inr res, s', tr) \<Rightarrow> (res, s', tr)
      | (Inl msg, s', tr) \<Rightarrow> (Failure msg (now_exit w - now_entry w) (now_stamp w), s', tr))"
  by (simp add: cg_analyze_def Let_def)



lemma resolve_phase_all: "\<forall>e\<in>set (snd (resolve w coinId ca chain coinName)). phase e < 3"
  using resolve_phase by blast

lemma resolve_sorted: "sorted (map phase (snd (resolve w coinId ca chain coinName)))"
  by (auto simp: resolve_def split: if_splits sum.splits prod.splits)

lemma resolve_complete_silent:
  "truthy coinId \<and> truthy ca \<and> truthy chain \<longrightarrow> snd (resolve w coinId ca chain coinName) = []"
  by (simp add: resolve_complete)

lemma aggregate_sent:
  "snd (aggregate w i a c) =
     Call_market (to_string i) #
       (if truthy a \<and> truthy c
        then [if c = Str ''eth'' then Call_etherscan (to_string a) else Call_helius (to_string a),
              Call_dexscreener (to_string a)]
        else [])"
  by (simp add: aggregate_def Let_def)

lemma cg_aggregate_sent:
  "snd (cg_aggregate w i a c) =
     Call_market (to_string i) #
       (if truthy a
        then [if c = Str ''eth'' then Call_etherscan (to_string a) else Call_helius (to_string a),
              Call_dexscreener (to_string a)]
        else [])"
  by (simp add: cg_aggregate_def Let_def)


lemma cg_aggregate_phase: "e \<in> set (snd (cg_aggregate w i a c)) \<Longrightarrow> phase e = 6"
  by (auto simp: cg_aggregate_sent split: if_splits)



text \<open>The steps of each analyzer, in terms of the decisions it takes.\<close>

lemma analyze_steps:
  "snd (snd (analyze cfg w s coinId ca chain clientId coinName)) =
     snd (resolve w coinId ca (default_param chain (Str ''eth'')) (default_param coinName (Str []))) @
     (case fst (resolve w coinId ca (default_param chain (Str ''eth'')) (default_param coinName (Str []))) of
        Inl e \<Rightarrow> []
      | Inr (i, a, c) \<Rightarrow>
          steps_from_validation (validate_identity i a c = Inr ())
            (default_param clientId (Str ''default''))
            (fst (checkRateLimit (now_admission w) (default_param clientId (Str ''default''))
                   (requestCounts s)) = Inr ())
            (cacheKey_of cfg i a c) (cache s (cacheKey_of cfg i a c) \<noteq> None)
            (snd (aggregate w i a c)) (\<not> isl (fst (aggregate w i a c))) (ENCRYPT_CACHE cfg))"
  by (cases rule: analyze_try_cases[of w coinId ca "default_param chain (Str ''eth'')"
        "default_param coinName (Str [])" cfg s "now_entry w" "default_param clientId (Str ''default'')"])
    (simp_all add: analyze_unfold steps_from_validation_def)

lemma cg_analyze_steps:
  "snd (snd (cg_analyze cfg w s coinId ca chain clientId coinName)) =
     snd (resolve w coinId ca (default_param chain (Str ''eth'')) (default_param coinName (Str []))) @
     (case fst (resolve w coinId ca (default_param chain (Str ''eth'')) (default_param coinName (Str []))) of
        Inl e \<Rightarrow> []
      | Inr (i, a, c) \<Rightarrow>
          steps_from_validation (cg_validate_identity i a c = Inr ())
            (default_param clientId (Str ''default''))
            (fst (cg_checkRateLimit (now_admission w) (default_param clientId (Str ''default''))
                   (requestCounts s)) = Inr ())
            (cacheKey_of cfg i a c) (cache s (cacheKey_of cfg i a c) \<noteq> None)
            (snd (cg_aggregate w i a c)) (\<not> isl (fst (cg_aggregate w i a c))) (ENCRYPT_CACHE cfg))"
  by (cases rule: cg_analyze_try_cases[of w coinId ca "default_param chain (Str ''eth'')"
        "default_param coinName (Str [])" cfg s "now_entry w" "default_param clientId (Str ''default'')"])
    (simp_all add: cg_analyze_unfold steps_from_validation_def)

lemma api_analyze_steps:
  "snd (snd (api_analyze cfg w s coinId ca chain clientId)) =
     steps_from_validation (api_validateInput coinId ca (default_param chain (Str ''eth'')) = Inr ())
       (default_param clientId (Str ''default''))
       (fst (checkRateLimit (now_admission w) (default_param clientId (Str ''default''))
              (requestCounts s)) = Inr ())
       (cacheKey_of cfg coinId ca (default_param chain (Str ''eth'')))
       (cache s (cacheKey_of cfg coinId ca (default_param chain (Str ''eth''))) \<noteq> None)
       (snd (api_aggregate w coinId ca (default_param chain (Str ''eth''))))
       (\<not> isl (fst (api_aggregate w coinId ca (default_param chain (Str ''eth'')))))
       (ENCRYPT_CACHE cfg)"
  by (cases rule: api_analyze_try_cases[of coinId ca "default_param chain (Str ''eth'')"
        cfg w s "now_entry w" "default_param clientId (Str ''default'')"])
    (simp_all add: api_analyze_unfold steps_from_validation_def)

text \<open>What the order of the steps implies, the requests of the fetchers being of phase 6.\<close>

lemma same_phase_sorted: "\<forall>e\<in>set sent. phase e = n \<Longrightarrow> sorted (map phase sent)"
  by (induction sent) auto

lemma steps_sorted:
  assumes "\<forall>e\<in>set sent. phase e = 6"
  shows "sorted (map phase (steps_from_validation v cl ad k h sent f st))"
  using assms same_phase_sorted[of sent 6]
  by (auto simp: steps_from_validation_def sorted_append)

lemma steps_late:
  assumes "\<forall>e\<in>set sent. phase e = 6"
  shows "\<forall>e\<in>set (steps_from_validation v cl ad k h sent f st). 3 \<le> phase e"
  using assms by (auto simp: steps_from_validation_def)

lemma steps_fetch_admitted:
  assumes "steps_from_validation v cl ad k h sent f st = pre @ e # post" and "6 \<le> phase e"
  shows "Admission cl \<in> set pre \<and> Cache_lookup k \<in> set pre \<and> v \<and> ad \<and> \<not> h"
  using assms
  by (auto simp: steps_from_validation_def Cons_eq_append_conv split: if_splits)

lemma steps_hit:
  assumes "v" "ad" "h"
  shows "steps_from_validation v cl ad k h sent f st = [Validation, Admission cl, Cache_lookup k]"
  using assms by (simp add: steps_from_validation_def)

section \<open>The fetchers an invocation launches\<close>














lemma cg_admit_first: "rc c = None \<Longrightarrow> cg_checkRateLimit t c rc = (Inr (), rc(c \<mapsto> [t]))"
  by (simp add: cg_checkRateLimit_def MAX_REQUESTS_PER_MINUTE_def)


text \<open>
  The two analyzers of \<open>src/unnamed/part_001\<close> differ when the contract address is known
  and the chain is not: the first sends the holder request to Helius and the liquidity
  request, the second sends the market request alone.
\<close>

lemma chainless_resolve:
  "resolve (native_ok x y p) (Str ''bitcoin'') (Str uni_addr) (Str []) (Str []) =
     (Inr (Str ''bitcoin'', Str uni_addr, Null), [Call_detail ''bitcoin''])"
  by (simp add: resolve_def contractAndChainFromSlug_def native_ok_def upstream_ok_def or_else_def
      uni_truthy)

lemma chainless_requests:
  "filter (\<lambda>e. phase e = 6)
     (snd (snd (cg_chainless_call development (native_ok 0 500 60000) new_analyzer))) =
     [Call_market ''bitcoin'', Call_helius uni_addr, Call_dexscreener uni_addr]"
  "filter (\<lambda>e. phase e = 6)
     (snd (snd (analyze development (native_ok 0 500 60000) new_analyzer
        (Str ''bitcoin'') (Str uni_addr) (Str []) (Str ''alice'') (Str [])))) =
     [Call_market ''bitcoin'']"
  by (simp_all add: cg_chainless_call_def cg_analyze_steps analyze_steps default_param_def
      chainless_resolve cg_validate_identity_def cg_validateInput_def validate_identity_def
      validateInput_def COIN_ID_def new_analyzer_def admit_first cg_admit_first
      steps_from_validation_def cg_aggregate_sent aggregate_sent uni_truthy)

section \<open>The order of the steps\<close>

lemma split_after_prefix:
  assumes "e \<notin> set asked" and "asked @ rest = pre @ e # post"
  obtains us where "pre = asked @ us" and "rest = us @ e # post"
proof -
  from assms(2) obtain us where
    "(asked = pre @ us \<and> us @ rest = e # post) \<or> (asked @ us = pre \<and> rest = us @ e # post)"
    by (auto simp: append_eq_append_conv2)
  then show ?thesis
  proof (elim disjE conjE)
    assume a: "asked = pre @ us" and b: "us @ rest = e # post"
    show ?thesis
    proof (cases us)
      case Nil
      with a b that[of "[]"] show ?thesis by simp
    next
      case (Cons x xs)
      with a b assms(1) show ?thesis by simp
    qed
  next
    assume "asked @ us = pre" and "rest = us @ e # post"
    with that[of us] show ?thesis by simp
  qed
qed

text \<open>A trace made of resolution requests and then, possibly, the steps from the validation on.\<close>

lemma order_of_parts:
  assumes eq: "tr = asked @ rest"
    and early: "\<forall>e\<in>set asked. phase e < 3"
    and sa: "sorted (map phase asked)"
    and rest: "rest = [] \<or> rest = steps_from_validation v cl ad k h sent f st"
    and six: "\<forall>e\<in>set sent. phase e = 6"
  shows "sorted (map phase tr)"
    and "tr = pre @ e # post \<Longrightarrow> phase e < 3 \<Longrightarrow> Admission cl' \<notin> set pre \<and> asked \<noteq> []"
    and "tr = pre @ e # post \<Longrightarrow> 6 \<le> phase e \<Longrightarrow>
           rest = steps_from_validation v cl ad k h sent f st \<and>
           Admission cl \<in> set pre \<and> Cache_lookup k \<in> set pre \<and> v \<and> ad \<and> \<not> h"
proof -
  have late: "\<forall>e\<in>set rest. 3 \<le> phase e"
    using rest steps_late[OF six, of v cl ad k h f st] by auto
  have sr: "sorted (map phase rest)"
    using rest steps_sorted[OF six, of v cl ad k h f st] by auto
  show srt: "sorted (map phase tr)"
    unfolding eq using sa sr early late by (fastforce simp: sorted_append)
  show "Admission cl' \<notin> set pre \<and> asked \<noteq> []" if sp: "tr = pre @ e # post" and ph: "phase e < 3"
  proof
    have "\<forall>x\<in>set pre. phase x \<le> phase e"
      using srt unfolding sp by (auto simp: sorted_append)
    with ph show "Admission cl' \<notin> set pre" by fastforce
    have "e \<in> set (asked @ rest)" using sp eq by simp
    with ph late have "e \<in> set asked" by fastforce
    then show "asked \<noteq> []" by auto
  qed
  show "rest = steps_from_validation v cl ad k h sent f st \<and>
      Admission cl \<in> set pre \<and> Cache_lookup k \<in> set pre \<and> v \<and> ad \<and> \<not> h"
    if sp: "tr = pre @ e # post" and ph: "6 \<le> phase e"
  proof -
    have "e \<notin> set asked" using early ph by fastforce
    moreover have "asked @ rest = pre @ e # post" using sp eq by simp
    ultimately obtain us where pre: "pre = asked @ us" and r: "rest = us @ e # post"
      by (rule split_after_prefix)
    from r rest have st: "rest = steps_from_validation v cl ad k h sent f st" by auto
    with r have "steps_from_validation v cl ad k h sent f st = us @ e # post" by simp
    from steps_fetch_admitted[OF this ph] pre st show ?thesis by simp
  qed
qed

lemma analyze_order:
  shows "snd (snd (analyze cfg w s coinId ca chain clientId coinName)) =
       snd (resolve w coinId ca (default_param chain (Str ''eth'')) (default_param coinName (Str []))) @
       (case fst (resolve w coinId ca (default_param chain (Str ''eth'')) (default_param coinName (Str []))) of
          Inl msg \<Rightarrow> []
        | Inr (i, a, c) \<Rightarrow>
            steps_from_validation (validate_identity i a c = Inr ()) (default_param clientId (Str ''default''))
              (fst (checkRateLimit (now_admission w) (default_param clientId (Str ''default'')) (requestCounts s)) = Inr ())
              (cacheKey_of cfg i a c) (cache s (cacheKey_of cfg i a c) \<noteq> None)
              (snd (aggregate w i a c)) (\<not> isl (fst (aggregate w i a c))) (ENCRYPT_CACHE cfg))"
    and "(\<forall>e\<in>set (snd (aggregate w i a c)). phase e = 6)"
    and "sorted (map phase (snd (snd (analyze cfg w s coinId ca chain clientId coinName))))"
    and "(snd (snd (analyze cfg w s coinId ca chain clientId coinName)) = pre @ e # post \<and> phase e < 3 \<longrightarrow>
       Admission (default_param clientId (Str ''default'')) \<notin> set pre \<and>
       \<not> (truthy coinId \<and> truthy ca \<and> truthy (default_param chain (Str ''eth''))))"
    and "(snd (snd (analyze cfg w s coinId ca chain clientId coinName)) = pre @ e # post \<and> 6 \<le> phase e \<longrightarrow>
       Admission (default_param clientId (Str ''default'')) \<in> set pre \<and>
       fst (checkRateLimit (now_admission w) (default_param clientId (Str ''default'')) (requestCounts s)) = Inr () \<and>
       (\<exists>i a c. fst (resolve w coinId ca (default_param chain (Str ''eth'')) (default_param coinName (Str []))) = Inr (i, a, c) \<and>
          validate_identity i a c = Inr () \<and>
          Cache_lookup (cacheKey_of cfg i a c) \<in> set pre \<and>
          cache s (cacheKey_of cfg i a c) = None))"
    and "(fst (resolve w coinId ca (default_param chain (Str ''eth'')) (default_param coinName (Str []))) = Inr (i, a, c) \<and>
     validate_identity i a c = Inr () \<and>
     fst (checkRateLimit (now_admission w) (default_param clientId (Str ''default'')) (requestCounts s)) = Inr () \<and>
     cache s (cacheKey_of cfg i a c) = Some cached \<longrightarrow>
       fst (analyze cfg w s coinId ca chain clientId coinName) = with_fromCache cached \<and>
       snd (snd (analyze cfg w s coinId ca chain clientId coinName)) =
         snd (resolve w coinId ca (default_param chain (Str ''eth'')) (default_param coinName (Str []))) @
         [Validation, Admission (default_param clientId (Str ''default'')), Cache_lookup (cacheKey_of cfg i a c)])"
proof -
  let ?chain = "(default_param chain (Str ''eth''))" and ?name = "(default_param coinName (Str []))" and ?client = "(default_param clientId (Str ''default''))"
  let ?tr = "snd (snd (analyze cfg w s coinId ca chain clientId coinName))"
  let ?asked = "snd (resolve w coinId ca ?chain ?name)"
  let ?found = "fst (resolve w coinId ca ?chain ?name)"
  let ?rest = "case ?found of
          Inl msg \<Rightarrow> []
        | Inr (i, a, c) \<Rightarrow>
            steps_from_validation (validate_identity i a c = Inr ()) ?client
              (fst (checkRateLimit (now_admission w) ?client (requestCounts s)) = Inr ())
              (cacheKey_of cfg i a c) (cache s (cacheKey_of cfg i a c) \<noteq> None)
              (snd (aggregate w i a c)) (\<not> isl (fst (aggregate w i a c))) (ENCRYPT_CACHE cfg)"
  have six: "\<forall>e\<in>set (snd (aggregate w i a c)). phase e = 6" for i a c
    using aggregate_phase by blast
  show eq: "?tr = ?asked @ ?rest" by (rule analyze_steps)
  show "\<forall>e\<in>set (snd (aggregate w i a c)). phase e = 6" by (rule six)
  have early: "\<forall>e\<in>set ?asked. phase e < 3" by (rule resolve_phase_all)
  have sa: "sorted (map phase ?asked)" by (rule resolve_sorted)
  obtain i' a' c' where rest: "?rest = [] \<or> (?found = Inr (i', a', c') \<and> ?rest =
      steps_from_validation (validate_identity i' a' c' = Inr ()) ?client
        (fst (checkRateLimit (now_admission w) ?client (requestCounts s)) = Inr ())
        (cacheKey_of cfg i' a' c') (cache s (cacheKey_of cfg i' a' c') \<noteq> None)
        (snd (aggregate w i' a' c')) (\<not> isl (fst (aggregate w i' a' c'))) (ENCRYPT_CACHE cfg))"
    by (cases ?found) auto
  then have rest': "?rest = [] \<or> ?rest =
      steps_from_validation (validate_identity i' a' c' = Inr ()) ?client
        (fst (checkRateLimit (now_admission w) ?client (requestCounts s)) = Inr ())
        (cacheKey_of cfg i' a' c') (cache s (cacheKey_of cfg i' a' c') \<noteq> None)
        (snd (aggregate w i' a' c')) (\<not> isl (fst (aggregate w i' a' c'))) (ENCRYPT_CACHE cfg)"
    by blast
  note parts = order_of_parts[OF eq early sa rest' six]
  show "sorted (map phase ?tr)" by (rule parts(1))
  show "?tr = pre @ e # post \<and> phase e < 3 \<longrightarrow>
       Admission ?client \<notin> set pre \<and> \<not> (truthy coinId \<and> truthy ca \<and> truthy ?chain)"
  proof (rule impI, elim conjE)
    assume sp: "?tr = pre @ e # post" and ph: "phase e < 3"
    from parts(2)[OF sp ph, of ?client]
    have a: "Admission ?client \<notin> set pre" and b: "?asked \<noteq> []" by blast+
    from b resolve_complete_silent[of coinId ca ?chain w ?name]
    have "\<not> (truthy coinId \<and> truthy ca \<and> truthy ?chain)" by blast
    with a show "Admission ?client \<notin> set pre \<and> \<not> (truthy coinId \<and> truthy ca \<and> truthy ?chain)"
      by (rule conjI)
  qed
  show "?tr = pre @ e # post \<and> 6 \<le> phase e \<longrightarrow>
       Admission ?client \<in> set pre \<and>
       fst (checkRateLimit (now_admission w) ?client (requestCounts s)) = Inr () \<and>
       (\<exists>i a c. ?found = Inr (i, a, c) \<and>
          validate_identity i a c = Inr () \<and>
          Cache_lookup (cacheKey_of cfg i a c) \<in> set pre \<and>
          cache s (cacheKey_of cfg i a c) = None)"
  proof (rule impI, elim conjE)
    assume sp: "?tr = pre @ e # post" and ph: "6 \<le> phase e"
    note p = parts(3)[OF sp ph]
    from p have "?rest \<noteq> []" by (simp add: steps_from_validation_def)
    with rest have f: "?found = Inr (i', a', c')" by blast
    from p have q: "Admission ?client \<in> set pre"
        "fst (checkRateLimit (now_admission w) ?client (requestCounts s)) = Inr ()"
        "validate_identity i' a' c' = Inr ()"
        "Cache_lookup (cacheKey_of cfg i' a' c') \<in> set pre"
        "cache s (cacheKey_of cfg i' a' c') = None"
      by simp_all
    have "\<exists>i a c. ?found = Inr (i, a, c) \<and>
          validate_identity i a c = Inr () \<and>
          Cache_lookup (cacheKey_of cfg i a c) \<in> set pre \<and>
          cache s (cacheKey_of cfg i a c) = None"
      by (rule exI[of _ i'], rule exI[of _ a'], rule exI[of _ c']) (simp only: f q simp_thms)
    with q(1,2) show "Admission ?client \<in> set pre \<and>
       fst (checkRateLimit (now_admission w) ?client (requestCounts s)) = Inr () \<and>
       (\<exists>i a c. ?found = Inr (i, a, c) \<and>
          validate_identity i a c = Inr () \<and>
          Cache_lookup (cacheKey_of cfg i a c) \<in> set pre \<and>
          cache s (cacheKey_of cfg i a c) = None)"
      by (intro conjI)
  qed
  show "?found = Inr (i, a, c) \<and>
     validate_identity i a c = Inr () \<and>
     fst (checkRateLimit (now_admission w) ?client (requestCounts s)) = Inr () \<and>
     cache s (cacheKey_of cfg i a c) = Some cached \<longrightarrow>
       fst (analyze cfg w s coinId ca chain clientId coinName) = with_fromCache cached \<and>
       ?tr = ?asked @ [Validation, Admission ?client, Cache_lookup (cacheKey_of cfg i a c)]"
  proof (rule impI, elim conjE)
    assume f: "?found = Inr (i, a, c)" and v: "validate_identity i a c = Inr ()"
      and ad: "fst (checkRateLimit (now_admission w) ?client (requestCounts s)) = Inr ()"
      and h: "cache s (cacheKey_of cfg i a c) = Some cached"
    have t: "?tr = ?asked @ [Validation, Admission ?client, Cache_lookup (cacheKey_of cfg i a c)]"
      by (simp add: eq f v ad h steps_hit)
    have r: "fst (analyze cfg w s coinId ca chain clientId coinName) = with_fromCache cached"
      using f v ad h
      by (cases rule: analyze_try_cases[of w coinId ca ?chain ?name cfg s "now_entry w" ?client])
        (simp_all add: analyze_unfold)
    from r t show "fst (analyze cfg w s coinId ca chain clientId coinName) = with_fromCache cached \<and>
       ?tr = ?asked @ [Validation, Admission ?client, Cache_lookup (cacheKey_of cfg i a c)]"
      by (rule conjI)
  qed
qed

lemma cg_analyze_order:
  shows "snd (snd (cg_analyze cfg w u coinId ca chain clientId coinName)) =
       snd (resolve w coinId ca (default_param chain (Str ''eth'')) (default_param coinName (Str []))) @
       (case fst (resolve w coinId ca (default_param chain (Str ''eth'')) (default_param coinName (Str []))) of
          Inl msg \<Rightarrow> []
        | Inr (i, a, c) \<Rightarrow>
            steps_from_validation (cg_validate_identity i a c = Inr ()) (default_param clientId (Str ''default''))
              (fst (cg_checkRateLimit (now_admission w) (default_param clientId (Str ''default'')) (requestCounts u)) = Inr ())
              (cacheKey_of cfg i a c) (cache u (cacheKey_of cfg i a c) \<noteq> None)
              (snd (cg_aggregate w i a c)) (\<not> isl (fst (cg_aggregate w i a c))) (ENCRYPT_CACHE cfg))"
    and "(\<forall>e\<in>set (snd (cg_aggregate w i a c)). phase e = 6)"
    and "sorted (map phase (snd (snd (cg_analyze cfg w u coinId ca chain clientId coinName))))"
    and "(snd (snd (cg_analyze cfg w u coinId ca chain clientId coinName)) = pre @ e # post \<and> phase e < 3 \<longrightarrow>
       Admission (default_param clientId (Str ''default'')) \<notin> set pre \<and>
       \<not> (truthy coinId \<and> truthy ca \<and> truthy (default_param chain (Str ''eth''))))"
    and "(snd (snd (cg_analyze cfg w u coinId ca chain clientId coinName)) = pre @ e # post \<and> 6 \<le> phase e \<longrightarrow>
       Admission (default_param clientId (Str ''default'')) \<in> set pre \<and>
       fst (cg_checkRateLimit (now_admission w) (default_param clientId (Str ''default'')) (requestCounts u)) = Inr () \<and>
       (\<exists>i a c. fst (resolve w coinId ca (default_param chain (Str ''eth'')) (default_param coinName (Str []))) = Inr (i, a, c) \<and>
          cg_validate_identity i a c = Inr () \<and>
          Cache_lookup (cacheKey_of cfg i a c) \<in> set pre \<and>
          cache u (cacheKey_of cfg i a c) = None))"
    and "(fst (resolve w coinId ca (default_param chain (Str ''eth'')) (default_param coinName (Str []))) = Inr (i, a, c) \<and>
     cg_validate_identity i a c = Inr () \<and>
     fst (cg_checkRateLimit (now_admission w) (default_param clientId (Str ''default'')) (requestCounts u)) = Inr () \<and>
     cache u (cacheKey_of cfg i a c) = Some cached \<longrightarrow>
       fst (cg_analyze cfg w u coinId ca chain clientId coinName) = with_fromCache cached \<and>
       snd (snd (cg_analyze cfg w u coinId ca chain clientId coinName)) =
         snd (resolve w coinId ca (default_param chain (Str ''eth'')) (default_param coinName (Str []))) @
         [Validation, Admission (default_param clientId (Str ''default'')), Cache_lookup (cacheKey_of cfg i a c)])"
proof -
  let ?chain = "(default_param chain (Str ''eth''))" and ?name = "(default_param coinName (Str []))" and ?client = "(default_param clientId (Str ''default''))"
  let ?tr = "snd (snd (cg_analyze cfg w u coinId ca chain clientId coinName))"
  let ?asked = "snd (resolve w coinId ca ?chain ?name)"
  let ?found = "fst (resolve w coinId ca ?chain ?name)"
  let ?rest = "case ?found of
          Inl msg \<Rightarrow> []
        | Inr (i, a, c) \<Rightarrow>
            steps_from_validation (cg_validate_identity i a c = Inr ()) ?client
              (fst (cg_checkRateLimit (now_admission w) ?client (requestCounts u)) = Inr ())
              (cacheKey_of cfg i a c) (cache u (cacheKey_of cfg i a c) \<noteq> None)
              (snd (cg_aggregate w i a c)) (\<not> isl (fst (cg_aggregate w i a c))) (ENCRYPT_CACHE cfg)"
  have six: "\<forall>e\<in>set (snd (cg_aggregate w i a c)). phase e = 6" for i a c
    using cg_aggregate_phase by blast
  show eq: "?tr = ?asked @ ?rest" by (rule cg_analyze_steps)
  show "\<forall>e\<in>set (snd (cg_aggregate w i a c)). phase e = 6" by (rule six)
  have early: "\<forall>e\<in>set ?asked. phase e < 3" by (rule resolve_phase_all)
  have sa: "sorted (map phase ?asked)" by (rule resolve_sorted)
  obtain i' a' c' where rest: "?rest = [] \<or> (?found = Inr (i', a', c') \<and> ?rest =
      steps_from_validation (cg_validate_identity i' a' c' = Inr ()) ?client
        (fst (cg_checkRateLimit (now_admission w) ?client (requestCounts u)) = Inr ())
        (cacheKey_of cfg i' a' c') (cache u (cacheKey_of cfg i' a' c') \<noteq> None)
        (snd (cg_aggregate w i' a' c')) (\<not> isl (fst (cg_aggregate w i' a' c'))) (ENCRYPT_CACHE cfg))"
    by (cases ?found) auto
  then have rest': "?rest = [] \<or> ?rest =
      steps_from_validation (cg_validate_identity i' a' c' = Inr ()) ?client
        (fst (cg_checkRateLimit (now_admission w) ?client (requestCounts u)) = Inr ())
        (cacheKey_of cfg i' a' c') (cache u (cacheKey_of cfg i' a' c') \<noteq> None)
        (snd (cg_aggregate w i' a' c')) (\<not> isl (fst (cg_aggregate w i' a' c'))) (ENCRYPT_CACHE cfg)"
    by blast
  note parts = order_of_parts[OF eq early sa rest' six]
  show "sorted (map phase ?tr)" by (rule parts(1))
  show "?tr = pre @ e # post \<and> phase e < 3 \<longrightarrow>
       Admission ?client \<notin> set pre \<and> \<not> (truthy coinId \<and> truthy ca \<and> truthy ?chain)"
  proof (rule impI, elim conjE)
    assume sp: "?tr = pre @ e # post" and ph: "phase e < 3"
    from parts(2)[OF sp ph, of ?client]
    have a: "Admission ?client \<notin> set pre" and b: "?asked \<noteq> []" by blast+
    from b resolve_complete_silent[of coinId ca ?chain w ?name]
    have "\<not> (truthy coinId \<and> truthy ca \<and> truthy ?chain)" by blast
    with a show "Admission ?client \<notin> set pre \<and> \<not> (truthy coinId \<and> truthy ca \<and> truthy ?chain)"
      by (rule conjI)
  qed
  show "?tr = pre @ e # post \<and> 6 \<le> phase e \<longrightarrow>
       Admission ?client \<in> set pre \<and>
       fst (cg_checkRateLimit (now_admission w) ?client (requestCounts u)) = Inr () \<and>
       (\<exists>i a c. ?found = Inr (i, a, c) \<and>
          cg_validate_identity i a c = Inr () \<and>
          Cache_lookup (cacheKey_of cfg i a c) \<in> set pre \<and>
          cache u (cacheKey_of cfg i a c) = None)"
  proof (rule impI, elim conjE)
    assume sp: "?tr = pre @ e # post" and ph: "6 \<le> phase e"
    note p = parts(3)[OF sp ph]
    from p have "?rest \<noteq> []" by (simp add: steps_from_validation_def)
    with rest have f: "?found = Inr (i', a', c')" by blast
    from p have q: "Admission ?client \<in> set pre"
        "fst (cg_checkRateLimit (now_admission w) ?client (requestCounts u)) = Inr ()"
        "cg_validate_identity i' a' c' = Inr ()"
        "Cache_lookup (cacheKey_of cfg i' a' c') \<in> set pre"
        "cache u (cacheKey_of cfg i' a' c') = None"
      by simp_all
    have "\<exists>i a c. ?found = Inr (i, a, c) \<and>
          cg_validate_identity i a c = Inr () \<and>
          Cache_lookup (cacheKey_of cfg i a c) \<in> set pre \<and>
          cache u (cacheKey_of cfg i a c) = None"
      by (rule exI[of _ i'], rule exI[of _ a'], rule exI[of _ c']) (simp only: f q simp_thms)
    with q(1,2) show "Admission ?client \<in> set pre \<and>
       fst (cg_checkRateLimit (now_admission w) ?client (requestCounts u)) = Inr () \<and>
       (\<exists>i a c. ?found = Inr (i, a, c) \<and>
          cg_validate_identity i a c = Inr () \<and>
          Cache_lookup (cacheKey_of cfg i a c) \<in> set pre \<and>
          cache u (cacheKey_of cfg i a c) = None)"
      by (intro conjI)
  qed
  show "?found = Inr (i, a, c) \<and>
     cg_validate_identity i a c = Inr () \<and>
     fst (cg_checkRateLimit (now_admission w) ?client (requestCounts u)) = Inr () \<and>
     cache u (cacheKey_of cfg i a c) = Some cached \<longrightarrow>
       fst (cg_analyze cfg w u coinId ca chain clientId coinName) = with_fromCache cached \<and>
       ?tr = ?asked @ [Validation, Admission ?client, Cache_lookup (cacheKey_of cfg i a c)]"
  proof (rule impI, elim conjE)
    assume f: "?found = Inr (i, a, c)" and v: "cg_validate_identity i a c = Inr ()"
      and ad: "fst (cg_checkRateLimit (now_admission w) ?client (requestCounts u)) = Inr ()"
      and h: "cache u (cacheKey_of cfg i a c) = Some cached"
    have t: "?tr = ?asked @ [Validation, Admission ?client, Cache_lookup (cacheKey_of cfg i a c)]"
      by (simp add: eq f v ad h steps_hit)
    have r: "fst (cg_analyze cfg w u coinId ca chain clientId coinName) = with_fromCache cached"
      using f v ad h
      by (cases rule: cg_analyze_try_cases[of w coinId ca ?chain ?name cfg u "now_entry w" ?client])
        (simp_all add: cg_analyze_unfold)
    from r t show "fst (cg_analyze cfg w u coinId ca chain clientId coinName) = with_fromCache cached \<and>
       ?tr = ?asked @ [Validation, Admission ?client, Cache_lookup (cacheKey_of cfg i a c)]"
      by (rule conjI)
  qed
qed

lemma api_analyze_order:
  shows "snd (snd (api_analyze cfg w t coinId ca chain clientId)) =
       steps_from_validation (api_validateInput coinId ca (default_param chain (Str ''eth'')) = Inr ()) (default_param clientId (Str ''default''))
         (fst (checkRateLimit (now_admission w) (default_param clientId (Str ''default'')) (requestCounts t)) = Inr ())
         (cacheKey_of cfg coinId ca (default_param chain (Str ''eth''))) (cache t (cacheKey_of cfg coinId ca (default_param chain (Str ''eth''))) \<noteq> None)
         (snd (api_aggregate w coinId ca (default_param chain (Str ''eth'')))) (\<not> isl (fst (api_aggregate w coinId ca (default_param chain (Str ''eth'')))))
         (ENCRYPT_CACHE cfg)"
    and "(\<forall>e\<in>set (snd (api_aggregate w i a c)). phase e = 6)"
    and "sorted (map phase (snd (snd (api_analyze cfg w t coinId ca chain clientId))))"
    and "(\<forall>e\<in>set (snd (snd (api_analyze cfg w t coinId ca chain clientId))). 3 \<le> phase e)"
    and "(snd (snd (api_analyze cfg w t coinId ca chain clientId)) = pre @ e # post \<and> 6 \<le> phase e \<longrightarrow>
       Admission (default_param clientId (Str ''default'')) \<in> set pre \<and>
       fst (checkRateLimit (now_admission w) (default_param clientId (Str ''default'')) (requestCounts t)) = Inr () \<and>
       api_validateInput coinId ca (default_param chain (Str ''eth'')) = Inr () \<and>
       Cache_lookup (cacheKey_of cfg coinId ca (default_param chain (Str ''eth''))) \<in> set pre \<and>
       cache t (cacheKey_of cfg coinId ca (default_param chain (Str ''eth''))) = None)"
    and "(api_validateInput coinId ca (default_param chain (Str ''eth'')) = Inr () \<and>
     fst (checkRateLimit (now_admission w) (default_param clientId (Str ''default'')) (requestCounts t)) = Inr () \<and>
     cache t (cacheKey_of cfg coinId ca (default_param chain (Str ''eth''))) = Some entry \<longrightarrow>
       fst (api_analyze cfg w t coinId ca chain clientId) = with_fromCache entry \<and>
       snd (snd (api_analyze cfg w t coinId ca chain clientId)) =
         [Validation, Admission (default_param clientId (Str ''default'')), Cache_lookup (cacheKey_of cfg coinId ca (default_param chain (Str ''eth'')))])"
proof -
  let ?chain = "(default_param chain (Str ''eth''))" and ?client = "(default_param clientId (Str ''default''))"
  let ?tr = "snd (snd (api_analyze cfg w t coinId ca chain clientId))"
  let ?steps = "steps_from_validation (api_validateInput coinId ca ?chain = Inr ()) ?client
         (fst (checkRateLimit (now_admission w) ?client (requestCounts t)) = Inr ())
         (cacheKey_of cfg coinId ca ?chain) (cache t (cacheKey_of cfg coinId ca ?chain) \<noteq> None)
         (snd (api_aggregate w coinId ca ?chain)) (\<not> isl (fst (api_aggregate w coinId ca ?chain)))
         (ENCRYPT_CACHE cfg)"
  have six: "\<forall>e\<in>set (snd (api_aggregate w i a c)). phase e = 6" for i a c
    using api_aggregate_phase by blast
  show eq: "?tr = ?steps" by (rule api_analyze_steps)
  show "\<forall>e\<in>set (snd (api_aggregate w i a c)). phase e = 6" by (rule six)
  show "sorted (map phase ?tr)" unfolding eq by (rule steps_sorted[OF six])
  show "\<forall>e\<in>set ?tr. 3 \<le> phase e" unfolding eq by (rule steps_late[OF six])
  show "?tr = pre @ e # post \<and> 6 \<le> phase e \<longrightarrow>
       Admission ?client \<in> set pre \<and>
       fst (checkRateLimit (now_admission w) ?client (requestCounts t)) = Inr () \<and>
       api_validateInput coinId ca ?chain = Inr () \<and>
       Cache_lookup (cacheKey_of cfg coinId ca ?chain) \<in> set pre \<and>
       cache t (cacheKey_of cfg coinId ca ?chain) = None"
  proof (rule impI, elim conjE)
    assume sp: "?tr = pre @ e # post" and ph: "6 \<le> phase e"
    from sp eq have "?steps = pre @ e # post" by simp
    from steps_fetch_admitted[OF this ph]
    show "Admission ?client \<in> set pre \<and>
       fst (checkRateLimit (now_admission w) ?client (requestCounts t)) = Inr () \<and>
       api_validateInput coinId ca ?chain = Inr () \<and>
       Cache_lookup (cacheKey_of cfg coinId ca ?chain) \<in> set pre \<and>
       cache t (cacheKey_of cfg coinId ca ?chain) = None"
      by simp
  qed
  show "api_validateInput coinId ca ?chain = Inr () \<and>
     fst (checkRateLimit (now_admission w) ?client (requestCounts t)) = Inr () \<and>
     cache t (cacheKey_of cfg coinId ca ?chain) = Some entry \<longrightarrow>
       fst (api_analyze cfg w t coinId ca chain clientId) = with_fromCache entry \<and>
       ?tr = [Validation, Admission ?client, Cache_lookup (cacheKey_of cfg coinId ca ?chain)]"
  proof (rule impI, elim conjE)
    assume v: "api_validateInput coinId ca ?chain = Inr ()"
      and ad: "fst (checkRateLimit (now_admission w) ?client (requestCounts t)) = Inr ()"
      and h: "cache t (cacheKey_of cfg coinId ca ?chain) = Some entry"
    have t: "?tr = [Validation, Admission ?client, Cache_lookup (cacheKey_of cfg coinId ca ?chain)]"
      by (simp add: eq v ad h steps_hit)
    have r: "fst (api_analyze cfg w t coinId ca chain clientId) = with_fromCache entry"
      using v ad h
      by (cases rule: api_analyze_try_cases[of coinId ca ?chain cfg w t "now_entry w" ?client])
        (simp_all add: api_analyze_unfold)
    from r t show "fst (api_analyze cfg w t coinId ca chain clientId) = with_fromCache entry \<and>
       ?tr = [Validation, Admission ?client, Cache_lookup (cacheKey_of cfg coinId ca ?chain)]"
      by (rule conjI)
  qed
qed

text \<open>
  Claim C8, as the code has it. The steps of an invocation of either analyzer in
  \<open>src/unnamed/part_001\<close> are the requests of the identity resolution (search by name,
  detail by slug, slug by contract) and then, if the identity was resolved, the validation,
  the admission check if the identity is valid, the cache lookup if the client is
  admitted, the requests of the fetchers if the lookup misses, the scoring if every request
  succeeded, and the cache store in production: exactly these and in this order. A
  resolution request is sent only when the slug, the contract address or the chain is
  missing, and no admission check precedes it. A request of a fetcher is sent only after
  the admission check, with the client admitted, and after a cache lookup that missed. On
  a hit the stored result is returned flagged \<open>fromCache\<close>, and the lookup is the last
  step. In \<open>src/api/analyze.js\<close> the steps are the same from the validation on and
  nothing is resolved, so every upstream request is sent after the client was admitted.
\<close>

theorem steps_in_order:
  "(snd (snd (analyze cfg w s coinId ca chain clientId coinName)) =
       snd (resolve w coinId ca (default_param chain (Str ''eth'')) (default_param coinName (Str []))) @
       (case fst (resolve w coinId ca (default_param chain (Str ''eth'')) (default_param coinName (Str []))) of
          Inl msg \<Rightarrow> []
        | Inr (i, a, c) \<Rightarrow>
            steps_from_validation (validate_identity i a c = Inr ()) (default_param clientId (Str ''default''))
              (fst (checkRateLimit (now_admission w) (default_param clientId (Str ''default'')) (requestCounts s)) = Inr ())
              (cacheKey_of cfg i a c) (cache s (cacheKey_of cfg i a c) \<noteq> None)
              (snd (aggregate w i a c)) (\<not> isl (fst (aggregate w i a c))) (ENCRYPT_CACHE cfg)) \<and>
   (\<forall>e\<in>set (snd (aggregate w i a c)). phase e = 6) \<and>
   sorted (map phase (snd (snd (analyze cfg w s coinId ca chain clientId coinName)))) \<and>
   (snd (snd (analyze cfg w s coinId ca chain clientId coinName)) = pre @ e # post \<and> phase e < 3 \<longrightarrow>
       Admission (default_param clientId (Str ''default'')) \<notin> set pre \<and>
       \<not> (truthy coinId \<and> truthy ca \<and> truthy (default_param chain (Str ''eth'')))) \<and>
   (snd (snd (analyze cfg w s coinId ca chain clientId coinName)) = pre @ e # post \<and> 6 \<le> phase e \<longrightarrow>
       Admission (default_param clientId (Str ''default'')) \<in> set pre \<and>
       fst (checkRateLimit (now_admission w) (default_param clientId (Str ''default'')) (requestCounts s)) = Inr () \<and>
       (\<exists>i a c. fst (resolve w coinId ca (default_param chain (Str ''eth'')) (default_param coinName (Str []))) = Inr (i, a, c) \<and>
          validate_identity i a c = Inr () \<and>
          Cache_lookup (cacheKey_of cfg i a c) \<in> set pre \<and>
          cache s (cacheKey_of cfg i a c) = None)) \<and>
   (fst (resolve w coinId ca (default_param chain (Str ''eth'')) (default_param coinName (Str []))) = Inr (i, a, c) \<and>
     validate_identity i a c = Inr () \<and>
     fst (checkRateLimit (now_admission w) (default_param clientId (Str ''default'')) (requestCounts s)) = Inr () \<and>
     cache s (cacheKey_of cfg i a c) = Some cached \<longrightarrow>
       fst (analyze cfg w s coinId ca chain clientId coinName) = with_fromCache cached \<and>
       snd (snd (analyze cfg w s coinId ca chain clientId coinName)) =
         snd (resolve w coinId ca (default_param chain (Str ''eth'')) (default_param coinName (Str []))) @
         [Validation, Admission (default_param clientId (Str ''default'')), Cache_lookup (cacheKey_of cfg i a c)])) \<and>
   (snd (snd (cg_analyze cfg w u coinId ca chain clientId coinName)) =
       snd (resolve w coinId ca (default_param chain (Str ''eth'')) (default_param coinName (Str []))) @
       (case fst (resolve w coinId ca (default_param chain (Str ''eth'')) (default_param coinName (Str []))) of
          Inl msg \<Rightarrow> []
        | Inr (i, a, c) \<Rightarrow>
            steps_from_validation (cg_validate_identity i a c = Inr ()) (default_param clientId (Str ''default''))
              (fst (cg_checkRateLimit (now_admission w) (default_param clientId (Str ''default'')) (requestCounts u)) = Inr ())
              (cacheKey_of cfg i a c) (cache u (cacheKey_of cfg i a c) \<noteq> None)
              (snd (cg_aggregate w i a c)) (\<not> isl (fst (cg_aggregate w i a c))) (ENCRYPT_CACHE cfg)) \<and>
   (\<forall>e\<in>set (snd (cg_aggregate w i a c)). phase e = 6) \<and>
   sorted (map phase (snd (snd (cg_analyze cfg w u coinId ca chain clientId coinName)))) \<and>
   (snd (snd (cg_analyze cfg w u coinId ca chain clientId coinName)) = pre @ e # post \<and> phase e < 3 \<longrightarrow>
       Admission (default_param clientId (Str ''default'')) \<notin> set pre \<and>
       \<not> (truthy coinId \<and> truthy ca \<and> truthy (default_param chain (Str ''eth'')))) \<and>
   (snd (snd (cg_analyze cfg w u coinId ca chain clientId coinName)) = pre @ e # post \<and> 6 \<le> phase e \<longrightarrow>
       Admission (default_param clientId (Str ''default'')) \<in> set pre \<and>
       fst (cg_checkRateLimit (now_admission w) (default_param clientId (Str ''default'')) (requestCounts u)) = Inr () \<and>
       (\<exists>i a c. fst (resolve w coinId ca (default_param chain (Str ''eth'')) (default_param coinName (Str []))) = Inr (i, a, c) \<and>
          cg_validate_identity i a c = Inr () \<and>
          Cache_lookup (cacheKey_of cfg i a c) \<in> set pre \<and>
          cache u (cacheKey_of cfg i a c) = None)) \<and>
   (fst (resolve w coinId ca (default_param chain (Str ''eth'')) (default_param coinName (Str []))) = Inr (i, a, c) \<and>
     cg_validate_identity i a c = Inr () \<and>
     fst (cg_checkRateLimit (now_admission w) (default_param clientId (Str ''default'')) (requestCounts u)) = Inr () \<and>
     cache u (cacheKey_of cfg i a c) = Some cached \<longrightarrow>
       fst (cg_analyze cfg w u coinId ca chain clientId coinName) = with_fromCache cached \<and>
       snd (snd (cg_analyze cfg w u coinId ca chain clientId coinName)) =
         snd (resolve w coinId ca (default_param chain (Str ''eth'')) (default_param coinName (Str []))) @
         [Validation, Admission (default_param clientId (Str ''default'')), Cache_lookup (cacheKey_of cfg i a c)])) \<and>
   (snd (snd (api_analyze cfg w t coinId ca chain clientId)) =
       steps_from_validation (api_validateInput coinId ca (default_param chain (Str ''eth'')) = Inr ()) (default_param clientId (Str ''default''))
         (fst (checkRateLimit (now_admission w) (default_param clientId (Str ''default'')) (requestCounts t)) = Inr ())
         (cacheKey_of cfg coinId ca (default_param chain (Str ''eth''))) (cache t (cacheKey_of cfg coinId ca (default_param chain (Str ''eth''))) \<noteq> None)
         (snd (api_aggregate w coinId ca (default_param chain (Str ''eth'')))) (\<not> isl (fst (api_aggregate w coinId ca (default_param chain (Str ''eth'')))))
         (ENCRYPT_CACHE cfg) \<and>
   (\<forall>e\<in>set (snd (api_aggregate w i a c)). phase e = 6) \<and>
   sorted (map phase (snd (snd (api_analyze cfg w t coinId ca chain clientId)))) \<and>
   (\<forall>e\<in>set (snd (snd (api_analyze cfg w t coinId ca chain clientId))). 3 \<le> phase e) \<and>
   (snd (snd (api_analyze cfg w t coinId ca chain clientId)) = pre @ e # post \<and> 6 \<le> phase e \<longrightarrow>
       Admission (default_param clientId (Str ''default'')) \<in> set pre \<and>
       fst (checkRateLimit (now_admission w) (default_param clientId (Str ''default'')) (requestCounts t)) = Inr () \<and>
       api_validateInput coinId ca (default_param chain (Str ''eth'')) = Inr () \<and>
       Cache_lookup (cacheKey_of cfg coinId ca (default_param chain (Str ''eth''))) \<in> set pre \<and>
       cache t (cacheKey_of cfg coinId ca (default_param chain (Str ''eth''))) = None) \<and>
   (api_validateInput coinId ca (default_param chain (Str ''eth'')) = Inr () \<and>
     fst (checkRateLimit (now_admission w) (default_param clientId (Str ''default'')) (requestCounts t)) = Inr () \<and>
     cache t (cacheKey_of cfg coinId ca (default_param chain (Str ''eth''))) = Some entry \<longrightarrow>
       fst (api_analyze cfg w t coinId ca chain clientId) = with_fromCache entry \<and>
       snd (snd (api_analyze cfg w t coinId ca chain clientId)) =
         [Validation, Admission (default_param clientId (Str ''default'')), Cache_lookup (cacheKey_of cfg coinId ca (default_param chain (Str ''eth'')))]))"
  by (rule conjI[OF conjI[OF analyze_order(1) conjI[OF analyze_order(2) conjI[OF analyze_order(3) conjI[OF analyze_order(4) conjI[OF analyze_order(5) analyze_order(6)]]]]]
        conjI[OF conjI[OF cg_analyze_order(1) conjI[OF cg_analyze_order(2) conjI[OF cg_analyze_order(3) conjI[OF cg_analyze_order(4) conjI[OF cg_analyze_order(5) cg_analyze_order(6)]]]]]
          conjI[OF api_analyze_order(1) conjI[OF api_analyze_order(2) conjI[OF api_analyze_order(3) conjI[OF api_analyze_order(4) conjI[OF api_analyze_order(5) api_analyze_order(6)]]]]]]])

lemma name_resolve:
  "resolve (upstream_ok x y p) (Str []) (Str []) (Str []) (Str ''uniswap'') =
     (Inr (Str ''uniswap'', Str uni_addr, Str ''eth''), [Call_search ''uniswap'', Call_detail ''uniswap''])"
  by (simp add: resolve_def slugFromName_def contractAndChainFromSlug_def upstream_ok_def
      or_else_def uni_truthy)

lemma cg_uni_valid: "cg_validate_identity (Str ''uniswap'') (Str uni_addr) (Str ''eth'') = Inr ()"
  by (simp add: cg_validate_identity_def cg_validateInput_def uni_addr_ok uni_slug_ok uni_truthy)

lemma cg_uni_aggregate_ok:
  "cg_aggregate (upstream_ok a b p) (Str ''uniswap'') (Str uni_addr) (Str ''eth'') =
     (Inr (market_of (uni_payload p), uni_holders, uni_pools),
      [Call_market ''uniswap'', Call_etherscan uni_addr, Call_dexscreener uni_addr])"
  by (simp add: cg_aggregate_def uni_truthy fetchCoinGeckoData_def fetchEtherscanData_def
      fetchDexScreenerData_def upstream_ok_def Promise_all_def)

lemma busy_denied:
  "checkRateLimit 0 (Str ''default'') (requestCounts busy_analyzer) =
     (Inl ''Rate limit exceeded'', [Str ''default'' \<mapsto> replicate 100 0 @ [0]])"
  by (simp add: checkRateLimit_def busy_analyzer_def new_analyzer_def MAX_REQUESTS_PER_MINUTE_def)

lemma new_admits:
  "fst (checkRateLimit t c (requestCounts (new_analyzer :: 'b analyzer))) = Inr ()"
  "fst (cg_checkRateLimit t c (requestCounts (new_analyzer :: 'b analyzer))) = Inr ()"
  "cache (new_analyzer :: 'b analyzer) k = None"
  by (simp_all add: new_analyzer_def admit_first cg_admit_first)

text \<open>
  The request of the page, the name alone, to a new analyzer, of either analyzer in
  \<open>src/unnamed/part_001\<close>: search and detail come first, and the market request follows the
  admission and the lookup. The token with its contract to the analyzer of
  \<open>src/api/analyze.js\<close>. The same request a second later in production: the lookup is
  the last step.
\<close>

theorem steps_in_order_witness:
  "snd (snd (name_call development (upstream_ok 0 500 10) new_analyzer)) =
     [Call_search ''uniswap'', Call_detail ''uniswap'', Validation, Admission (Str ''default''),
      Cache_lookup (uni_key development), Call_market ''uniswap'', Call_etherscan uni_addr,
      Call_dexscreener uni_addr, Scoring] \<and>
   sorted (map phase (snd (snd (name_call development (upstream_ok 0 500 10) new_analyzer)))) \<and>
   Admission (Str ''default'') \<notin> set [Call_search ''uniswap''] \<and>
   Admission (Str ''default'') \<in> set [Call_search ''uniswap'', Call_detail ''uniswap'', Validation,
      Admission (Str ''default''), Cache_lookup (uni_key development)] \<and>
   snd (snd (cg_name_call development (upstream_ok 0 500 10) new_analyzer)) =
     [Call_search ''uniswap'', Call_detail ''uniswap'', Validation, Admission (Str ''default''),
      Cache_lookup (uni_key development), Call_market ''uniswap'', Call_etherscan uni_addr,
      Call_dexscreener uni_addr, Scoring] \<and>
   snd (snd (api_uni_call development (upstream_ok 0 500 10) new_analyzer)) =
     [Validation, Admission (Str ''alice''), Cache_lookup (uni_key development),
      Call_market ''uniswap'', Call_etherscan uni_addr, Call_dexscreener uni_addr, Scoring] \<and>
   Admission (Str ''alice'') \<in> set [Validation, Admission (Str ''alice''),
      Cache_lookup (uni_key development)] \<and>
   fst (second_call production) = with_fromCache (uni_result 0 500 10) \<and>
   snd (snd (second_call production)) =
     [Validation, Admission (Str ''alice''), Cache_lookup (uni_key production)] \<and>
   fst (api_second_call production) = with_fromCache (api_uni_result 0 500 10) \<and>
   snd (snd (api_second_call production)) =
     [Validation, Admission (Str ''alice''), Cache_lookup (uni_key production)]"
proof -
  let ?w = "upstream_ok 0 500 10" and ?w' = "upstream_ok 1000 1002 12"
  let ?s = "run_timers 1000 (fst (snd (first_call production)))"
  let ?t = "fst (snd (api_first_call production))"
  let ?pre = "[Call_search ''uniswap'', Call_detail ''uniswap'', Validation,
      Admission (Str ''default''), Cache_lookup (uni_key development)]"
  let ?post = "[Call_etherscan uni_addr, Call_dexscreener uni_addr, Scoring]"
  let ?pre' = "[Validation, Admission (Str ''alice''), Cache_lookup (uni_key development)]"
  note page = steps_in_order[where cfg = development and w = ?w and s = new_analyzer
      and u = new_analyzer and coinId = "Str []" and ca = "Str []" and chain = "Str []"
      and clientId = "Str ''default''" and coinName = "Str ''uniswap''"
      and pre = ?pre and e = "Call_market ''uniswap''" and post = ?post]
  note v3 = page[THEN conjunct1] and v2 = page[THEN conjunct2, THEN conjunct1]
  note early = steps_in_order[where cfg = development and w = ?w and s = new_analyzer
      and coinId = "Str []" and ca = "Str []" and chain = "Str []"
      and clientId = "Str ''default''" and coinName = "Str ''uniswap''"
      and pre = "[Call_search ''uniswap'']" and e = "Call_detail ''uniswap''"
      and post = "[Validation, Admission (Str ''default''), Cache_lookup (uni_key development),
          Call_market ''uniswap''] @ ?post", THEN conjunct1]
  note v1 = steps_in_order[where cfg = development and w = ?w and t = new_analyzer
      and coinId = "Str ''uniswap''" and ca = "Str uni_addr" and chain = "Str ''eth''"
      and clientId = "Str ''alice''" and pre = ?pre' and e = "Call_market ''uniswap''"
      and post = ?post, THEN conjunct2, THEN conjunct2]
  note again = steps_in_order[where cfg = production and w = ?w' and s = ?s and t = ?t
      and coinId = "Str ''uniswap''" and ca = "Str uni_addr" and chain = "Str ''eth''"
      and clientId = "Str ''alice''" and coinName = Undefined
      and i = "Str ''uniswap''" and a = "Str uni_addr" and c = "Str ''eth''"
      and cached = "uni_result 0 500 10" and entry = "api_uni_result 0 500 10"]
  have tr3: "snd (snd (name_call development ?w new_analyzer)) = ?pre @ Call_market ''uniswap'' # ?post"
    using v3[THEN conjunct1]
    by (simp add: name_call_def default_param_def name_resolve uni_valid new_admits
        uni_aggregate_ok steps_from_validation_def uni_key_def flags)
  have tr2: "snd (snd (cg_name_call development ?w new_analyzer)) = ?pre @ Call_market ''uniswap'' # ?post"
    using v2[THEN conjunct1]
    by (simp add: cg_name_call_def default_param_def name_resolve cg_uni_valid new_admits
        cg_uni_aggregate_ok steps_from_validation_def uni_key_def flags)
  have tr1: "snd (snd (api_uni_call development ?w new_analyzer)) = ?pre' @ Call_market ''uniswap'' # ?post"
    using v1[THEN conjunct1]
    by (simp add: api_uni_call_def default_param_def api_uni_valid new_admits
        api_uni_aggregate_ok steps_from_validation_def uni_key_def flags)
  have srt: "sorted (map phase (snd (snd (name_call development ?w new_analyzer))))"
    using v3[THEN conjunct2, THEN conjunct2, THEN conjunct1] by (simp add: name_call_def)
  have first: "Admission (Str ''default'') \<notin> set [Call_search ''uniswap'']"
    using early[THEN conjunct2, THEN conjunct2, THEN conjunct2, THEN conjunct1] tr3
    by (simp add: name_call_def default_param_def)
  have adm3: "Admission (Str ''default'') \<in> set ?pre"
    using v3[THEN conjunct2, THEN conjunct2, THEN conjunct2, THEN conjunct2, THEN conjunct1] tr3
    by (simp add: name_call_def default_param_def)
  have adm1: "Admission (Str ''alice'') \<in> set ?pre'"
    using v1[THEN conjunct2, THEN conjunct2, THEN conjunct2, THEN conjunct2, THEN conjunct1] tr1
    by (simp add: api_uni_call_def default_param_def)
  have h3: "fst (resolve ?w' (Str ''uniswap'') (Str uni_addr) (default_param (Str ''eth'') (Str ''eth''))
        (default_param Undefined (Str []))) = Inr (Str ''uniswap'', Str uni_addr, Str ''eth'') \<and>
      validate_identity (Str ''uniswap'') (Str uni_addr) (Str ''eth'') = Inr () \<and>
      fst (checkRateLimit (now_admission ?w') (default_param (Str ''alice'') (Str ''default''))
        (requestCounts ?s)) = Inr () \<and>
      cache ?s (cacheKey_of production (Str ''uniswap'') (Str uni_addr) (Str ''eth'')) =
        Some (uni_result 0 500 10)"
    by (simp add: default_param_def resolve_complete uni_truthy uni_valid clocks first_call_eval
        run_timers_def CACHE_TTL_def admit_again uni_key_def[symmetric])
  have h1: "api_validateInput (Str ''uniswap'') (Str uni_addr) (default_param (Str ''eth'') (Str ''eth'')) = Inr () \<and>
      fst (checkRateLimit (now_admission ?w') (default_param (Str ''alice'') (Str ''default''))
        (requestCounts ?t)) = Inr () \<and>
      cache ?t (cacheKey_of production (Str ''uniswap'') (Str uni_addr)
        (default_param (Str ''eth'') (Str ''eth''))) = Some (api_uni_result 0 500 10)"
    by (simp add: default_param_def api_uni_valid clocks api_first_call_eval admit_again
        uni_key_def[symmetric])
  have hit3: "fst (second_call production) = with_fromCache (uni_result 0 500 10) \<and>
      snd (snd (second_call production)) =
        [Validation, Admission (Str ''alice''), Cache_lookup (uni_key production)]"
    using again[THEN conjunct1, THEN conjunct2, THEN conjunct2, THEN conjunct2, THEN conjunct2,
        THEN conjunct2, THEN mp, OF h3]
    by (simp add: second_call_def uni_call_def default_param_def resolve_complete uni_truthy
        uni_key_def)
  have hit1: "fst (api_second_call production) = with_fromCache (api_uni_result 0 500 10) \<and>
      snd (snd (api_second_call production)) =
        [Validation, Admission (Str ''alice''), Cache_lookup (uni_key production)]"
    using again[THEN conjunct2, THEN conjunct2, THEN conjunct2, THEN conjunct2, THEN conjunct2,
        THEN conjunct2, THEN conjunct2, THEN mp, OF h1]
    by (simp add: api_second_call_def api_uni_call_def default_param_def uni_key_def)
  from tr3 srt first adm3 tr2 tr1 adm1 hit3 hit1 show ?thesis by simp
qed

text \<open>
  Claim C8 as stated fails on \<open>src/unnamed/part_001\<close>. The client \<open>default\<close> has used
  up its 100 requests; the request of the page is denied, and before it is denied the
  analyzer has sent the search and the detail request to the market provider.
\<close>

theorem resolution_before_admission_counterexample:
  "fst (name_call development (upstream_ok 0 500 10) busy_analyzer) =
     Failure ''Rate limit exceeded'' 500 500 \<and>
   snd (snd (name_call development (upstream_ok 0 500 10) busy_analyzer)) =
     [Call_search ''uniswap'', Call_detail ''uniswap'', Validation, Admission (Str ''default'')]"
  by (simp add: name_call_def analyze_unfold analyze_try_def default_param_def name_resolve
      uni_valid busy_denied clocks)

end
